theory Spec2Isabelle
  imports Main "HOL-Library.Word" "HOL-Library.Sublist"
begin

section \<open>C strings in a fixed block of memory\<close>

text \<open>
  The four sketches (8266\_HW\_630, ESP01\_OLED\_V2, OLED13\_NTP\_V1, ESP32\_OLED\_V1) work on
  \<open>char\<close> arrays and on a block obtained from \<open>malloc\<close>. A block is the list of its
  bytes, its length the number of bytes allocated. Reading or writing outside the block,
  or running off its end while looking for the terminator, is a fault: the C program has
  no defined behaviour there, and the model says so instead of inventing one.
\<close>

definition NUL :: char where
  "NUL = CHR 0x00"

datatype fault = OutOfBounds | Unterminated | BadIndex | Indeterminate

type_synonym buffer = "char list"

text \<open>The text of the C string that starts at the first byte of an array.\<close>

definition c_str :: "char list \<Rightarrow> string" where
  "c_str b = takeWhile (\<lambda>c. c \<noteq> NUL) b"

text \<open>\<open>strlen(b + i)\<close>: the number of bytes before the first NUL at or after offset \<open>i\<close>.\<close>

definition strlen :: "buffer \<Rightarrow> nat \<Rightarrow> fault + nat" where
  "strlen b i =
     (if NUL \<in> set (drop i b) then Inr (length (c_str (drop i b))) else Inl Unterminated)"

text \<open>
  The offset of the first place of a text where \<open>tag\<close> starts; the empty tag starts at
  offset 0, as the C library has it.
\<close>

fun find_sub :: "string \<Rightarrow> string \<Rightarrow> nat option" where
  "find_sub tag [] = (if tag = [] then Some 0 else None)"
| "find_sub tag (c # cs) =
     (if prefix tag (c # cs) then Some 0 else map_option Suc (find_sub tag cs))"

text \<open>\<open>strstr(b, tag)\<close>: \<open>None\<close> is the null pointer, \<open>Some pos\<close> the offset found.\<close>

definition strstr :: "buffer \<Rightarrow> string \<Rightarrow> fault + nat option" where
  "strstr b tag = (if NUL \<in> set b then Inr (find_sub tag (c_str b)) else Inl Unterminated)"

text \<open>
  \<open>memmove(b + dst, b + src, n)\<close> inside one block: the \<open>n\<close> bytes are read before any
  is written, so the two ranges may overlap.
\<close>

definition memmove :: "buffer \<Rightarrow> nat \<Rightarrow> nat \<Rightarrow> nat \<Rightarrow> fault + buffer" where
  "memmove b dst src n =
     (if src + n \<le> length b \<and> dst + n \<le> length b
      then Inr (take dst b @ take n (drop src b) @ drop (dst + n) b)
      else Inl OutOfBounds)"

text \<open>\<open>memcpy(b + dst, v, n)\<close> from a string \<open>v\<close> that lives outside the block.\<close>

definition memcpy :: "buffer \<Rightarrow> nat \<Rightarrow> string \<Rightarrow> nat \<Rightarrow> fault + buffer" where
  "memcpy b dst v n =
     (if dst + n \<le> length b \<and> n \<le> length v
      then Inr (take dst b @ take n v @ drop (dst + n) b)
      else Inl OutOfBounds)"

section \<open>Template substitution in \<open>handleSettings\<close>\<close>

text \<open>
  The lambda \<open>replaceTag\<close> of 8266\_HW\_630 and ESP01\_OLED\_V2:
  \<^verbatim>\<open>
    char *pos = strstr(html, tag);
    if (!pos) return;
    size_t tagLen = strlen(tag);
    size_t valLen = strlen(val);
    size_t tailLen = strlen(pos + tagLen);
    memmove(pos + valLen, pos + tagLen, tailLen + 1);
    memcpy(pos, val, valLen);
  \<close>
  \<open>tag\<close> and \<open>val\<close> are C strings, given by their text.
\<close>

definition replaceTag :: "buffer \<Rightarrow> string \<Rightarrow> string \<Rightarrow> fault + buffer" where
  "replaceTag html tag val =
     (case strstr html tag of
        Inl f \<Rightarrow> Inl f
      | Inr None \<Rightarrow> Inr html
      | Inr (Some pos) \<Rightarrow>
          (let tagLen = length tag; valLen = length val in
           case strlen html (pos + tagLen) of
             Inl f \<Rightarrow> Inl f
           | Inr tailLen \<Rightarrow>
               (case memmove html (pos + valLen) (pos + tagLen) (tailLen + 1) of
                  Inl f \<Rightarrow> Inl f
                | Inr html' \<Rightarrow> memcpy html' pos val valLen)))"

text \<open>
  The lambda \<open>rep\<close> of OLED13\_NTP\_V1, which computes the tail length inside the call:
  \<^verbatim>\<open>
    char *pos = strstr(h, tag);
    if (!pos) return;
    size_t tl = strlen(tag), vl = strlen(val);
    memmove(pos + vl, pos + tl, strlen(pos + tl) + 1);
    memcpy(pos, val, vl);
  \<close>
\<close>

definition rep :: "buffer \<Rightarrow> string \<Rightarrow> string \<Rightarrow> fault + buffer" where
  "rep h tag val =
     (case strstr h tag of
        Inl f \<Rightarrow> Inl f
      | Inr None \<Rightarrow> Inr h
      | Inr (Some pos) \<Rightarrow>
          (let tl = length tag; vl = length val in
           case strlen h (pos + tl) of
             Inl f \<Rightarrow> Inl f
           | Inr n \<Rightarrow>
               (case memmove h (pos + vl) (pos + tl) (n + 1) of
                  Inl f \<Rightarrow> Inl f
                | Inr h' \<Rightarrow> memcpy h' pos val vl)))"

text \<open>
  What the substitution is meant to leave of a text: the part before the first occurrence
  of the tag, the value, and the part after that occurrence; the text itself when the tag
  does not occur.
\<close>

definition substituted :: "string \<Rightarrow> string \<Rightarrow> string \<Rightarrow> string" where
  "substituted tag val s =
     (case find_sub tag s of
        None \<Rightarrow> s
      | Some p \<Rightarrow> take p s @ val @ drop (p + length tag) s)"

section \<open>Library calls shared by the sketches\<close>

text \<open>Running a step that may fault after one that did not.\<close>

definition and_then :: "fault + 'a \<Rightarrow> ('a \<Rightarrow> fault + 'b) \<Rightarrow> fault + 'b" where
  "and_then r f = (case r of Inl e \<Rightarrow> Inl e | Inr x \<Rightarrow> f x)"

text \<open>
  A \<open>char\<close> array of a struct read as a C string (\<open>strlen(cfg.ssid)\<close>, \<open>%s\<close>): without
  a NUL inside the array the read leaves the field.
\<close>

definition field_str :: "char list \<Rightarrow> fault + string" where
  "field_str a = (if NUL \<in> set a then Inr (c_str a) else Inl Unterminated)"

text \<open>
  \<open>strlcpy(dst, src, sz)\<close> with \<open>sz = sizeof(dst)\<close>: at most \<open>sz - 1\<close> bytes of
  the text and a terminator; the bytes of \<open>dst\<close> behind the terminator stay.
\<close>

definition strlcpy :: "char list \<Rightarrow> string \<Rightarrow> nat \<Rightarrow> char list" where
  "strlcpy dst src sz =
     (if sz = 0 then dst
      else (let n = min (length src) (sz - 1) in take n src @ NUL # drop (Suc n) dst))"

text \<open>An element of a constant table, \<open>DAYS[i]\<close>: outside the table there is none.\<close>

definition at_index :: "'a list \<Rightarrow> int \<Rightarrow> fault + 'a" where
  "at_index xs i = (if 0 \<le> i \<and> i < int (length xs) then Inr (xs ! nat i) else Inl BadIndex)"

text \<open>Decimal output of \<open>printf\<close>: \<open>%u\<close>, \<open>%d\<close>, and a minimum width filled with zeros.\<close>

definition digit :: "nat \<Rightarrow> char" where
  "digit d = ''0123456789'' ! d"

fun dec :: "nat \<Rightarrow> string" where
  "dec n = (if n < 10 then [digit n] else dec (n div 10) @ [digit (n mod 10)])"

declare dec.simps [simp del]

definition sdec :: "int \<Rightarrow> string" where
  "sdec i = (if i < 0 then CHR ''-'' # dec (nat (- i)) else dec (nat i))"

definition zero_pad :: "nat \<Rightarrow> string \<Rightarrow> string" where
  "zero_pad w s = replicate (w - length s) CHR ''0'' @ s"

text \<open>What \<open>snprintf(buf, sz, ...)\<close> leaves in \<open>buf\<close> of the formatted text.\<close>

definition snprintf :: "nat \<Rightarrow> string \<Rightarrow> string" where
  "snprintf sz text = take (sz - 1) text"

text \<open>\<open>millis()\<close> is a \<open>uint32_t\<close>; differences of two readings wrap around.\<close>

type_synonym millis_t = "32 word"

text \<open>The fields of \<open>struct tm\<close> the sketches read.\<close>

record tm =
  tm_sec :: int
  tm_min :: int
  tm_hour :: int
  tm_mday :: int
  tm_mon :: int
  tm_year :: int
  tm_wday :: int

subsection \<open>The web server\<close>

datatype http_method = HTTP_ANY | HTTP_GET | HTTP_POST | HTTP_PUT | HTTP_DELETE

record http_request =
  req_method :: http_method
  req_uri :: string
  req_args :: "(string \<times> string) list"

text \<open>
  What a handler sends: the status code, the headers added with \<open>sendHeader\<close>, the
  content type (\<open>None\<close> when \<open>send\<close> is called with the code alone) and the body.
\<close>

record http_response =
  resp_code :: nat
  resp_headers :: "(string \<times> string) list"
  resp_type :: "string option"
  resp_body :: string

definition hasArg :: "http_request \<Rightarrow> string \<Rightarrow> bool" where
  "hasArg r name = (map_of (req_args r) name \<noteq> None)"

text \<open>\<open>server.arg(name).c_str()\<close>: the text of the argument up to its first NUL.\<close>

definition arg :: "http_request \<Rightarrow> string \<Rightarrow> string" where
  "arg r name = (case map_of (req_args r) name of None \<Rightarrow> [] | Some v \<Rightarrow> c_str v)"

text \<open>
  \<open>server.on(uri, method, handler)\<close> appends a route; \<open>server.on(uri, handler)\<close> registers
  it for \<open>HTTP_ANY\<close>. A request goes to the first route registered for its path and its
  method, and to the \<open>onNotFound\<close> handler when there is none.
\<close>

type_synonym 'h route = "string \<times> http_method \<times> 'h"

definition canHandle :: "http_request \<Rightarrow> 'h route \<Rightarrow> bool" where
  "canHandle r rt =
     (case rt of (uri, m, h) \<Rightarrow> (m = HTTP_ANY \<or> m = req_method r) \<and> uri = req_uri r)"

definition find_handler :: "'h route list \<Rightarrow> http_request \<Rightarrow> 'h option" where
  "find_handler routes r = map_option (\<lambda>rt. snd (snd rt)) (find (canHandle r) routes)"

subsection \<open>The display of the ESP8266 sketches\<close>

text \<open>The calls made on \<open>SSD1306Wire\<close> and \<open>SH1106Wire\<close> after \<open>init\<close>.\<close>

datatype font = ArialMT_Plain_10 | ArialMT_Plain_16 | ArialMT_Plain_24

datatype wire_op =
    Clear
  | SetFont font
  | SetTextAlignment_CENTER
  | DrawString int int string
  | FillRect int int int int
  | DrawRect int int int int
  | Display

definition DAYS :: "string list" where
  "DAYS = [''Sun'', ''Mon'', ''Tue'', ''Wed'', ''Thu'', ''Fri'', ''Sat'']"

definition MONTHS :: "string list" where
  "MONTHS = [''Jan'', ''Feb'', ''Mar'', ''Apr'', ''May'', ''Jun'',
             ''Jul'', ''Aug'', ''Sep'', ''Oct'', ''Nov'', ''Dec'']"

text \<open>OLED13\_NTP\_V1 calls its table of months \<open>MONS\<close>.\<close>

definition MONS :: "string list" where
  "MONS = [''Jan'', ''Feb'', ''Mar'', ''Apr'', ''May'', ''Jun'',
           ''Jul'', ''Aug'', ''Sep'', ''Oct'', ''Nov'', ''Dec'']"

subsection \<open>The NTP snapshot of 8266\_HW\_630 and ESP01\_OLED\_V2\<close>

record NTPData =
  hour :: "8 word"
  minute :: "8 word"
  second :: "8 word"
  day :: "8 word"
  month :: "8 word"
  year :: "16 word"
  wday :: "8 word"
  synced :: bool

text \<open>
  \<open>ntpUpdate\<close>, the same text in both sketches; \<open>now\<close> is what \<open>time(nullptr)\<close> returns
  and \<open>lt\<close> what \<open>localtime\<close> returns for it:
  \<^verbatim>\<open>
    time_t now = time(nullptr);
    if (now < 100000) return;
    struct tm *lt = localtime(&now);
    ntpData.hour   = lt->tm_hour;   ...
    ntpData.month  = lt->tm_mon + 1;
    ntpData.year   = lt->tm_year + 1900;
    ntpData.wday   = lt->tm_wday;
    ntpData.synced = true;
  \<close>
\<close>

definition ntpUpdate :: "int \<Rightarrow> tm \<Rightarrow> NTPData \<Rightarrow> NTPData" where
  "ntpUpdate now lt ntpData =
     (if now < 100000 then ntpData
      else ntpData\<lparr>hour := word_of_int (tm_hour lt),
                   minute := word_of_int (tm_min lt),
                   second := word_of_int (tm_sec lt),
                   day := word_of_int (tm_mday lt),
                   month := word_of_int (tm_mon lt + 1),
                   year := word_of_int (tm_year lt + 1900),
                   wday := word_of_int (tm_wday lt),
                   synced := True\<rparr>)"

text \<open>The zero-initialised static \<open>ntpData\<close>.\<close>

definition ntpData_boot :: NTPData where
  "ntpData_boot = \<lparr>hour = 0, minute = 0, second = 0, day = 0, month = 0, year = 0,
                    wday = 0, synced = False\<rparr>"

text \<open>
  The text the two sketches draw once synced: \<open>"%02d:%02d:%02d"\<close> into \<open>timeBuf[9]\<close> and
  \<open>"%s %02d %s %04d"\<close> into \<open>dateBuf[20]\<close>.
\<close>

definition timeBuf :: "NTPData \<Rightarrow> string" where
  "timeBuf d = snprintf 9 (zero_pad 2 (dec (unat (hour d))) @ '':'' @
                           zero_pad 2 (dec (unat (minute d))) @ '':'' @
                           zero_pad 2 (dec (unat (second d))))"

definition dateBuf :: "NTPData \<Rightarrow> fault + string" where
  "dateBuf d =
     and_then (at_index DAYS (uint (wday d))) (\<lambda>dayName.
     and_then (at_index MONTHS (uint (month d) - 1)) (\<lambda>monName.
       Inr (snprintf 20 (dayName @ '' '' @ zero_pad 2 (dec (unat (day d))) @ '' '' @
                         monName @ '' '' @ zero_pad 4 (dec (unat (year d)))))))"

subsection \<open>What a sketch reads from its surroundings\<close>

text \<open>
  The sketches poll the clock, the WiFi stack, the heap and the web server. Every such
  reading of one pass through \<open>loop\<close> is a field of the record below, so a function of the
  model is a function of the globals and of what it read. \<open>fresh_mem\<close> gives the bytes a
  new \<open>malloc\<close> block happens to hold. The texts of the pages kept in flash are not part
  of any claim and are parameters, too.
\<close>

record env =
  time_now :: int
  local_tm :: tm
  millis_oled_test :: millis_t
  millis_oled_set :: millis_t
  localIP :: string
  rssi_bars :: int
  rssi_line :: int
  request :: "http_request option"
  malloc_ok :: bool
  fresh_mem :: "nat \<Rightarrow> char"
  free_heap :: nat
  millis_api :: millis_t

record pages =
  DASHBOARD_HTML :: string
  SETTINGS_HTML :: string
  PORTAL_HTML :: string

datatype handler =
  handleRoot | handleAPI | handleSettings | handleSettingsSave | handlePortal | handlePortalSave

text \<open>\<open>malloc(n)\<close>: a block of \<open>n\<close> bytes with whatever they hold, or the null pointer.\<close>

definition malloc :: "'a env_scheme \<Rightarrow> nat \<Rightarrow> buffer option" where
  "malloc e n = (if malloc_ok e then Some (map (fresh_mem e) [0..<n]) else None)"

text \<open>
  The idiom \<open>len += snprintf(buf + len, sizeof(buf) - len, ...)\<close> of \<open>handleAPI\<close> on a
  buffer of \<open>cap\<close> bytes: the pair is the text in the buffer and \<open>len\<close>. Once \<open>len\<close>
  has passed the capacity the unsigned size wraps and the call writes outside.
\<close>

definition append_snprintf :: "nat \<Rightarrow> string \<times> nat \<Rightarrow> string \<Rightarrow> fault + string \<times> nat" where
  "append_snprintf cap b s =
     (case b of (text, len) \<Rightarrow>
        if cap < len then Inl OutOfBounds
        else Inr (if len = length text then take (cap - 1) (text @ s) else text,
                  len + length s))"

subsection \<open>Waiting for the WiFi connection\<close>

text \<open>
  At boot the sketches poll \<open>WiFi.status()\<close>. \<open>wifi_connected t\<close> says whether the
  status is \<open>WL_CONNECTED\<close> at \<open>t\<close> milliseconds after power-on, \<open>begin_time\<close> is the time
  at which the wait starts; \<open>delay(n)\<close> takes \<open>n\<close> milliseconds and the other statements
  none, so a status read again right after the loop is the one the loop saw last.
\<close>

record boot_env =
  wifi_connected :: "nat \<Rightarrow> bool"
  begin_time :: nat

text \<open>
  The loop of \<open>wifiConnect\<close> in the three ESP8266 sketches; the result is the time at
  which it is left.
  \<^verbatim>\<open>
    uint32_t start = millis();
    while (WiFi.status() != WL_CONNECTED && millis() - start < 15000) {
      delay(250);
    }
  \<close>
\<close>

function wifi_wait :: "(nat \<Rightarrow> bool) \<Rightarrow> millis_t \<Rightarrow> nat \<Rightarrow> nat" where
  "wifi_wait status start t =
     (if \<not> status t \<and> word_of_nat t - start < 15000
      then wifi_wait status start (t + 250) else t)"
  by pat_completeness auto
termination
proof (relation "measure (\<lambda>(status, start, t). 15000 - unat (word_of_nat t - start :: millis_t))")
  show "wf (measure (\<lambda>(status, start, t). 15000 - unat (word_of_nat t - start :: millis_t)))"
    by simp
next
  fix status :: "nat \<Rightarrow> bool" and start :: millis_t and t :: nat
  assume a: "\<not> status t \<and> word_of_nat t - start < 15000"
  let ?w = "word_of_nat t - start :: millis_t"
  have lt: "unat ?w < 15000" using a by (simp add: word_less_nat_alt)
  have e: "word_of_nat (t + 250) - start = ?w + 250" by simp
  have "unat (?w + 250) = unat ?w + 250"
    using lt by (simp add: unat_add_lem [THEN iffD1])
  then have "unat (word_of_nat (t + 250) - start :: millis_t) = unat ?w + 250"
    by (simp only: e)
  with lt show "((status, start, t + 250), (status, start, t))
      \<in> measure (\<lambda>(status, start, t). 15000 - unat (word_of_nat t - start :: millis_t))"
    by simp
qed

declare wifi_wait.simps [simp del]

text \<open>
  The localtime contract of the C library for the two fields used as table indices.
\<close>

definition localtime_range :: "tm \<Rightarrow> bool" where
  "localtime_range lt = (0 \<le> tm_wday lt \<and> tm_wday lt \<le> 6 \<and> 0 \<le> tm_mon lt \<and> tm_mon lt \<le> 11)"

section \<open>8266\_HW\_630\<close>

record hw_DevConfig =
  hw_magic :: "8 word"
  hw_ssid :: "char list"
  hw_pass :: "char list"
  hw_tzInfo :: "char list"

text \<open>The arrays are \<open>char ssid[33]\<close>, \<open>char pass[65]\<close> and \<open>char tzInfo[40]\<close>.\<close>

definition hw_sized :: "hw_DevConfig \<Rightarrow> bool" where
  "hw_sized c = (length (hw_ssid c) = 33 \<and> length (hw_pass c) = 65 \<and> length (hw_tzInfo c) = 40)"

definition hw_EEPROM_MAGIC :: "8 word" where
  "hw_EEPROM_MAGIC = 0xBE"

text \<open>\<open>memset(&cfg, 0, sizeof(cfg))\<close>.\<close>

definition hw_zeroed :: hw_DevConfig where
  "hw_zeroed = \<lparr>hw_magic = 0, hw_ssid = replicate 33 NUL, hw_pass = replicate 65 NUL,
                 hw_tzInfo = replicate 40 NUL\<rparr>"

text \<open>
  \<open>loadConfig\<close>, from the record the EEPROM holds:
  \<^verbatim>\<open>
    EEPROM.get(0, cfg);
    if (cfg.magic != EEPROM_MAGIC) {
      memset(&cfg, 0, sizeof(cfg));
      cfg.magic = EEPROM_MAGIC;
      strlcpy(cfg.tzInfo, "ICT-7", sizeof(cfg.tzInfo));
    }
  \<close>
\<close>

definition hw_loadConfig :: "hw_DevConfig \<Rightarrow> hw_DevConfig" where
  "hw_loadConfig eeprom =
     (let cfg = eeprom in
      if hw_magic cfg \<noteq> hw_EEPROM_MAGIC then
        (let cfg = hw_zeroed;
             cfg = cfg\<lparr>hw_magic := hw_EEPROM_MAGIC\<rparr>;
             cfg = cfg\<lparr>hw_tzInfo := strlcpy (hw_tzInfo cfg) ''ICT-7'' 40\<rparr>
         in cfg)
      else cfg)"

text \<open>\<open>saveConfig\<close>: the configuration in memory and the record now in the EEPROM.\<close>

definition hw_saveConfig :: "hw_DevConfig \<Rightarrow> hw_DevConfig \<times> hw_DevConfig" where
  "hw_saveConfig cfg = (let cfg = cfg\<lparr>hw_magic := hw_EEPROM_MAGIC\<rparr> in (cfg, cfg))"

record hw_state =
  hw_cfg :: hw_DevConfig
  hw_ntpData :: NTPData
  hw_apMode :: bool
  hw_lastOledUpdate :: millis_t
  hw_routes :: "handler route list"
  hw_eeprom :: hw_DevConfig

text \<open>The four signal bars of the synced screen, from \<open>WiFi.RSSI()\<close>.\<close>

definition hw_bars :: "int \<Rightarrow> nat" where
  "hw_bars rssi =
     (if rssi > -55 then 4 else if rssi > -70 then 3 else if rssi > -80 then 2
      else if rssi > -90 then 1 else 0)"

definition hw_signal :: "int \<Rightarrow> wire_op list" where
  "hw_signal rssi =
     map (\<lambda>i. let x = 112 + i * 4; h = 3 + i * 3 in
               if i < hw_bars rssi then FillRect (int x) (12 - int h) 3 (int h)
               else DrawRect (int x) (12 - int h) 3 (int h))
         [0..<4]"

text \<open>
  The three screens of \<open>oledUpdate\<close>, each with the \<open>oled.clear()\<close> before it and the
  \<open>oled.display()\<close> after it: the one drawn while not synced in AP mode, the one drawn
  while not synced in station mode, and the clock.
\<close>

definition hw_setup_screen :: "wire_op list" where
  "hw_setup_screen =
     [Clear, SetFont ArialMT_Plain_16, SetTextAlignment_CENTER,
      DrawString 64 8 ''WiFi Setup'', SetFont ArialMT_Plain_10,
      DrawString 64 30 ''Connect to:'', DrawString 64 44 ''ESP8266_LCD'', Display]"

definition hw_syncing_screen :: "string \<Rightarrow> wire_op list" where
  "hw_syncing_screen ip =
     [Clear, SetFont ArialMT_Plain_16, SetTextAlignment_CENTER,
      DrawString 64 12 ''Syncing NTP...'', SetFont ArialMT_Plain_10,
      DrawString 64 36 ip, Display]"

definition hw_clock_screen :: "'a env_scheme \<Rightarrow> bool \<Rightarrow> NTPData \<Rightarrow> string \<Rightarrow> wire_op list" where
  "hw_clock_screen e apMode d date =
     [Clear] @
     (if \<not> apMode then hw_signal (rssi_bars e) else []) @
     [SetFont ArialMT_Plain_24, SetTextAlignment_CENTER,
      DrawString 64 2 (timeBuf d),
      SetFont ArialMT_Plain_10, DrawString 64 32 date] @
     (if \<not> apMode
      then [DrawString 64 50 (snprintf 28 (localIP e @ ''  '' @ sdec (rssi_line e) @ ''dBm''))]
      else []) @
     [Display]"

text \<open>
  \<open>oledUpdate\<close>. The first reading of \<open>millis()\<close> is tested, the second is stored.
  \<^verbatim>\<open>
    if (millis() - lastOledUpdate < 500) return;
    lastOledUpdate = millis();
    oled.clear();
    if (!ntpData.synced) {
      ...
      if (apMode) { ... "WiFi Setup" ... } else { ... "Syncing NTP..." ... }
      oled.display();
      return;
    }
    ... signal bars, time, date, address ...
    oled.display();
  \<close>
\<close>

definition hw_oledUpdate :: "'a env_scheme \<Rightarrow> hw_state \<Rightarrow> fault + hw_state \<times> wire_op list" where
  "hw_oledUpdate e st =
     (if millis_oled_test e - hw_lastOledUpdate st < 500 then Inr (st, [])
      else
        (let st = st\<lparr>hw_lastOledUpdate := millis_oled_set e\<rparr> in
         if \<not> synced (hw_ntpData st) then
           (if hw_apMode st then Inr (st, hw_setup_screen)
            else Inr (st, hw_syncing_screen (localIP e)))
         else
           and_then (dateBuf (hw_ntpData st)) (\<lambda>date.
             Inr (st, hw_clock_screen e (hw_apMode st) (hw_ntpData st) date))))"

text \<open>\<open>handleRoot\<close> and \<open>handlePortal\<close> send a page from flash.\<close>

definition send_P :: "string \<Rightarrow> http_response" where
  "send_P page = \<lparr>resp_code = 200, resp_headers = [], resp_type = Some ''text/html'',
                   resp_body = page\<rparr>"

text \<open>\<open>handleAPI\<close> with \<open>char buf[192]\<close>; the closing brace is stored by hand.\<close>

definition hw_handleAPI :: "'a env_scheme \<Rightarrow> hw_state \<Rightarrow> fault + http_response" where
  "hw_handleAPI e st =
     and_then (append_snprintf 192 ([], 0)
                 (''{\"heap\":'' @ dec (free_heap e) @ '',\"up\":'' @
                  dec (unat (millis_api e) div 1000))) (\<lambda>b.
     and_then (if \<not> hw_apMode st
               then append_snprintf 192 b ('',\"ip\":\"'' @ localIP e @ ''\"'')
               else Inr b) (\<lambda>b.
     and_then (field_str (hw_tzInfo (hw_cfg st))) (\<lambda>tz.
     and_then (append_snprintf 192 b ('',\"tz\":\"'' @ tz @ ''\"'')) (\<lambda>b.
     and_then (if synced (hw_ntpData st)
               then and_then (at_index MONTHS (uint (month (hw_ntpData st)) - 1)) (\<lambda>monName.
                    and_then (at_index DAYS (uint (wday (hw_ntpData st)))) (\<lambda>dayName.
                      append_snprintf 192 b
                        ('',\"time\":\"'' @ timeBuf (hw_ntpData st) @
                         ''\",\"date\":\"'' @
                         snprintf 16 (zero_pad 2 (dec (unat (day (hw_ntpData st)))) @ '' '' @
                                      monName @ '' '' @
                                      zero_pad 4 (dec (unat (year (hw_ntpData st))))) @
                         ''\",\"day\":\"'' @ dayName @ ''\"'')))
               else Inr b) (\<lambda>b.
       case b of (text, len) \<Rightarrow>
         if len + 1 < 192
         then Inr \<lparr>resp_code = 200, resp_headers = [], resp_type = Some ''application/json'',
                    resp_body = text @ ''}''\<rparr>
         else Inl OutOfBounds)))))"

text \<open>
  \<open>handleSettings\<close>: the page is copied into a block of \<open>pgmLen + 200\<close> bytes and the
  three tags are replaced in it.
  \<^verbatim>\<open>
    size_t pgmLen = strlen_P(SETTINGS_HTML);
    char *page = (char *)malloc(pgmLen + 200);
    if (!page) { server.send(500, "text/plain", "OOM"); return; }
    memcpy_P(page, SETTINGS_HTML, pgmLen + 1);
    replaceTag(page, "{{SSID}}", cfg.ssid);
    replaceTag(page, "{{PASS}}", cfg.pass);
    replaceTag(page, "{{TZ}}", cfg.tzInfo);
    server.send(200, "text/html", page);
  \<close>
\<close>

definition hw_handleSettings ::
    "'a env_scheme \<Rightarrow> string \<Rightarrow> hw_DevConfig \<Rightarrow> fault + http_response" where
  "hw_handleSettings e settings_html cfg =
     (let pgmLen = length settings_html in
      case malloc e (pgmLen + 200) of
        None \<Rightarrow> Inr \<lparr>resp_code = 500, resp_headers = [], resp_type = Some ''text/plain'',
                      resp_body = ''OOM''\<rparr>
      | Some page \<Rightarrow>
          and_then (memcpy page 0 (settings_html @ [NUL]) (pgmLen + 1)) (\<lambda>page.
          and_then (field_str (hw_ssid cfg)) (\<lambda>v.
          and_then (replaceTag page ''{{SSID}}'' v) (\<lambda>page.
          and_then (field_str (hw_pass cfg)) (\<lambda>v.
          and_then (replaceTag page ''{{PASS}}'' v) (\<lambda>page.
          and_then (field_str (hw_tzInfo cfg)) (\<lambda>v.
          and_then (replaceTag page ''{{TZ}}'' v) (\<lambda>page.
            Inr \<lparr>resp_code = 200, resp_headers = [], resp_type = Some ''text/html'',
                 resp_body = c_str page\<rparr>))))))))"

text \<open>
  \<open>handleSettingsSave\<close> and \<open>handlePortalSave\<close> copy the arguments that are present,
  save, answer and restart; the result is the configuration saved, the EEPROM and the
  answer.
\<close>

definition hw_store_args :: "http_request \<Rightarrow> hw_DevConfig \<Rightarrow> hw_DevConfig" where
  "hw_store_args r cfg =
     (let cfg = (if hasArg r ''ssid''
                 then cfg\<lparr>hw_ssid := strlcpy (hw_ssid cfg) (arg r ''ssid'') 33\<rparr> else cfg);
          cfg = (if hasArg r ''pass''
                 then cfg\<lparr>hw_pass := strlcpy (hw_pass cfg) (arg r ''pass'') 65\<rparr> else cfg);
          cfg = (if hasArg r ''tz''
                 then cfg\<lparr>hw_tzInfo := strlcpy (hw_tzInfo cfg) (arg r ''tz'') 40\<rparr> else cfg)
      in cfg)"

definition saved_redirect :: http_response where
  "saved_redirect = \<lparr>resp_code = 302, resp_headers = [(''Location'', ''/settings?saved=1'')],
                      resp_type = None, resp_body = []\<rparr>"

definition saved_page :: http_response where
  "saved_page = \<lparr>resp_code = 200, resp_headers = [], resp_type = Some ''text/html'',
     resp_body = ''<html><body style='' @ [CHR 0x27] @
       ''background:#1a1a2e;color:#fff;text-align:center;padding:40px'' @ [CHR 0x27] @
       ''><h2>Saved! Rebooting...</h2></body></html>''\<rparr>"

definition hw_handleSettingsSave ::
    "http_request \<Rightarrow> hw_DevConfig \<Rightarrow> hw_DevConfig \<times> hw_DevConfig \<times> http_response" where
  "hw_handleSettingsSave r cfg =
     (case hw_saveConfig (hw_store_args r cfg) of (cfg, eeprom) \<Rightarrow> (cfg, eeprom, saved_redirect))"

definition hw_handlePortalSave ::
    "http_request \<Rightarrow> hw_DevConfig \<Rightarrow> hw_DevConfig \<times> hw_DevConfig \<times> http_response" where
  "hw_handlePortalSave r cfg =
     (case hw_saveConfig (hw_store_args r cfg) of (cfg, eeprom) \<Rightarrow> (cfg, eeprom, saved_page))"

text \<open>
  \<open>handleNotFound\<close>, the same text in the three ESP8266 sketches:
  \<^verbatim>\<open>
    if (apMode) {
      server.sendHeader("Location", "http://192.168.4.1/");
      server.send(302);
    } else {
      server.send(404, "text/plain", "Not Found");
    }
  \<close>
\<close>

definition handleNotFound :: "bool \<Rightarrow> http_response" where
  "handleNotFound apMode =
     (if apMode
      then \<lparr>resp_code = 302, resp_headers = [(''Location'', ''http://192.168.4.1/'')],
            resp_type = None, resp_body = []\<rparr>
      else \<lparr>resp_code = 404, resp_headers = [], resp_type = Some ''text/plain'',
            resp_body = ''Not Found''\<rparr>)"

text \<open>
  \<open>wifiConnect\<close>:
  \<^verbatim>\<open>
    if (cfg.ssid[0] == '\0') return false;
    WiFi.mode(WIFI_STA);
    WiFi.begin(cfg.ssid, cfg.pass);
    ... the wait ...
    if (WiFi.status() == WL_CONNECTED) { ...; return true; }
    return false;
  \<close>
\<close>

definition hw_wifiConnect :: "boot_env \<Rightarrow> hw_DevConfig \<Rightarrow> bool" where
  "hw_wifiConnect b cfg =
     (if hw_ssid cfg ! 0 = NUL then False
      else (let start = word_of_nat (begin_time b);
                t = wifi_wait (wifi_connected b) start (begin_time b)
            in wifi_connected b t))"

definition hw_startAP :: "hw_state \<Rightarrow> hw_state" where
  "hw_startAP st =
     st\<lparr>hw_apMode := True,
        hw_routes := [(''/'', HTTP_ANY, handlePortal),
                      (''/save'', HTTP_POST, handlePortalSave),
                      (''/settings'', HTTP_GET, handleSettings),
                      (''/settings'', HTTP_POST, handleSettingsSave),
                      (''/api/data'', HTTP_ANY, handleAPI)]\<rparr>"

definition hw_startSTA :: "hw_state \<Rightarrow> hw_state" where
  "hw_startSTA st =
     st\<lparr>hw_apMode := False,
        hw_routes := [(''/'', HTTP_ANY, handleRoot),
                      (''/settings'', HTTP_GET, handleSettings),
                      (''/settings'', HTTP_POST, handleSettingsSave),
                      (''/api/data'', HTTP_ANY, handleAPI)]\<rparr>"

text \<open>The statics as the C runtime initialises them, with the EEPROM as it is found.\<close>

definition hw_boot :: "hw_DevConfig \<Rightarrow> hw_state" where
  "hw_boot eeprom =
     \<lparr>hw_cfg = hw_zeroed, hw_ntpData = ntpData_boot, hw_apMode = False,
      hw_lastOledUpdate = 0, hw_routes = [], hw_eeprom = eeprom\<rparr>"

text \<open>
  \<open>setup\<close>, without the serial output and the splash screen:
  \<^verbatim>\<open>
    loadConfig();
    if (wifiConnect()) { startSTA(); } else { startAP(); }
  \<close>
\<close>

definition hw_setup :: "boot_env \<Rightarrow> hw_DevConfig \<Rightarrow> hw_state" where
  "hw_setup b eeprom =
     (let st = hw_boot eeprom;
          st = st\<lparr>hw_cfg := hw_loadConfig (hw_eeprom st)\<rparr>
      in if hw_wifiConnect b (hw_cfg st) then hw_startSTA st else hw_startAP st)"

text \<open>
  \<open>server.handleClient()\<close> with the request waiting, if any: the globals afterwards, the
  answer sent, and whether the handler ended in \<open>ESP.restart()\<close>.
\<close>

definition hw_handleClient ::
    "pages \<Rightarrow> 'a env_scheme \<Rightarrow> hw_state \<Rightarrow> fault + hw_state \<times> http_response option \<times> bool" where
  "hw_handleClient pg e st =
     (case request e of
        None \<Rightarrow> Inr (st, None, False)
      | Some r \<Rightarrow>
          (case find_handler (hw_routes st) r of
             None \<Rightarrow> Inr (st, Some (handleNotFound (hw_apMode st)), False)
           | Some handleRoot \<Rightarrow> Inr (st, Some (send_P (DASHBOARD_HTML pg)), False)
           | Some handlePortal \<Rightarrow> Inr (st, Some (send_P (PORTAL_HTML pg)), False)
           | Some handleAPI \<Rightarrow>
               and_then (hw_handleAPI e st) (\<lambda>a. Inr (st, Some a, False))
           | Some handleSettings \<Rightarrow>
               and_then (hw_handleSettings e (SETTINGS_HTML pg) (hw_cfg st))
                 (\<lambda>a. Inr (st, Some a, False))
           | Some handleSettingsSave \<Rightarrow>
               (case hw_handleSettingsSave r (hw_cfg st) of
                  (cfg, eeprom, a) \<Rightarrow> Inr (st\<lparr>hw_cfg := cfg, hw_eeprom := eeprom\<rparr>, Some a, True))
           | Some handlePortalSave \<Rightarrow>
               (case hw_handlePortalSave r (hw_cfg st) of
                  (cfg, eeprom, a) \<Rightarrow> Inr (st\<lparr>hw_cfg := cfg, hw_eeprom := eeprom\<rparr>, Some a, True))))"

text \<open>
  One pass through \<open>loop\<close>; the DNS server and the OTA service touch none of the globals.
  \<^verbatim>\<open>
    if (!apMode) ntpUpdate();
    oledUpdate();
    server.handleClient();
    if (apMode) { dnsServer.processNextRequest(); } else { ArduinoOTA.handle(); }
  \<close>
  The result holds the globals, what was drawn, the answer sent and the restart flag.
\<close>

definition hw_loop ::
    "pages \<Rightarrow> 'a env_scheme \<Rightarrow> hw_state \<Rightarrow>
       fault + hw_state \<times> wire_op list \<times> http_response option \<times> bool" where
  "hw_loop pg e st =
     (let st = (if \<not> hw_apMode st
                then st\<lparr>hw_ntpData := ntpUpdate (time_now e) (local_tm e) (hw_ntpData st)\<rparr>
                else st)
      in and_then (hw_oledUpdate e st) (\<lambda>(st, ops).
         and_then (hw_handleClient pg e st) (\<lambda>(st, a, restart).
           Inr (st, ops, a, restart))))"


section \<open>OLED13\_NTP\_V1\<close>

record o13_DevConfig =
  o13_magic :: "8 word"
  o13_ssid :: "char list"
  o13_pass :: "char list"
  o13_tz :: "char list"

definition o13_EEPROM_MAGIC :: "8 word" where
  "o13_EEPROM_MAGIC = 0xE7"

definition o13_zeroed :: o13_DevConfig where
  "o13_zeroed = \<lparr>o13_magic = 0, o13_ssid = replicate 33 NUL, o13_pass = replicate 65 NUL,
                  o13_tz = replicate 40 NUL\<rparr>"

text \<open>\<open>loadCfg\<close> and \<open>saveCfg\<close>, as in 8266\_HW\_630 with the field \<open>tz\<close>.\<close>

definition o13_loadCfg :: "o13_DevConfig \<Rightarrow> o13_DevConfig" where
  "o13_loadCfg eeprom =
     (let cfg = eeprom in
      if o13_magic cfg \<noteq> o13_EEPROM_MAGIC then
        (let cfg = o13_zeroed;
             cfg = cfg\<lparr>o13_magic := o13_EEPROM_MAGIC\<rparr>;
             cfg = cfg\<lparr>o13_tz := strlcpy (o13_tz cfg) ''ICT-7'' 40\<rparr>
         in cfg)
      else cfg)"

definition o13_saveCfg :: "o13_DevConfig \<Rightarrow> o13_DevConfig \<times> o13_DevConfig" where
  "o13_saveCfg cfg = (let cfg = cfg\<lparr>o13_magic := o13_EEPROM_MAGIC\<rparr> in (cfg, cfg))"

text \<open>The snapshot is kept in the statics \<open>ntpH\<close>, ..., \<open>ntpSynced\<close>.\<close>

record o13_state =
  o13_cfg :: o13_DevConfig
  ntpH :: "8 word"
  ntpM :: "8 word"
  ntpS :: "8 word"
  ntpDay :: "8 word"
  ntpMon :: "8 word"
  ntpWday :: "8 word"
  ntpYear :: "16 word"
  ntpSynced :: bool
  o13_apMode :: bool
  lastOled :: millis_t
  ledState :: bool
  o13_routes :: "handler route list"
  o13_eeprom :: o13_DevConfig

text \<open>
  \<open>ntpUpdate\<close>:
  \<^verbatim>\<open>
    time_t now = time(nullptr);
    if (now < 100000) return;
    struct tm *t = localtime(&now);
    ntpH = t->tm_hour; ntpM = t->tm_min; ntpS = t->tm_sec;
    ntpDay = t->tm_mday; ntpMon = t->tm_mon + 1;
    ntpYear = t->tm_year + 1900; ntpWday = t->tm_wday;
    ntpSynced = true;
  \<close>
\<close>

definition o13_ntpUpdate :: "int \<Rightarrow> tm \<Rightarrow> o13_state \<Rightarrow> o13_state" where
  "o13_ntpUpdate now t st =
     (if now < 100000 then st
      else st\<lparr>ntpH := word_of_int (tm_hour t), ntpM := word_of_int (tm_min t),
              ntpS := word_of_int (tm_sec t), ntpDay := word_of_int (tm_mday t),
              ntpMon := word_of_int (tm_mon t + 1),
              ntpYear := word_of_int (tm_year t + 1900),
              ntpWday := word_of_int (tm_wday t), ntpSynced := True\<rparr>)"

text \<open>
  The three screens of \<open>oledUpdate\<close>; the clock formats both lines into \<open>buf[20]\<close>,
  the date with \<open>"%s %d %s %d"\<close>.
\<close>

definition o13_setup_screen :: "wire_op list" where
  "o13_setup_screen =
     [Clear, SetFont ArialMT_Plain_16, SetTextAlignment_CENTER,
      DrawString 64 10 ''WiFi Setup'', SetFont ArialMT_Plain_10,
      DrawString 64 36 ''AP: OLED13_Setup'', Display]"

definition o13_syncing_screen :: "string \<Rightarrow> wire_op list" where
  "o13_syncing_screen ip =
     [Clear, SetFont ArialMT_Plain_16, SetTextAlignment_CENTER,
      DrawString 64 10 ''Syncing NTP...'', SetFont ArialMT_Plain_10,
      DrawString 64 36 ip, Display]"

definition o13_clock_screen :: "o13_state \<Rightarrow> string \<Rightarrow> string \<Rightarrow> wire_op list" where
  "o13_clock_screen st dayName monName =
     [Clear,
      SetFont ArialMT_Plain_24, SetTextAlignment_CENTER,
      DrawString 64 5
        (snprintf 20 (zero_pad 2 (dec (unat (ntpH st))) @ '':'' @
                      zero_pad 2 (dec (unat (ntpM st))) @ '':'' @
                      zero_pad 2 (dec (unat (ntpS st))))),
      SetFont ArialMT_Plain_16,
      DrawString 64 40
        (snprintf 20 (dayName @ '' '' @ dec (unat (ntpDay st)) @ '' '' @
                      monName @ '' '' @ dec (unat (ntpYear st)))),
      Display]"

text \<open>
  \<open>oledUpdate\<close>, which toggles the LED after the clock has been shown:
  \<^verbatim>\<open>
    if (millis() - lastOled < 500) return;
    lastOled = millis();
    oled.clear();
    if (!ntpSynced) {
      ...
      if (apMode) { ... "WiFi Setup" ... } else { ... "Syncing NTP..." ... }
      oled.display();
      return;
    }
    ... time, date ...
    oled.display();
    ledState = !ledState;
  \<close>
\<close>

definition o13_oledUpdate :: "'a env_scheme \<Rightarrow> o13_state \<Rightarrow> fault + o13_state \<times> wire_op list" where
  "o13_oledUpdate e st =
     (if millis_oled_test e - lastOled st < 500 then Inr (st, [])
      else
        (let st = st\<lparr>lastOled := millis_oled_set e\<rparr> in
         if \<not> ntpSynced st then
           (if o13_apMode st then Inr (st, o13_setup_screen)
            else Inr (st, o13_syncing_screen (localIP e)))
         else
           and_then (at_index DAYS (uint (ntpWday st))) (\<lambda>dayName.
           and_then (at_index MONS (uint (ntpMon st) - 1)) (\<lambda>monName.
             Inr (st\<lparr>ledState := \<not> ledState st\<rparr>, o13_clock_screen st dayName monName)))))"

text \<open>\<open>handleAPI\<close> with \<open>char buf[200]\<close>; the closing brace goes through \<open>snprintf\<close>.\<close>

definition o13_handleAPI :: "'a env_scheme \<Rightarrow> o13_state \<Rightarrow> fault + http_response" where
  "o13_handleAPI e st =
     and_then (append_snprintf 200 ([], 0)
                 (''{\"heap\":'' @ dec (free_heap e) @ '',\"up\":'' @
                  dec (unat (millis_api e) div 1000))) (\<lambda>b.
     and_then (if \<not> o13_apMode st
               then append_snprintf 200 b ('',\"ip\":\"'' @ localIP e @ ''\"'')
               else Inr b) (\<lambda>b.
     and_then (field_str (o13_tz (o13_cfg st))) (\<lambda>tz.
     and_then (append_snprintf 200 b ('',\"tz\":\"'' @ tz @ ''\"'')) (\<lambda>b.
     and_then (if ntpSynced st
               then and_then (at_index MONS (uint (ntpMon st) - 1)) (\<lambda>monName.
                    and_then (at_index DAYS (uint (ntpWday st))) (\<lambda>dayName.
                      append_snprintf 200 b
                        ('',\"time\":\"'' @
                         snprintf 9 (zero_pad 2 (dec (unat (ntpH st))) @ '':'' @
                                     zero_pad 2 (dec (unat (ntpM st))) @ '':'' @
                                     zero_pad 2 (dec (unat (ntpS st)))) @
                         ''\",\"date\":\"'' @
                         snprintf 16 (zero_pad 2 (dec (unat (ntpDay st))) @ '' '' @
                                      monName @ '' '' @
                                      zero_pad 4 (dec (unat (ntpYear st)))) @
                         ''\",\"day\":\"'' @ dayName @ ''\"'')))
               else Inr b) (\<lambda>b.
     and_then (append_snprintf 200 b ''}'') (\<lambda>b.
       Inr \<lparr>resp_code = 200, resp_headers = [], resp_type = Some ''application/json'',
            resp_body = fst b\<rparr>))))))"

text \<open>\<open>handleSettings\<close>, with \<open>rep\<close> and a block of \<open>len + 200\<close> bytes.\<close>

definition o13_handleSettings ::
    "'a env_scheme \<Rightarrow> string \<Rightarrow> o13_DevConfig \<Rightarrow> fault + http_response" where
  "o13_handleSettings e settings_html cfg =
     (let len = length settings_html in
      case malloc e (len + 200) of
        None \<Rightarrow> Inr \<lparr>resp_code = 500, resp_headers = [], resp_type = Some ''text/plain'',
                      resp_body = ''OOM''\<rparr>
      | Some p \<Rightarrow>
          and_then (memcpy p 0 (settings_html @ [NUL]) (len + 1)) (\<lambda>p.
          and_then (field_str (o13_ssid cfg)) (\<lambda>v.
          and_then (rep p ''{{SSID}}'' v) (\<lambda>p.
          and_then (field_str (o13_pass cfg)) (\<lambda>v.
          and_then (rep p ''{{PASS}}'' v) (\<lambda>p.
          and_then (field_str (o13_tz cfg)) (\<lambda>v.
          and_then (rep p ''{{TZ}}'' v) (\<lambda>p.
            Inr \<lparr>resp_code = 200, resp_headers = [], resp_type = Some ''text/html'',
                 resp_body = c_str p\<rparr>))))))))"

text \<open>
  \<open>handleSettingsSave\<close> takes \<open>ssid\<close>, \<open>pass\<close> and \<open>tz\<close>; \<open>handlePortalSave\<close> only the
  first two:
  \<^verbatim>\<open>
    if (server.hasArg("ssid")) strlcpy(cfg.ssid, server.arg("ssid").c_str(), sizeof(cfg.ssid));
    if (server.hasArg("pass")) strlcpy(cfg.pass, server.arg("pass").c_str(), sizeof(cfg.pass));
    saveCfg();
    server.send(200, "text/html", "<html>...Saved! Rebooting...</html>");
    delay(1500);
    ESP.restart();
  \<close>
\<close>

definition o13_handleSettingsSave ::
    "http_request \<Rightarrow> o13_DevConfig \<Rightarrow> o13_DevConfig \<times> o13_DevConfig \<times> http_response" where
  "o13_handleSettingsSave r cfg =
     (let cfg = (if hasArg r ''ssid''
                 then cfg\<lparr>o13_ssid := strlcpy (o13_ssid cfg) (arg r ''ssid'') 33\<rparr> else cfg);
          cfg = (if hasArg r ''pass''
                 then cfg\<lparr>o13_pass := strlcpy (o13_pass cfg) (arg r ''pass'') 65\<rparr> else cfg);
          cfg = (if hasArg r ''tz''
                 then cfg\<lparr>o13_tz := strlcpy (o13_tz cfg) (arg r ''tz'') 40\<rparr> else cfg)
      in case o13_saveCfg cfg of (cfg, eeprom) \<Rightarrow> (cfg, eeprom, saved_redirect))"

definition o13_handlePortalSave ::
    "http_request \<Rightarrow> o13_DevConfig \<Rightarrow> o13_DevConfig \<times> o13_DevConfig \<times> http_response" where
  "o13_handlePortalSave r cfg =
     (let cfg = (if hasArg r ''ssid''
                 then cfg\<lparr>o13_ssid := strlcpy (o13_ssid cfg) (arg r ''ssid'') 33\<rparr> else cfg);
          cfg = (if hasArg r ''pass''
                 then cfg\<lparr>o13_pass := strlcpy (o13_pass cfg) (arg r ''pass'') 65\<rparr> else cfg)
      in case o13_saveCfg cfg of (cfg, eeprom) \<Rightarrow> (cfg, eeprom, saved_page))"

definition o13_wifiConnect :: "boot_env \<Rightarrow> o13_DevConfig \<Rightarrow> bool" where
  "o13_wifiConnect b cfg =
     (if o13_ssid cfg ! 0 = NUL then False
      else (let t0 = word_of_nat (begin_time b);
                t = wifi_wait (wifi_connected b) t0 (begin_time b)
            in wifi_connected b t))"

definition o13_startAP :: "o13_state \<Rightarrow> o13_state" where
  "o13_startAP st =
     st\<lparr>o13_apMode := True,
        o13_routes := [(''/'', HTTP_ANY, handlePortal),
                       (''/save'', HTTP_POST, handlePortalSave),
                       (''/settings'', HTTP_GET, handleSettings),
                       (''/settings'', HTTP_POST, handleSettingsSave),
                       (''/api/data'', HTTP_ANY, handleAPI)]\<rparr>"

definition o13_startSTA :: "o13_state \<Rightarrow> o13_state" where
  "o13_startSTA st =
     st\<lparr>o13_apMode := False,
        o13_routes := [(''/'', HTTP_ANY, handleRoot),
                       (''/settings'', HTTP_GET, handleSettings),
                       (''/settings'', HTTP_POST, handleSettingsSave),
                       (''/api/data'', HTTP_ANY, handleAPI)]\<rparr>"

definition o13_boot :: "o13_DevConfig \<Rightarrow> o13_state" where
  "o13_boot eeprom =
     \<lparr>o13_cfg = o13_zeroed, ntpH = 0, ntpM = 0, ntpS = 0, ntpDay = 0, ntpMon = 0,
      ntpWday = 0, ntpYear = 0, ntpSynced = False, o13_apMode = False, lastOled = 0,
      ledState = False, o13_routes = [], o13_eeprom = eeprom\<rparr>"

text \<open>\<open>setup\<close>, without the serial output, the I2C scan and the two boot screens.\<close>

definition o13_setup :: "boot_env \<Rightarrow> o13_DevConfig \<Rightarrow> o13_state" where
  "o13_setup b eeprom =
     (let st = o13_boot eeprom;
          st = st\<lparr>o13_cfg := o13_loadCfg (o13_eeprom st)\<rparr>
      in if o13_wifiConnect b (o13_cfg st) then o13_startSTA st else o13_startAP st)"

definition o13_handleClient ::
    "pages \<Rightarrow> 'a env_scheme \<Rightarrow> o13_state \<Rightarrow> fault + o13_state \<times> http_response option \<times> bool" where
  "o13_handleClient pg e st =
     (case request e of
        None \<Rightarrow> Inr (st, None, False)
      | Some r \<Rightarrow>
          (case find_handler (o13_routes st) r of
             None \<Rightarrow> Inr (st, Some (handleNotFound (o13_apMode st)), False)
           | Some handleRoot \<Rightarrow> Inr (st, Some (send_P (DASHBOARD_HTML pg)), False)
           | Some handlePortal \<Rightarrow> Inr (st, Some (send_P (PORTAL_HTML pg)), False)
           | Some handleAPI \<Rightarrow>
               and_then (o13_handleAPI e st) (\<lambda>a. Inr (st, Some a, False))
           | Some handleSettings \<Rightarrow>
               and_then (o13_handleSettings e (SETTINGS_HTML pg) (o13_cfg st))
                 (\<lambda>a. Inr (st, Some a, False))
           | Some handleSettingsSave \<Rightarrow>
               (case o13_handleSettingsSave r (o13_cfg st) of
                  (cfg, eeprom, a) \<Rightarrow>
                    Inr (st\<lparr>o13_cfg := cfg, o13_eeprom := eeprom\<rparr>, Some a, True))
           | Some handlePortalSave \<Rightarrow>
               (case o13_handlePortalSave r (o13_cfg st) of
                  (cfg, eeprom, a) \<Rightarrow>
                    Inr (st\<lparr>o13_cfg := cfg, o13_eeprom := eeprom\<rparr>, Some a, True))))"

text \<open>
  One pass through \<open>loop\<close>:
  \<^verbatim>\<open>
    if (!apMode) ntpUpdate();
    oledUpdate();
    server.handleClient();
    if (apMode) dnsServer.processNextRequest();
    if (!apMode) ArduinoOTA.handle();
  \<close>
\<close>

definition o13_loop ::
    "pages \<Rightarrow> 'a env_scheme \<Rightarrow> o13_state \<Rightarrow>
       fault + o13_state \<times> wire_op list \<times> http_response option \<times> bool" where
  "o13_loop pg e st =
     (let st = (if \<not> o13_apMode st then o13_ntpUpdate (time_now e) (local_tm e) st else st)
      in and_then (o13_oledUpdate e st) (\<lambda>(st, ops).
         and_then (o13_handleClient pg e st) (\<lambda>(st, a, restart).
           Inr (st, ops, a, restart))))"


section \<open>ESP01\_OLED\_V2\<close>

record e01_DevConfig =
  e01_magic :: "8 word"
  e01_ssid :: "char list"
  e01_pass :: "char list"
  e01_mqttHost :: "char list"
  e01_mqttPort :: "16 word"
  e01_mqttUser :: "char list"
  e01_mqttPass :: "char list"
  e01_mqttTopic :: "char list"
  e01_tzInfo :: "char list"

text \<open>
  The arrays are \<open>ssid[33]\<close>, \<open>pass[65]\<close>, \<open>mqttHost[65]\<close>, \<open>mqttUser[33]\<close>,
  \<open>mqttPass[65]\<close>, \<open>mqttTopic[65]\<close> and \<open>tzInfo[40]\<close>.
\<close>

definition e01_EEPROM_MAGIC :: "8 word" where
  "e01_EEPROM_MAGIC = 0xCD"

definition e01_zeroed :: e01_DevConfig where
  "e01_zeroed = \<lparr>e01_magic = 0, e01_ssid = replicate 33 NUL, e01_pass = replicate 65 NUL,
                  e01_mqttHost = replicate 65 NUL, e01_mqttPort = 0,
                  e01_mqttUser = replicate 33 NUL, e01_mqttPass = replicate 65 NUL,
                  e01_mqttTopic = replicate 65 NUL, e01_tzInfo = replicate 40 NUL\<rparr>"

text \<open>
  \<open>loadConfig\<close>:
  \<^verbatim>\<open>
    EEPROM.get(0, cfg);
    if (cfg.magic != EEPROM_MAGIC) {
      memset(&cfg, 0, sizeof(cfg));
      cfg.magic = EEPROM_MAGIC;
      cfg.mqttPort = 1883;
      strlcpy(cfg.mqttTopic, "ntp/esp01", sizeof(cfg.mqttTopic));
      strlcpy(cfg.tzInfo, "ICT-7", sizeof(cfg.tzInfo));
    }
  \<close>
\<close>

definition e01_loadConfig :: "e01_DevConfig \<Rightarrow> e01_DevConfig" where
  "e01_loadConfig eeprom =
     (let cfg = eeprom in
      if e01_magic cfg \<noteq> e01_EEPROM_MAGIC then
        (let cfg = e01_zeroed;
             cfg = cfg\<lparr>e01_magic := e01_EEPROM_MAGIC\<rparr>;
             cfg = cfg\<lparr>e01_mqttPort := 1883\<rparr>;
             cfg = cfg\<lparr>e01_mqttTopic := strlcpy (e01_mqttTopic cfg) ''ntp/esp01'' 65\<rparr>;
             cfg = cfg\<lparr>e01_tzInfo := strlcpy (e01_tzInfo cfg) ''ICT-7'' 40\<rparr>
         in cfg)
      else cfg)"

definition e01_saveConfig :: "e01_DevConfig \<Rightarrow> e01_DevConfig \<times> e01_DevConfig" where
  "e01_saveConfig cfg = (let cfg = cfg\<lparr>e01_magic := e01_EEPROM_MAGIC\<rparr> in (cfg, cfg))"

record e01_state =
  e01_cfg :: e01_DevConfig
  e01_ntpData :: NTPData
  e01_apMode :: bool
  lastMqttReconnect :: millis_t
  e01_lastOledUpdate :: millis_t
  lastMqttPub :: millis_t
  e01_routes :: "handler route list"
  e01_eeprom :: e01_DevConfig

text \<open>
  The readings of the MQTT part of \<open>loop\<close>: the two \<open>mqtt.connected()\<close>, the result of
  \<open>mqtt.connect\<close> and the four \<open>millis()\<close>.
\<close>

record e01_env = env +
  mqtt_connected_reconnect :: bool
  millis_reconnect_test :: millis_t
  millis_reconnect_set :: millis_t
  connect_ok :: bool
  millis_pub_test :: millis_t
  mqtt_connected_publish :: bool
  millis_pub_set :: millis_t

text \<open>
  The calls made on the \<open>PubSubClient\<close>. Strings are passed as pointers into the
  configuration, so a call carries the array.
\<close>

datatype mqtt_op =
    SetServer "char list" nat
  | Connect string
  | ConnectAuth string "char list" "char list"
  | MqttLoop
  | Publish "char list" string

text \<open>
  The three screens of \<open>oledUpdate\<close>; the clock has no signal bars and the address
  alone on its last line.
\<close>

definition e01_setup_screen :: "wire_op list" where
  "e01_setup_screen =
     [Clear, SetFont ArialMT_Plain_16, SetTextAlignment_CENTER,
      DrawString 64 10 ''WiFi Setup'', SetFont ArialMT_Plain_10,
      DrawString 64 35 ''Connect to:'', DrawString 64 48 ''ESP01_Clock'', Display]"

definition e01_syncing_screen :: "string \<Rightarrow> wire_op list" where
  "e01_syncing_screen ip =
     [Clear, SetFont ArialMT_Plain_16, SetTextAlignment_CENTER,
      DrawString 64 16 ''Syncing NTP...'', SetFont ArialMT_Plain_10,
      DrawString 64 40 ip, Display]"

definition e01_clock_screen :: "'a env_scheme \<Rightarrow> bool \<Rightarrow> NTPData \<Rightarrow> string \<Rightarrow> wire_op list" where
  "e01_clock_screen e apMode d date =
     [Clear,
      SetFont ArialMT_Plain_24, SetTextAlignment_CENTER,
      DrawString 64 2 (timeBuf d),
      SetFont ArialMT_Plain_10, DrawString 64 32 date] @
     (if \<not> apMode
      then [SetFont ArialMT_Plain_10, SetTextAlignment_CENTER, DrawString 64 50 (localIP e)]
      else []) @
     [Display]"

definition e01_oledUpdate :: "'a env_scheme \<Rightarrow> e01_state \<Rightarrow> fault + e01_state \<times> wire_op list" where
  "e01_oledUpdate e st =
     (if millis_oled_test e - e01_lastOledUpdate st < 500 then Inr (st, [])
      else
        (let st = st\<lparr>e01_lastOledUpdate := millis_oled_set e\<rparr> in
         if \<not> synced (e01_ntpData st) then
           (if e01_apMode st then Inr (st, e01_setup_screen)
            else Inr (st, e01_syncing_screen (localIP e)))
         else
           and_then (dateBuf (e01_ntpData st)) (\<lambda>date.
             Inr (st, e01_clock_screen e (e01_apMode st) (e01_ntpData st) date))))"

text \<open>\<open>handleAPI\<close> with \<open>char buf[256]\<close>.\<close>

definition e01_handleAPI :: "'a env_scheme \<Rightarrow> e01_state \<Rightarrow> fault + http_response" where
  "e01_handleAPI e st =
     and_then (append_snprintf 256 ([], 0)
                 (''{\"heap\":'' @ dec (free_heap e) @ '',\"up\":'' @
                  dec (unat (millis_api e) div 1000))) (\<lambda>b.
     and_then (if \<not> e01_apMode st
               then append_snprintf 256 b ('',\"ip\":\"'' @ localIP e @ ''\"'')
               else Inr b) (\<lambda>b.
     and_then (field_str (e01_tzInfo (e01_cfg st))) (\<lambda>tz.
     and_then (append_snprintf 256 b ('',\"tz\":\"'' @ tz @ ''\"'')) (\<lambda>b.
     and_then (if synced (e01_ntpData st)
               then and_then (at_index MONTHS (uint (month (e01_ntpData st)) - 1)) (\<lambda>monName.
                    and_then (at_index DAYS (uint (wday (e01_ntpData st)))) (\<lambda>dayName.
                      append_snprintf 256 b
                        ('',\"time\":\"'' @ timeBuf (e01_ntpData st) @
                         ''\",\"date\":\"'' @
                         snprintf 16 (zero_pad 2 (dec (unat (day (e01_ntpData st)))) @ '' '' @
                                      monName @ '' '' @
                                      zero_pad 4 (dec (unat (year (e01_ntpData st))))) @
                         ''\",\"day\":\"'' @ dayName @ ''\"'')))
               else Inr b) (\<lambda>b.
     and_then (append_snprintf 256 b ''}'') (\<lambda>b.
       Inr \<lparr>resp_code = 200, resp_headers = [], resp_type = Some ''application/json'',
            resp_body = fst b\<rparr>))))))"

text \<open>
  \<open>handleSettings\<close>: a block of \<open>pgmLen + 300\<close> bytes, the port printed into
  \<open>portStr[6]\<close>, and eight tags.
  \<^verbatim>\<open>
    char *page = (char *)malloc(pgmLen + 300);
    ...
    char portStr[6];
    snprintf(portStr, sizeof(portStr), "%d", cfg.mqttPort);
    replaceTag(page, "{{SSID}}", cfg.ssid);
    replaceTag(page, "{{PASS}}", cfg.pass);
    replaceTag(page, "{{TZ}}", cfg.tzInfo);
    replaceTag(page, "{{MQTT_HOST}}", cfg.mqttHost);
    replaceTag(page, "{{MQTT_PORT}}", portStr);
    replaceTag(page, "{{MQTT_USER}}", cfg.mqttUser);
    replaceTag(page, "{{MQTT_PASS}}", cfg.mqttPass);
    replaceTag(page, "{{MQTT_TOPIC}}", cfg.mqttTopic);
  \<close>
\<close>

definition e01_handleSettings ::
    "'a env_scheme \<Rightarrow> string \<Rightarrow> e01_DevConfig \<Rightarrow> fault + http_response" where
  "e01_handleSettings e settings_html cfg =
     (let pgmLen = length settings_html in
      case malloc e (pgmLen + 300) of
        None \<Rightarrow> Inr \<lparr>resp_code = 500, resp_headers = [], resp_type = Some ''text/plain'',
                      resp_body = ''OOM''\<rparr>
      | Some page \<Rightarrow>
          and_then (memcpy page 0 (settings_html @ [NUL]) (pgmLen + 1)) (\<lambda>page.
          (let portStr = snprintf 6 (dec (unat (e01_mqttPort cfg))) in
          and_then (field_str (e01_ssid cfg)) (\<lambda>v.
          and_then (replaceTag page ''{{SSID}}'' v) (\<lambda>page.
          and_then (field_str (e01_pass cfg)) (\<lambda>v.
          and_then (replaceTag page ''{{PASS}}'' v) (\<lambda>page.
          and_then (field_str (e01_tzInfo cfg)) (\<lambda>v.
          and_then (replaceTag page ''{{TZ}}'' v) (\<lambda>page.
          and_then (field_str (e01_mqttHost cfg)) (\<lambda>v.
          and_then (replaceTag page ''{{MQTT_HOST}}'' v) (\<lambda>page.
          and_then (replaceTag page ''{{MQTT_PORT}}'' portStr) (\<lambda>page.
          and_then (field_str (e01_mqttUser cfg)) (\<lambda>v.
          and_then (replaceTag page ''{{MQTT_USER}}'' v) (\<lambda>page.
          and_then (field_str (e01_mqttPass cfg)) (\<lambda>v.
          and_then (replaceTag page ''{{MQTT_PASS}}'' v) (\<lambda>page.
          and_then (field_str (e01_mqttTopic cfg)) (\<lambda>v.
          and_then (replaceTag page ''{{MQTT_TOPIC}}'' v) (\<lambda>page.
            Inr \<lparr>resp_code = 200, resp_headers = [], resp_type = Some ''text/html'',
                 resp_body = c_str page\<rparr>))))))))))))))))))"

text \<open>
  \<open>String::toInt\<close> is \<open>atol\<close>: blanks, a sign, then digits, the value kept within a
  32-bit \<open>long\<close>.
\<close>

definition isspace :: "char \<Rightarrow> bool" where
  "isspace c = (c \<in> set [CHR '' '', CHR 0x09, CHR 0x0A, CHR 0x0B, CHR 0x0C, CHR 0x0D])"

definition isdigit :: "char \<Rightarrow> bool" where
  "isdigit c = (c \<in> set ''0123456789'')"

fun atol_digits :: "int \<Rightarrow> string \<Rightarrow> int" where
  "atol_digits acc [] = acc"
| "atol_digits acc (c # cs) =
     (if isdigit c then atol_digits (acc * 10 + (of_char c - 48)) cs else acc)"

definition toInt :: "string \<Rightarrow> int" where
  "toInt s =
     (let v = (case dropWhile isspace s of
                 [] \<Rightarrow> 0
               | c # cs \<Rightarrow> if c = CHR ''-'' then - atol_digits 0 cs
                           else if c = CHR ''+'' then atol_digits 0 cs
                           else atol_digits 0 (c # cs))
      in max (- 2147483648) (min 2147483647 v))"

text \<open>\<open>handleSettingsSave\<close> takes all eight fields, \<open>handlePortalSave\<close> two.\<close>

definition e01_handleSettingsSave ::
    "http_request \<Rightarrow> e01_DevConfig \<Rightarrow> e01_DevConfig \<times> e01_DevConfig \<times> http_response" where
  "e01_handleSettingsSave r cfg =
     (let cfg = (if hasArg r ''ssid''
                 then cfg\<lparr>e01_ssid := strlcpy (e01_ssid cfg) (arg r ''ssid'') 33\<rparr> else cfg);
          cfg = (if hasArg r ''pass''
                 then cfg\<lparr>e01_pass := strlcpy (e01_pass cfg) (arg r ''pass'') 65\<rparr> else cfg);
          cfg = (if hasArg r ''tz''
                 then cfg\<lparr>e01_tzInfo := strlcpy (e01_tzInfo cfg) (arg r ''tz'') 40\<rparr> else cfg);
          cfg = (if hasArg r ''mqttHost''
                 then cfg\<lparr>e01_mqttHost := strlcpy (e01_mqttHost cfg) (arg r ''mqttHost'') 65\<rparr>
                 else cfg);
          cfg = (if hasArg r ''mqttPort''
                 then cfg\<lparr>e01_mqttPort := word_of_int (toInt (arg r ''mqttPort''))\<rparr> else cfg);
          cfg = (if hasArg r ''mqttUser''
                 then cfg\<lparr>e01_mqttUser := strlcpy (e01_mqttUser cfg) (arg r ''mqttUser'') 33\<rparr>
                 else cfg);
          cfg = (if hasArg r ''mqttPass''
                 then cfg\<lparr>e01_mqttPass := strlcpy (e01_mqttPass cfg) (arg r ''mqttPass'') 65\<rparr>
                 else cfg);
          cfg = (if hasArg r ''mqttTopic''
                 then cfg\<lparr>e01_mqttTopic := strlcpy (e01_mqttTopic cfg) (arg r ''mqttTopic'') 65\<rparr>
                 else cfg)
      in case e01_saveConfig cfg of (cfg, eeprom) \<Rightarrow> (cfg, eeprom, saved_redirect))"

text \<open>
  \<open>handlePortalSave\<close>:
  \<^verbatim>\<open>
    if (server.hasArg("ssid")) strlcpy(cfg.ssid, server.arg("ssid").c_str(), sizeof(cfg.ssid));
    if (server.hasArg("pass")) strlcpy(cfg.pass, server.arg("pass").c_str(), sizeof(cfg.pass));
    saveConfig();
    server.send(200, "text/html", "<html>...Saved! Rebooting...</html>");
    delay(1500);
    ESP.restart();
  \<close>
\<close>

definition e01_handlePortalSave ::
    "http_request \<Rightarrow> e01_DevConfig \<Rightarrow> e01_DevConfig \<times> e01_DevConfig \<times> http_response" where
  "e01_handlePortalSave r cfg =
     (let cfg = (if hasArg r ''ssid''
                 then cfg\<lparr>e01_ssid := strlcpy (e01_ssid cfg) (arg r ''ssid'') 33\<rparr> else cfg);
          cfg = (if hasArg r ''pass''
                 then cfg\<lparr>e01_pass := strlcpy (e01_pass cfg) (arg r ''pass'') 65\<rparr> else cfg)
      in case e01_saveConfig cfg of (cfg, eeprom) \<Rightarrow> (cfg, eeprom, saved_page))"

text \<open>The text that \<open>mqttPublish\<close> formats into \<open>buf[128]\<close>.\<close>

definition mqtt_payload :: "NTPData \<Rightarrow> string" where
  "mqtt_payload d =
     snprintf 128
       (''{\"time\":\"'' @ zero_pad 2 (dec (unat (hour d))) @ '':'' @
        zero_pad 2 (dec (unat (minute d))) @ '':'' @
        zero_pad 2 (dec (unat (second d))) @
        ''\",\"date\":\"'' @ zero_pad 4 (dec (unat (year d))) @ ''-'' @
        zero_pad 2 (dec (unat (month d))) @ ''-'' @
        zero_pad 2 (dec (unat (day d))) @ ''\"}'')"

text \<open>
  \<open>mqttPublish\<close>:
  \<^verbatim>\<open>
    if (cfg.mqttHost[0] == '\0') return;
    if (!mqtt.connected()) return;
    if (!ntpData.synced) return;
    char buf[128];
    snprintf(buf, sizeof(buf),
      "{\"time\":\"%02d:%02d:%02d\",\"date\":\"%04d-%02d-%02d\"}", ...);
    mqtt.publish(cfg.mqttTopic, buf);
  \<close>
\<close>

definition mqttPublish :: "e01_env \<Rightarrow> e01_state \<Rightarrow> mqtt_op list" where
  "mqttPublish e st =
     (if e01_mqttHost (e01_cfg st) ! 0 = NUL then []
      else if \<not> mqtt_connected_publish e then []
      else if \<not> synced (e01_ntpData st) then []
      else [Publish (e01_mqttTopic (e01_cfg st)) (mqtt_payload (e01_ntpData st))])"

text \<open>
  \<open>mqttReconnect\<close>:
  \<^verbatim>\<open>
    if (cfg.mqttHost[0] == '\0') return;
    if (mqtt.connected()) return;
    if (millis() - lastMqttReconnect < 10000) return;
    lastMqttReconnect = millis();
    mqtt.setServer(cfg.mqttHost, cfg.mqttPort);
    bool ok;
    if (cfg.mqttUser[0] != '\0')
      ok = mqtt.connect("ESP01_LCD", cfg.mqttUser, cfg.mqttPass);
    else
      ok = mqtt.connect("ESP01_LCD");
  \<close>
\<close>

definition e01_mqttReconnect :: "e01_env \<Rightarrow> e01_state \<Rightarrow> e01_state \<times> mqtt_op list" where
  "e01_mqttReconnect e st =
     (if e01_mqttHost (e01_cfg st) ! 0 = NUL then (st, [])
      else if mqtt_connected_reconnect e then (st, [])
      else if millis_reconnect_test e - lastMqttReconnect st < 10000 then (st, [])
      else (let st = st\<lparr>lastMqttReconnect := millis_reconnect_set e\<rparr>;
                cfg = e01_cfg st
            in (st, [SetServer (e01_mqttHost cfg) (unat (e01_mqttPort cfg)),
                     if e01_mqttUser cfg ! 0 \<noteq> NUL
                     then ConnectAuth ''ESP01_LCD'' (e01_mqttUser cfg) (e01_mqttPass cfg)
                     else Connect ''ESP01_LCD''])))"

definition e01_wifiConnect :: "boot_env \<Rightarrow> e01_DevConfig \<Rightarrow> bool" where
  "e01_wifiConnect b cfg =
     (if e01_ssid cfg ! 0 = NUL then False
      else (let start = word_of_nat (begin_time b);
                t = wifi_wait (wifi_connected b) start (begin_time b)
            in wifi_connected b t))"

definition e01_startAP :: "e01_state \<Rightarrow> e01_state" where
  "e01_startAP st =
     st\<lparr>e01_apMode := True,
        e01_routes := [(''/'', HTTP_ANY, handlePortal),
                       (''/save'', HTTP_POST, handlePortalSave),
                       (''/settings'', HTTP_GET, handleSettings),
                       (''/settings'', HTTP_POST, handleSettingsSave),
                       (''/api/data'', HTTP_ANY, handleAPI)]\<rparr>"

definition e01_startSTA :: "e01_state \<Rightarrow> e01_state" where
  "e01_startSTA st =
     st\<lparr>e01_apMode := False,
        e01_routes := [(''/'', HTTP_ANY, handleRoot),
                       (''/settings'', HTTP_GET, handleSettings),
                       (''/settings'', HTTP_POST, handleSettingsSave),
                       (''/api/data'', HTTP_ANY, handleAPI)]\<rparr>"

definition e01_boot :: "e01_DevConfig \<Rightarrow> e01_state" where
  "e01_boot eeprom =
     \<lparr>e01_cfg = e01_zeroed, e01_ntpData = ntpData_boot, e01_apMode = False,
      lastMqttReconnect = 0, e01_lastOledUpdate = 0, lastMqttPub = 0, e01_routes = [],
      e01_eeprom = eeprom\<rparr>"

definition e01_setup :: "boot_env \<Rightarrow> e01_DevConfig \<Rightarrow> e01_state" where
  "e01_setup b eeprom =
     (let st = e01_boot eeprom;
          st = st\<lparr>e01_cfg := e01_loadConfig (e01_eeprom st)\<rparr>
      in if e01_wifiConnect b (e01_cfg st) then e01_startSTA st else e01_startAP st)"

definition e01_handleClient ::
    "pages \<Rightarrow> 'a env_scheme \<Rightarrow> e01_state \<Rightarrow> fault + e01_state \<times> http_response option \<times> bool" where
  "e01_handleClient pg e st =
     (case request e of
        None \<Rightarrow> Inr (st, None, False)
      | Some r \<Rightarrow>
          (case find_handler (e01_routes st) r of
             None \<Rightarrow> Inr (st, Some (handleNotFound (e01_apMode st)), False)
           | Some handleRoot \<Rightarrow> Inr (st, Some (send_P (DASHBOARD_HTML pg)), False)
           | Some handlePortal \<Rightarrow> Inr (st, Some (send_P (PORTAL_HTML pg)), False)
           | Some handleAPI \<Rightarrow>
               and_then (e01_handleAPI e st) (\<lambda>a. Inr (st, Some a, False))
           | Some handleSettings \<Rightarrow>
               and_then (e01_handleSettings e (SETTINGS_HTML pg) (e01_cfg st))
                 (\<lambda>a. Inr (st, Some a, False))
           | Some handleSettingsSave \<Rightarrow>
               (case e01_handleSettingsSave r (e01_cfg st) of
                  (cfg, eeprom, a) \<Rightarrow>
                    Inr (st\<lparr>e01_cfg := cfg, e01_eeprom := eeprom\<rparr>, Some a, True))
           | Some handlePortalSave \<Rightarrow>
               (case e01_handlePortalSave r (e01_cfg st) of
                  (cfg, eeprom, a) \<Rightarrow>
                    Inr (st\<lparr>e01_cfg := cfg, e01_eeprom := eeprom\<rparr>, Some a, True))))"

text \<open>
  The MQTT part of \<open>loop\<close>:
  \<^verbatim>\<open>
    if (!apMode && cfg.mqttHost[0] != '\0') {
      mqttReconnect();
      mqtt.loop();
      if (millis() - lastMqttPub > 60000 && ntpData.synced) {
        mqttPublish();
        lastMqttPub = millis();
      }
    }
  \<close>
\<close>

definition e01_loop_mqtt :: "e01_env \<Rightarrow> e01_state \<Rightarrow> e01_state \<times> mqtt_op list" where
  "e01_loop_mqtt e st =
     (if \<not> e01_apMode st \<and> e01_mqttHost (e01_cfg st) ! 0 \<noteq> NUL then
        (case e01_mqttReconnect e st of (st, ops) \<Rightarrow>
           (let ops = ops @ [MqttLoop] in
            if 60000 < millis_pub_test e - lastMqttPub st \<and> synced (e01_ntpData st)
            then (st\<lparr>lastMqttPub := millis_pub_set e\<rparr>, ops @ mqttPublish e st)
            else (st, ops)))
      else (st, []))"

text \<open>
  One pass through \<open>loop\<close>; a handler that restarts the device does not return, so
  nothing of the pass follows it.
\<close>

definition e01_loop ::
    "pages \<Rightarrow> e01_env \<Rightarrow> e01_state \<Rightarrow>
       fault + e01_state \<times> wire_op list \<times> http_response option \<times> mqtt_op list \<times> bool" where
  "e01_loop pg e st =
     (let st = (if \<not> e01_apMode st
                then st\<lparr>e01_ntpData := ntpUpdate (time_now e) (local_tm e) (e01_ntpData st)\<rparr>
                else st)
      in and_then (e01_oledUpdate e st) (\<lambda>(st, ops).
         and_then (e01_handleClient pg e st) (\<lambda>(st, a, restart).
           if restart then Inr (st, ops, a, [], True)
           else (case e01_loop_mqtt e st of (st, mops) \<Rightarrow> Inr (st, ops, a, mops, False)))))"

inductive e01_reachable :: "pages \<Rightarrow> e01_state \<Rightarrow> bool" for pg :: pages where
  e01_booted: "e01_reachable pg (e01_setup b eeprom)"
| e01_looped: "e01_reachable pg st \<Longrightarrow> localtime_range (local_tm e) \<Longrightarrow>
               e01_loop pg e st = Inr (st', ops, a, mops, False) \<Longrightarrow> e01_reachable pg st'"

section \<open>ESP32\_OLED\_V1\<close>

record e32_DevConfig =
  e32_magic :: "8 word"
  e32_ssid :: "char list"
  e32_pass :: "char list"
  e32_tzInfo :: "char list"
  e32_mqttServer :: "char list"
  e32_mqttPort :: "16 word"
  e32_mqttUser :: "char list"
  e32_mqttPass :: "char list"
  e32_mqttTopic :: "char list"
  e32_ledBlink :: "8 word"

definition e32_EEPROM_MAGIC :: "8 word" where
  "e32_EEPROM_MAGIC = 0xE7"

definition e32_zeroed :: e32_DevConfig where
  "e32_zeroed = \<lparr>e32_magic = 0, e32_ssid = replicate 33 NUL, e32_pass = replicate 65 NUL,
                  e32_tzInfo = replicate 40 NUL, e32_mqttServer = replicate 65 NUL,
                  e32_mqttPort = 0, e32_mqttUser = replicate 33 NUL,
                  e32_mqttPass = replicate 65 NUL, e32_mqttTopic = replicate 65 NUL,
                  e32_ledBlink = 0\<rparr>"

definition e32_saveConfig :: "e32_DevConfig \<Rightarrow> e32_DevConfig \<times> e32_DevConfig" where
  "e32_saveConfig cfg = (let cfg = cfg\<lparr>e32_magic := e32_EEPROM_MAGIC\<rparr> in (cfg, cfg))"

text \<open>
  \<open>loadConfig\<close> writes the defaults back; the result is the configuration and the
  EEPROM.
  \<^verbatim>\<open>
    EEPROM.get(0, cfg);
    if (cfg.magic != EEPROM_MAGIC) {
      memset(&cfg, 0, sizeof(cfg));
      cfg.magic    = EEPROM_MAGIC;
      cfg.mqttPort = 1883;
      cfg.ledBlink = 1;
      strlcpy(cfg.tzInfo, "ICT-7", sizeof(cfg.tzInfo));
      strlcpy(cfg.mqttTopic, "esp32/oled/time", sizeof(cfg.mqttTopic));
      saveConfig();
    }
  \<close>
\<close>

definition e32_loadConfig :: "e32_DevConfig \<Rightarrow> e32_DevConfig \<times> e32_DevConfig" where
  "e32_loadConfig eeprom =
     (let cfg = eeprom in
      if e32_magic cfg \<noteq> e32_EEPROM_MAGIC then
        (let cfg = e32_zeroed;
             cfg = cfg\<lparr>e32_magic := e32_EEPROM_MAGIC\<rparr>;
             cfg = cfg\<lparr>e32_mqttPort := 1883\<rparr>;
             cfg = cfg\<lparr>e32_ledBlink := 1\<rparr>;
             cfg = cfg\<lparr>e32_tzInfo := strlcpy (e32_tzInfo cfg) ''ICT-7'' 40\<rparr>;
             cfg = cfg\<lparr>e32_mqttTopic := strlcpy (e32_mqttTopic cfg) ''esp32/oled/time'' 65\<rparr>
         in e32_saveConfig cfg)
      else (cfg, eeprom))"

record e32_state =
  e32_cfg :: e32_DevConfig
  e32_apMode :: bool
  e32_ntpSynced :: bool
  mqttEnabled :: bool
  e32_lastOled :: millis_t
  lastLed :: millis_t
  lastMqtt :: millis_t
  e32_ledState :: bool
  lastSec :: int
  lastTry :: millis_t
  e32_eeprom :: e32_DevConfig

text \<open>What one call of \<open>mqttReconnect\<close> reads.\<close>

record retry_env =
  retry_connected :: bool
  retry_millis_test :: millis_t
  retry_millis_set :: millis_t
  retry_random :: nat

text \<open>What \<open>setup\<close> reads: the WiFi status, and what \<open>setupMQTT\<close> reads.\<close>

record e32_boot_env = boot_env +
  boot_retry :: retry_env

text \<open>What one pass through \<open>loop\<close> reads, in the order of the calls.\<close>

record e32_env =
  loop_connected :: bool
  loop_retry :: retry_env
  e32_request :: "http_request option"
  api_local_time :: "tm option"
  api_millis :: millis_t
  api_connected :: bool
  api_heap :: nat
  oled_millis_test :: millis_t
  oled_millis_set :: millis_t
  oled_local_time :: "tm option"
  oled_connected :: bool
  oled_heap :: nat
  softAPIP :: string
  e32_localIP :: string
  led_millis_test :: millis_t
  led_millis_set :: millis_t
  pub_connected :: bool
  pub_millis_test :: millis_t
  pub_millis_set :: millis_t
  pub_local_time :: "tm option"

text \<open>The calls made on the \<open>Adafruit_SSD1306\<close> display.\<close>

datatype gfx_op =
    ClearDisplay
  | SetTextSize nat
  | SetCursor int int
  | Println string
  | Print string
  | DrawLine int int int int
  | GfxDisplay

text \<open>
  \<open>strftime(buf, max, ...)\<close> leaves the text when it fits with its terminator and
  nothing defined otherwise; \<open>%a\<close> and \<open>%b\<close> are the entries of the tables above.
\<close>

definition strftime :: "nat \<Rightarrow> string \<Rightarrow> fault + string" where
  "strftime mx text = (if length text < mx then Inr text else Inl Indeterminate)"

definition fmt_HMS :: "tm \<Rightarrow> string" where
  "fmt_HMS ti = zero_pad 2 (sdec (tm_hour ti)) @ '':'' @ zero_pad 2 (sdec (tm_min ti)) @ '':'' @
                zero_pad 2 (sdec (tm_sec ti))"

definition fmt_Ymd :: "tm \<Rightarrow> string" where
  "fmt_Ymd ti = sdec (tm_year ti + 1900) @ ''-'' @ zero_pad 2 (sdec (tm_mon ti + 1)) @ ''-'' @
                zero_pad 2 (sdec (tm_mday ti))"

definition fmt_adbY :: "tm \<Rightarrow> fault + string" where
  "fmt_adbY ti =
     and_then (at_index DAYS (tm_wday ti)) (\<lambda>a.
     and_then (at_index MONTHS (tm_mon ti)) (\<lambda>b.
       Inr (a @ '' '' @ zero_pad 2 (sdec (tm_mday ti)) @ '' '' @ b @ '' '' @
            sdec (tm_year ti + 1900))))"

text \<open>
  \<open>connectWiFi\<close>:
  \<^verbatim>\<open>
    WiFi.mode(WIFI_STA);
    WiFi.begin(cfg.ssid, cfg.pass);
    int attempts = 0;
    while (WiFi.status() != WL_CONNECTED && attempts < 30) {
      delay(500);
      attempts++;
    }
    return WiFi.status() == WL_CONNECTED;
  \<close>
\<close>

function connect_wait :: "(nat \<Rightarrow> bool) \<Rightarrow> nat \<Rightarrow> int \<Rightarrow> nat" where
  "connect_wait status t attempts =
     (if \<not> status t \<and> attempts < 30
      then connect_wait status (t + 500) (attempts + 1) else t)"
  by pat_completeness auto
termination
  by (relation "measure (\<lambda>(status, t, attempts). nat (30 - attempts))") auto

declare connect_wait.simps [simp del]

definition connectWiFi :: "'a boot_env_scheme \<Rightarrow> bool" where
  "connectWiFi b = wifi_connected b (connect_wait (wifi_connected b) (begin_time b) 0)"

definition e32_startAP :: "e32_state \<Rightarrow> e32_state" where
  "e32_startAP st = st\<lparr>e32_apMode := True\<rparr>"

text \<open>Lower-case hexadecimal digits of \<open>String(n, HEX)\<close>.\<close>

fun hex :: "nat \<Rightarrow> string" where
  "hex n = (if n < 16 then [''0123456789abcdef'' ! n]
            else hex (n div 16) @ [''0123456789abcdef'' ! (n mod 16)])"

declare hex.simps [simp del]

text \<open>
  \<open>mqttReconnect\<close>; \<open>lastTry\<close> is its static variable:
  \<^verbatim>\<open>
    if (mqtt.connected()) return;
    static uint32_t lastTry = 0;
    if (millis() - lastTry < 10000) return;
    lastTry = millis();
    String clientId = "ESP32_OLCD_" + String(random(0xFFFF), HEX);
    bool ok;
    if (strlen(cfg.mqttUser) > 0)
      ok = mqtt.connect(clientId.c_str(), cfg.mqttUser, cfg.mqttPass);
    else
      ok = mqtt.connect(clientId.c_str());
  \<close>
\<close>

definition e32_mqttReconnect :: "retry_env \<Rightarrow> e32_state \<Rightarrow> fault + e32_state \<times> mqtt_op list" where
  "e32_mqttReconnect r st =
     (if retry_connected r then Inr (st, [])
      else if retry_millis_test r - lastTry st < 10000 then Inr (st, [])
      else (let st = st\<lparr>lastTry := retry_millis_set r\<rparr>;
                clientId = ''ESP32_OLCD_'' @ hex (retry_random r);
                cfg = e32_cfg st
            in and_then (field_str (e32_mqttUser cfg)) (\<lambda>user.
                 Inr (st, [if 0 < length user
                           then ConnectAuth clientId (e32_mqttUser cfg) (e32_mqttPass cfg)
                           else Connect clientId]))))"

text \<open>\<open>setupMQTT\<close>: \<open>mqtt.setServer(cfg.mqttServer, cfg.mqttPort); mqttReconnect();\<close>\<close>

definition setupMQTT :: "retry_env \<Rightarrow> e32_state \<Rightarrow> fault + e32_state \<times> mqtt_op list" where
  "setupMQTT r st =
     and_then (e32_mqttReconnect r st) (\<lambda>(st', ops).
       Inr (st', SetServer (e32_mqttServer (e32_cfg st)) (unat (e32_mqttPort (e32_cfg st))) # ops))"

definition e32_boot :: "e32_DevConfig \<Rightarrow> e32_state" where
  "e32_boot eeprom =
     \<lparr>e32_cfg = e32_zeroed, e32_apMode = False, e32_ntpSynced = False, mqttEnabled = False,
      e32_lastOled = 0, lastLed = 0, lastMqtt = 0, e32_ledState = False, lastSec = - 1,
      lastTry = 0, e32_eeprom = eeprom\<rparr>"

text \<open>
  \<open>setup\<close>, without the serial output, the LED, the boot screens and the OTA service:
  \<^verbatim>\<open>
    loadConfig();
    if (strlen(cfg.ssid) > 0 && connectWiFi()) {
      apMode = false;
      ...
      if (strlen(cfg.mqttServer) > 0) {
        mqttEnabled = true;
        setupMQTT();
      }
    } else {
      startAP();
    }
    setupRoutes();
  \<close>
\<close>

definition e32_setup :: "e32_boot_env \<Rightarrow> e32_DevConfig \<Rightarrow> fault + e32_state \<times> mqtt_op list" where
  "e32_setup b eeprom =
     (case e32_loadConfig eeprom of (cfg, eeprom) \<Rightarrow>
        (let st = (e32_boot eeprom)\<lparr>e32_cfg := cfg\<rparr> in
         and_then (field_str (e32_ssid (e32_cfg st))) (\<lambda>ssid.
           if 0 < length ssid \<and> connectWiFi b then
             (let st = st\<lparr>e32_apMode := False\<rparr> in
              and_then (field_str (e32_mqttServer (e32_cfg st))) (\<lambda>srv.
                if 0 < length srv
                then setupMQTT (boot_retry b) (st\<lparr>mqttEnabled := True\<rparr>)
                else Inr (st, [])))
           else Inr (e32_startAP st, []))))"

text \<open>The three screens of \<open>updateOLED\<close>.\<close>

definition e32_setup_screen :: "e32_env \<Rightarrow> gfx_op list" where
  "e32_setup_screen e =
     [ClearDisplay, SetTextSize 1, SetCursor 0 0,
      Println ''== SETUP MODE =='', Println [],
      Println ''WiFi: ESP32_OLCD'', Println ''Pass: 12345678'', Println [],
      Print ''IP: '', Println (softAPIP e),
      Println ''Open browser to setup'', GfxDisplay]"

definition e32_waiting_screen :: "gfx_op list" where
  "e32_waiting_screen =
     [ClearDisplay, SetTextSize 1, SetCursor 0 24, Println ''Waiting NTP sync...'', GfxDisplay]"

definition e32_clock_screen :: "e32_env \<Rightarrow> bool \<Rightarrow> string \<Rightarrow> string \<Rightarrow> gfx_op list" where
  "e32_clock_screen e enabled tbuf dbuf =
     [ClearDisplay,
      SetTextSize 2, SetCursor 4 2, Print tbuf,
      SetTextSize 1, SetCursor 4 24, Print dbuf,
      DrawLine 0 35 128 35,
      SetCursor 0 39, Print ''IP: '', Print (e32_localIP e),
      SetCursor 0 49, Print ''MQTT: '',
      Print (if enabled
             then (if oled_connected e then ''Connected'' else ''Disconnected'')
             else ''Off''),
      SetCursor 0 57,
      Print (''Heap: '' @ dec (oled_heap e div 1024) @ ''KB''),
      GfxDisplay]"

text \<open>
  \<open>updateOLED\<close>: nothing below the 500 ms; then the setup screen in AP mode, the waiting
  screen while \<open>getLocalTime\<close> fails, and the clock when the second has changed.
  \<^verbatim>\<open>
    if (millis() - lastOled < 500) return;
    lastOled = millis();
    if (apMode) { ... "== SETUP MODE ==" ...; oled.display(); return; }
    struct tm ti;
    if (!getLocalTime(&ti)) { ... "Waiting NTP sync..." ...; oled.display(); return; }
    if (ti.tm_sec == lastSec) return;
    lastSec = ti.tm_sec;
    ... time, date, address, MQTT state, heap ...
    oled.display();
  \<close>
\<close>

definition updateOLED :: "e32_env \<Rightarrow> e32_state \<Rightarrow> fault + e32_state \<times> gfx_op list" where
  "updateOLED e st =
     (if oled_millis_test e - e32_lastOled st < 500 then Inr (st, [])
      else
        (let st = st\<lparr>e32_lastOled := oled_millis_set e\<rparr> in
         if e32_apMode st then Inr (st, e32_setup_screen e)
         else
           (case oled_local_time e of
              None \<Rightarrow> Inr (st, e32_waiting_screen)
            | Some ti \<Rightarrow>
                if tm_sec ti = lastSec st then Inr (st, [])
                else
                  (let st = st\<lparr>lastSec := tm_sec ti\<rparr> in
                   and_then (strftime 9 (fmt_HMS ti)) (\<lambda>tbuf.
                   and_then (fmt_adbY ti) (\<lambda>date.
                   and_then (strftime 20 date) (\<lambda>dbuf.
                     Inr (st, e32_clock_screen e (mqttEnabled st) tbuf dbuf))))))))"

text \<open>
  \<open>blinkLED\<close>:
  \<^verbatim>\<open>
    if (!cfg.ledBlink) return;
    if (millis() - lastLed < 1000) return;
    lastLed = millis();
    ledState = !ledState;
  \<close>
\<close>

definition blinkLED :: "e32_env \<Rightarrow> e32_state \<Rightarrow> e32_state" where
  "blinkLED e st =
     (if e32_ledBlink (e32_cfg st) = 0 then st
      else if led_millis_test e - lastLed st < 1000 then st
      else st\<lparr>lastLed := led_millis_set e, e32_ledState := \<not> e32_ledState st\<rparr>)"

text \<open>
  The routes of \<open>setupRoutes\<close>, the same in both modes, and its \<open>onNotFound\<close> handler:
  \<^verbatim>\<open>
    if (apMode) {
      server.sendHeader("Location", "http://192.168.4.1/settings");
      server.send(302, "text/plain", "");
    } else {
      server.send(404, "text/plain", "Not Found");
    }
  \<close>
\<close>

datatype e32_handler =
  e32_handleRoot | e32_handleSettings | e32_handleSettingsSave | e32_handleAPI | e32_handleReboot

definition setupRoutes :: "e32_handler route list" where
  "setupRoutes = [(''/'', HTTP_GET, e32_handleRoot),
                  (''/settings'', HTTP_GET, e32_handleSettings),
                  (''/settings'', HTTP_POST, e32_handleSettingsSave),
                  (''/api/data'', HTTP_GET, e32_handleAPI),
                  (''/reboot'', HTTP_POST, e32_handleReboot)]"

definition e32_notFound :: "bool \<Rightarrow> http_response" where
  "e32_notFound apMode =
     (if apMode
      then \<lparr>resp_code = 302, resp_headers = [(''Location'', ''http://192.168.4.1/settings'')],
            resp_type = Some ''text/plain'', resp_body = []\<rparr>
      else \<lparr>resp_code = 404, resp_headers = [], resp_type = Some ''text/plain'',
            resp_body = ''Not Found''\<rparr>)"

text \<open>
  The pages are built from constant pieces of HTML, which are parameters: the dashboard,
  the reboot page, the note shown after saving, and the eleven pieces of the settings
  form between which the fields are put.
\<close>

record e32_pages =
  dashboard_html :: string
  reboot_html :: string
  saved_note :: string
  settings_piece :: "nat \<Rightarrow> string"

definition e32_settings_page ::
    "e32_pages \<Rightarrow> http_request \<Rightarrow> e32_DevConfig \<Rightarrow> fault + http_response" where
  "e32_settings_page pg r cfg =
     and_then (field_str (e32_ssid cfg)) (\<lambda>ssid.
     and_then (field_str (e32_pass cfg)) (\<lambda>pass.
     and_then (field_str (e32_tzInfo cfg)) (\<lambda>tz.
     and_then (field_str (e32_mqttServer cfg)) (\<lambda>srv.
     and_then (field_str (e32_mqttUser cfg)) (\<lambda>user.
     and_then (field_str (e32_mqttPass cfg)) (\<lambda>mpass.
     and_then (field_str (e32_mqttTopic cfg)) (\<lambda>topic.
       Inr \<lparr>resp_code = 200, resp_headers = [], resp_type = Some ''text/html'',
            resp_body =
              settings_piece pg 0 @ (if hasArg r ''saved'' then saved_note pg else []) @
              settings_piece pg 1 @ ssid @ settings_piece pg 2 @ pass @
              settings_piece pg 3 @ tz @ settings_piece pg 4 @ srv @
              settings_piece pg 5 @ dec (unat (e32_mqttPort cfg)) @
              settings_piece pg 6 @ user @ settings_piece pg 7 @ mpass @
              settings_piece pg 8 @ topic @ settings_piece pg 9 @
              (if e32_ledBlink cfg \<noteq> 0 then '' checked'' else []) @
              settings_piece pg 10\<rparr>)))))))"

definition e32_redirect :: http_response where
  "e32_redirect = \<lparr>resp_code = 302, resp_headers = [(''Location'', ''/settings?saved=1'')],
                    resp_type = Some ''text/plain'', resp_body = []\<rparr>"

definition e32_settings_save ::
    "http_request \<Rightarrow> e32_DevConfig \<Rightarrow> e32_DevConfig \<times> e32_DevConfig \<times> http_response" where
  "e32_settings_save r cfg =
     (let cfg = (if hasArg r ''ssid''
                 then cfg\<lparr>e32_ssid := strlcpy (e32_ssid cfg) (arg r ''ssid'') 33\<rparr> else cfg);
          cfg = (if hasArg r ''pass''
                 then cfg\<lparr>e32_pass := strlcpy (e32_pass cfg) (arg r ''pass'') 65\<rparr> else cfg);
          cfg = (if hasArg r ''tz''
                 then cfg\<lparr>e32_tzInfo := strlcpy (e32_tzInfo cfg) (arg r ''tz'') 40\<rparr> else cfg);
          cfg = (if hasArg r ''mqsrv''
                 then cfg\<lparr>e32_mqttServer := strlcpy (e32_mqttServer cfg) (arg r ''mqsrv'') 65\<rparr>
                 else cfg);
          cfg = (if hasArg r ''mqport''
                 then cfg\<lparr>e32_mqttPort := word_of_int (toInt (arg r ''mqport''))\<rparr> else cfg);
          cfg = (if hasArg r ''mquser''
                 then cfg\<lparr>e32_mqttUser := strlcpy (e32_mqttUser cfg) (arg r ''mquser'') 33\<rparr>
                 else cfg);
          cfg = (if hasArg r ''mqpass''
                 then cfg\<lparr>e32_mqttPass := strlcpy (e32_mqttPass cfg) (arg r ''mqpass'') 65\<rparr>
                 else cfg);
          cfg = (if hasArg r ''mqtopic''
                 then cfg\<lparr>e32_mqttTopic := strlcpy (e32_mqttTopic cfg) (arg r ''mqtopic'') 65\<rparr>
                 else cfg);
          cfg = cfg\<lparr>e32_ledBlink := (if hasArg r ''led'' then 1 else 0)\<rparr>
      in case e32_saveConfig cfg of (cfg, eeprom) \<Rightarrow> (cfg, eeprom, e32_redirect))"

text \<open>\<open>handleAPI\<close>: the JSON text goes through \<open>snprintf\<close> into \<open>json[256]\<close>.\<close>

definition e32_api :: "e32_env \<Rightarrow> e32_state \<Rightarrow> fault + http_response" where
  "e32_api e st =
     and_then (case api_local_time e of
                 None \<Rightarrow> Inr (''--:--:--'', ''---'')
               | Some ti \<Rightarrow>
                   and_then (strftime 9 (fmt_HMS ti)) (\<lambda>timeBuf.
                   and_then (fmt_adbY ti) (\<lambda>date.
                   and_then (strftime 20 date) (\<lambda>dateBuf. Inr (timeBuf, dateBuf))))) (\<lambda>(timeBuf, dateBuf).
       (let sec = unat (api_millis e) div 1000;
            d = sec div 86400; sec = sec mod 86400;
            h = sec div 3600; sec = sec mod 3600;
            m = sec div 60;
            upBuf = snprintf 32 (dec d @ ''d '' @ dec h @ ''h '' @ dec m @ ''m'')
        in Inr \<lparr>resp_code = 200, resp_headers = [], resp_type = Some ''application/json'',
                resp_body = snprintf 256
                  (''{\"time\":\"'' @ timeBuf @ ''\",\"date\":\"'' @ dateBuf @
                   ''\",\"ip\":\"'' @ (if e32_apMode st then softAPIP e else e32_localIP e) @
                   ''\",\"mqtt\":\"'' @
                   (if mqttEnabled st
                    then (if api_connected e then ''Connected'' else ''Disconnected'')
                    else ''Off'') @
                   ''\",\"heap\":\"'' @ dec (api_heap e div 1024) @ '' KB\",\"uptime\":\"'' @
                   upBuf @ ''\"}'')\<rparr>))"

definition e32_handleClient ::
    "e32_pages \<Rightarrow> e32_env \<Rightarrow> e32_state \<Rightarrow> fault + e32_state \<times> http_response option \<times> bool" where
  "e32_handleClient pg e st =
     (case e32_request e of
        None \<Rightarrow> Inr (st, None, False)
      | Some r \<Rightarrow>
          (case find_handler setupRoutes r of
             None \<Rightarrow> Inr (st, Some (e32_notFound (e32_apMode st)), False)
           | Some e32_handleRoot \<Rightarrow>
               Inr (st, Some \<lparr>resp_code = 200, resp_headers = [], resp_type = Some ''text/html'',
                             resp_body = dashboard_html pg\<rparr>, False)
           | Some e32_handleSettings \<Rightarrow>
               and_then (e32_settings_page pg r (e32_cfg st)) (\<lambda>a. Inr (st, Some a, False))
           | Some e32_handleAPI \<Rightarrow> and_then (e32_api e st) (\<lambda>a. Inr (st, Some a, False))
           | Some e32_handleSettingsSave \<Rightarrow>
               (case e32_settings_save r (e32_cfg st) of
                  (cfg, eeprom, a) \<Rightarrow>
                    Inr (st\<lparr>e32_cfg := cfg, e32_eeprom := eeprom\<rparr>, Some a, True))
           | Some e32_handleReboot \<Rightarrow>
               Inr (st, Some \<lparr>resp_code = 200, resp_headers = [], resp_type = Some ''text/html'',
                             resp_body = reboot_html pg\<rparr>, True)))"

text \<open>
  The head of \<open>loop\<close>:
  \<^verbatim>\<open>
    if (apMode) {
      dnsServer.processNextRequest();
    } else {
      ArduinoOTA.handle();
      if (mqttEnabled) {
        if (!mqtt.connected()) mqttReconnect();
        mqtt.loop();
      }
    }
  \<close>
\<close>

definition e32_loop_head :: "e32_env \<Rightarrow> e32_state \<Rightarrow> fault + e32_state \<times> mqtt_op list" where
  "e32_loop_head e st =
     (if e32_apMode st then Inr (st, [])
      else if mqttEnabled st then
        and_then (if \<not> loop_connected e then e32_mqttReconnect (loop_retry e) st
                  else Inr (st, [])) (\<lambda>(st, ops). Inr (st, ops @ [MqttLoop]))
      else Inr (st, []))"

text \<open>
  The tail of \<open>loop\<close>:
  \<^verbatim>\<open>
    if (mqttEnabled && mqtt.connected() && !apMode) {
      if (millis() - lastMqtt > 60000) {
        lastMqtt = millis();
        struct tm ti;
        if (getLocalTime(&ti)) {
          char buf[32];
          strftime(buf, sizeof(buf), "%Y-%m-%d %H:%M:%S", &ti);
          mqtt.publish(cfg.mqttTopic, buf);
        }
      }
    }
  \<close>
\<close>

definition e32_loop_publish :: "e32_env \<Rightarrow> e32_state \<Rightarrow> fault + e32_state \<times> mqtt_op list" where
  "e32_loop_publish e st =
     (if mqttEnabled st \<and> pub_connected e \<and> \<not> e32_apMode st then
        (if 60000 < pub_millis_test e - lastMqtt st then
           (let st = st\<lparr>lastMqtt := pub_millis_set e\<rparr> in
            case pub_local_time e of
              None \<Rightarrow> Inr (st, [])
            | Some ti \<Rightarrow>
                and_then (strftime 32 (fmt_Ymd ti @ '' '' @ fmt_HMS ti)) (\<lambda>buf.
                  Inr (st, [Publish (e32_mqttTopic (e32_cfg st)) buf])))
         else Inr (st, []))
      else Inr (st, []))"

text \<open>
  One pass through \<open>loop\<close>: the head, \<open>server.handleClient()\<close>, \<open>updateOLED()\<close>,
  \<open>blinkLED()\<close> and the tail. The result holds the globals, what was drawn, the answer
  sent, the MQTT calls and the restart flag.
\<close>

definition e32_loop ::
    "e32_pages \<Rightarrow> e32_env \<Rightarrow> e32_state \<Rightarrow>
       fault + e32_state \<times> gfx_op list \<times> http_response option \<times> mqtt_op list \<times> bool" where
  "e32_loop pg e st =
     and_then (e32_loop_head e st) (\<lambda>(st, mops).
     and_then (e32_handleClient pg e st) (\<lambda>(st, a, restart).
       if restart then Inr (st, [], a, mops, True)
       else
         and_then (updateOLED e st) (\<lambda>(st, ops).
         and_then (e32_loop_publish e (blinkLED e st)) (\<lambda>(st, pops).
           Inr (st, ops, a, mops @ pops, False)))))"

inductive e32_reachable :: "e32_pages \<Rightarrow> e32_state \<Rightarrow> bool" for pg :: e32_pages where
  e32_booted: "e32_setup b eeprom = Inr (st, mops) \<Longrightarrow> e32_reachable pg st"
| e32_looped: "e32_reachable pg st \<Longrightarrow>
               e32_loop pg e st = Inr (st', ops, a, mops, False) \<Longrightarrow> e32_reachable pg st'"

section \<open>Runs of the main loop\<close>

text \<open>
  \<open>hw_later pg st st'\<close>: the sketch, in state \<open>st\<close>, gets to \<open>st'\<close> by passes through
  \<open>loop\<close> without a restart in between; likewise for the other sketches.
\<close>

inductive hw_later :: "pages \<Rightarrow> hw_state \<Rightarrow> hw_state \<Rightarrow> bool" for pg :: pages and st :: hw_state where
  hw_now: "hw_later pg st st"
| hw_pass: "hw_later pg st st1 \<Longrightarrow> hw_loop pg (e :: env) st1 = Inr (st2, ops, a, False) \<Longrightarrow>
            hw_later pg st st2"

inductive o13_later :: "pages \<Rightarrow> o13_state \<Rightarrow> o13_state \<Rightarrow> bool"
  for pg :: pages and st :: o13_state where
  o13_now: "o13_later pg st st"
| o13_pass: "o13_later pg st st1 \<Longrightarrow> o13_loop pg (e :: env) st1 = Inr (st2, ops, a, False) \<Longrightarrow>
             o13_later pg st st2"

inductive e01_later :: "pages \<Rightarrow> e01_state \<Rightarrow> e01_state \<Rightarrow> bool"
  for pg :: pages and st :: e01_state where
  e01_now: "e01_later pg st st"
| e01_pass: "e01_later pg st st1 \<Longrightarrow> e01_loop pg e st1 = Inr (st2, ops, a, mops, False) \<Longrightarrow>
             e01_later pg st st2"



abbreviation e01_ntp_pass :: "'a env_scheme \<Rightarrow> e01_state \<Rightarrow> e01_state" where
  "e01_ntp_pass e st \<equiv>
     (if \<not> e01_apMode st
      then st\<lparr>e01_ntpData := ntpUpdate (time_now e) (local_tm e) (e01_ntpData st)\<rparr> else st)"

text \<open>
  The ranges the C library gives the fields of a \<open>struct tm\<close>, for a year of at most four
  digits.
\<close>

definition tm_range :: "tm \<Rightarrow> bool" where
  "tm_range ti =
     (0 \<le> tm_sec ti \<and> tm_sec ti \<le> 60 \<and> 0 \<le> tm_min ti \<and> tm_min ti \<le> 59 \<and>
      0 \<le> tm_hour ti \<and> tm_hour ti \<le> 23 \<and> 1 \<le> tm_mday ti \<and> tm_mday ti \<le> 31 \<and>
      0 \<le> tm_mon ti \<and> tm_mon ti \<le> 11 \<and> 0 \<le> tm_wday ti \<and> tm_wday ti \<le> 6 \<and>
      - 1900 \<le> tm_year ti \<and> tm_year ti \<le> 8099)"

section \<open>Properties of the template substitution\<close>

subsection \<open>Searching and splicing\<close>

lemma c_str_append_NUL:
  "NUL \<notin> set s \<Longrightarrow> c_str (s @ NUL # r) = s"
  by (induction s) (auto simp: c_str_def)

lemma buffer_split:
  "NUL \<in> set b \<Longrightarrow> b = c_str b @ NUL # drop (Suc (length (c_str b))) b"
proof (induction b)
  case Nil then show ?case by simp
next
  case (Cons a b) then show ?case by (cases "a = NUL") (auto simp: c_str_def)
qed

lemma NUL_notin_c_str: "NUL \<notin> set (c_str b)"
  unfolding c_str_def by (auto dest: set_takeWhileD)

lemma find_sub_Some:
  "find_sub tag s = Some i \<Longrightarrow> i \<le> length s \<and> prefix tag (drop i s) \<and> (\<forall>j<i. \<not> prefix tag (drop j s))"
proof (induction s arbitrary: i)
  case Nil
  then show ?case by (auto split: if_splits)
next
  case (Cons c cs)
  show ?case
  proof (cases "prefix tag (c # cs)")
    case True
    with Cons.prems show ?thesis by simp
  next
    case False
    with Cons.prems obtain k where k: "find_sub tag cs = Some k" "i = Suc k" by auto
    from Cons.IH[OF k(1)] have ih: "k \<le> length cs" "prefix tag (drop k cs)" "\<forall>j<k. \<not> prefix tag (drop j cs)" by auto
    have "\<forall>j<Suc k. \<not> prefix tag (drop j (c # cs))"
    proof (intro allI impI)
      fix j assume "j < Suc k"
      show "\<not> prefix tag (drop j (c # cs))"
      proof (cases j)
        case 0 with False show ?thesis by simp
      next
        case (Suc m) with \<open>j < Suc k\<close> ih(3) show ?thesis by simp
      qed
    qed
    with ih k show ?thesis by simp
  qed
qed

lemma find_sub_None:
  "find_sub tag s = None \<Longrightarrow> j \<le> length s \<Longrightarrow> \<not> prefix tag (drop j s)"
proof (induction s arbitrary: j)
  case Nil
  then show ?case by (auto split: if_splits)
next
  case (Cons c cs)
  then show ?case by (cases j) (auto split: if_splits)
qed

lemma find_sub_first:
  assumes "s = pre @ tag @ post"
    and "\<forall>pre' post'. s = pre' @ tag @ post' \<longrightarrow> length pre \<le> length pre'"
  shows "find_sub tag s = Some (length pre)"
proof (cases "find_sub tag s")
  case None
  from find_sub_None[OF None, of "length pre"] assms(1) show ?thesis by simp
next
  case (Some i)
  from find_sub_Some[OF Some] have i: "i \<le> length s" "prefix tag (drop i s)" "\<forall>j<i. \<not> prefix tag (drop j s)" by auto
  from i(2) obtain post' where "drop i s = tag @ post'" by (auto simp: prefix_def)
  then have "s = take i s @ tag @ post'" by (metis append_take_drop_id)
  with assms(2) have "length pre \<le> length (take i s)" by blast
  with i(1) have "length pre \<le> i" by simp
  moreover have "\<not> length pre < i"
  proof
    assume "length pre < i"
    with i(3) have "\<not> prefix tag (drop (length pre) s)" by blast
    with assms(1) show False by simp
  qed
  ultimately show ?thesis using Some by simp
qed

lemma replaceTag_at:
  assumes b: "html = pre @ tag @ post @ NUL # r"
    and nn: "NUL \<notin> set pre" "NUL \<notin> set tag" "NUL \<notin> set post"
    and f: "find_sub tag (pre @ tag @ post) = Some (length pre)"
    and fit: "length val \<le> length tag + length r"
  shows "replaceTag html tag val =
           Inr (pre @ val @ post @ NUL # drop (length pre + length val + length post + 1) html)"
proof -
  define P where "P = length pre"
  define T where "T = length tag"
  define V where "V = length val"
  define L where "L = length post"
  define X where "X = drop (P + V + L + 1) html"
  have len: "length html = P + T + L + 1 + length r"
    by (simp add: b P_def T_def L_def)
  have cs: "c_str html = pre @ tag @ post"
    using c_str_append_NUL[of "pre @ tag @ post" r] nn b by simp
  have "NUL \<in> set html" using b by simp
  then have s1: "strstr html tag = Inr (Some P)" by (simp add: strstr_def cs f P_def)
  have d: "drop (P + T) html = post @ NUL # r" by (simp add: b P_def T_def)
  have s2: "strlen html (P + T) = Inr L"
    unfolding strlen_def d using c_str_append_NUL[OF nn(3), of r] by (simp add: L_def)
  have tk: "take (L + 1) (post @ NUL # r) = post @ [NUL]" by (simp add: L_def)
  have s3: "memmove html (P + V) (P + T) (L + 1) = Inr (take (P + V) html @ post @ NUL # X)"
    using fit len unfolding memmove_def d tk X_def by (simp add: V_def T_def)
  have tp: "take P html = pre" by (simp add: b P_def)
  have lt: "length (take (P + V) html) = P + V" using fit len by (simp add: V_def T_def)
  have t1: "take P (take (P + V) html @ post @ NUL # X) = pre"
    using lt tp by (simp add: min_def)
  have t2: "drop (P + V) (take (P + V) html @ post @ NUL # X) = post @ NUL # X"
    using lt by simp
  have s4: "memcpy (take (P + V) html @ post @ NUL # X) P val V = Inr (pre @ val @ post @ NUL # X)"
    unfolding memcpy_def t1 t2 using lt by (simp add: V_def)
  have s3': "memmove html (P + V) (P + T) (Suc L) = Inr (take (P + V) html @ post @ NUL # X)"
    using s3 by simp
  have X': "drop (Suc (P + V + L)) html = X" by (simp add: X_def)
  show ?thesis unfolding replaceTag_def
    by (simp add: s1 s2 s3' s4 X' Let_def P_def[symmetric] T_def[symmetric] V_def[symmetric] L_def[symmetric])
qed

lemma find_sub_least:
  assumes "find_sub tag s = Some i" and "s = pre @ tag @ post"
  shows "i \<le> length pre"
proof (rule ccontr)
  assume "\<not> i \<le> length pre"
  then have "length pre < i" by simp
  with find_sub_Some[OF assms(1)] have "\<not> prefix tag (drop (length pre) s)" by blast
  with assms(2) show False by simp
qed

lemma replaceTag_absent:
  assumes "NUL \<in> set html" and "find_sub tag (c_str html) = None"
  shows "replaceTag html tag val = Inr html"
  using assms by (simp add: replaceTag_def strstr_def)

lemma rep_replaceTag: "rep h tag val = replaceTag h tag val"
  by (simp add: rep_def replaceTag_def)

lemma replaceTag_found:
  assumes nul: "NUL \<in> set html" and nv: "NUL \<notin> set val"
    and f: "find_sub tag (c_str html) = Some p"
    and fit: "length (c_str html) + length val < length html + length tag"
  shows "\<exists>html'. replaceTag html tag val = Inr html' \<and>
           c_str html' = take p (c_str html) @ val @ drop (p + length tag) (c_str html) \<and>
           length html' = length html"
proof -
  define s where "s = c_str html"
  define pre where "pre = take p s"
  define post where "post = drop (p + length tag) s"
  define r where "r = drop (Suc (length s)) html"
  from find_sub_Some[OF f] have p: "p \<le> length s" "prefix tag (drop p s)" by (auto simp: s_def)
  from p(2) obtain q where q: "drop p s = tag @ q" by (auto simp: prefix_def)
  have "post = drop (length tag) (drop p s)" by (simp add: post_def add.commute)
  then have post: "post = q" using q by simp
  have s: "s = pre @ tag @ post" using q post by (metis append_take_drop_id pre_def)
  have lp: "length pre = p" using p(1) by (simp add: pre_def)
  have html: "html = pre @ tag @ post @ NUL # r"
    using buffer_split[OF nul] s by (simp add: s_def[symmetric] r_def)
  have nn: "NUL \<notin> set pre" "NUL \<notin> set tag" "NUL \<notin> set post"
    using NUL_notin_c_str[of html] s by (auto simp: s_def[symmetric])
  have len: "length html = length pre + length tag + length post + 1 + length r"
    by (subst html) simp
  have fit': "length val \<le> length tag + length r"
    using fit len s by (simp add: s_def[symmetric])
  have f': "find_sub tag (pre @ tag @ post) = Some (length pre)"
    using f s lp by (simp add: s_def[symmetric])
  let ?X = "drop (length pre + length val + length post + 1) html"
  have res: "replaceTag html tag val = Inr (pre @ val @ post @ NUL # ?X)"
    by (rule replaceTag_at[OF html nn f' fit'])
  have "c_str (pre @ val @ post @ NUL # ?X) = pre @ val @ post"
    using c_str_append_NUL[of "pre @ val @ post" ?X] nn nv by simp
  moreover have "length (pre @ val @ post @ NUL # ?X) = length html"
    using fit' len by simp
  ultimately show ?thesis using res by (simp add: pre_def post_def s_def)
qed

subsection \<open>C1: what \<open>replaceTag\<close> and \<open>rep\<close> leave in the page buffer\<close>

text \<open>
  At a concrete input the claim, read for every value string, does not hold: the page
  block below has three bytes and holds \<open>ab\<close>; the tag \<open>b\<close> occurs in it, and substituting
  the value \<open>xyz\<close> makes \<open>memmove\<close> write behind the block. The routine has no bound of
  its own on the value (its caller allots the room), so the buffer does not end up holding
  \<open>axyz\<close>.
\<close>

theorem replaceTag_overflow_counterexample:
  "c_str (''ab'' @ [NUL]) = ''a'' @ ''b'' @ '''' \<and>
   replaceTag (''ab'' @ [NUL]) ''b'' ''xyz'' = Inl OutOfBounds"
  by (simp add: replaceTag_def strstr_def strlen_def memmove_def c_str_def NUL_def)

text \<open>
  C1, amended by the room the result needs. For a NUL-terminated page buffer and C strings
  \<open>tag\<close> and \<open>val\<close>: when the tag occurs in the page text and the text with the value
  in the tag's place still fits the block together with its terminator, the call leaves
  the text before the first occurrence, then the value, then the text that followed the
  occurrence, NUL-terminated in the same block; when the tag does not occur the buffer is
  returned as it was. \<open>rep\<close> of OLED13\_NTP\_V1 is the same function.
\<close>

theorem replaceTag_substitutes:
  assumes "NUL \<in> set html" and "NUL \<notin> set tag" and "NUL \<notin> set val"
  shows "(\<forall>pre post.
            c_str html = pre @ tag @ post \<and>
            (\<forall>pre' post'. c_str html = pre' @ tag @ post' \<longrightarrow> length pre \<le> length pre') \<and>
            length pre + length val + length post < length html \<longrightarrow>
            (\<exists>html'. replaceTag html tag val = Inr html' \<and>
                      c_str html' = pre @ val @ post \<and> length html' = length html)) \<and>
         ((\<forall>pre post. c_str html \<noteq> pre @ tag @ post) \<longrightarrow> replaceTag html tag val = Inr html) \<and>
         rep html tag val = replaceTag html tag val"
proof (intro conjI allI impI)
  fix pre post
  assume a: "c_str html = pre @ tag @ post \<and>
    (\<forall>pre' post'. c_str html = pre' @ tag @ post' \<longrightarrow> length pre \<le> length pre') \<and>
    length pre + length val + length post < length html"
  then have f: "find_sub tag (c_str html) = Some (length pre)"
    using find_sub_first[of "c_str html" pre tag post] by blast
  have fit: "length (c_str html) + length val < length html + length tag"
    using a by simp
  from replaceTag_found[OF assms(1) assms(3) f fit] a
  show "\<exists>html'. replaceTag html tag val = Inr html' \<and>
                c_str html' = pre @ val @ post \<and> length html' = length html"
    by simp
next
  assume a: "\<forall>pre post. c_str html \<noteq> pre @ tag @ post"
  have "find_sub tag (c_str html) = None"
  proof (cases "find_sub tag (c_str html)")
    case None then show ?thesis .
  next
    case (Some i)
    from find_sub_Some[OF Some] obtain q where "drop i (c_str html) = tag @ q"
      by (auto simp: prefix_def)
    then have "c_str html = take i (c_str html) @ tag @ q" by (metis append_take_drop_id)
    with a show ?thesis by blast
  qed
  then show "replaceTag html tag val = Inr html" by (rule replaceTag_absent[OF assms(1)])
next
  show "rep html tag val = replaceTag html tag val" by (rule rep_replaceTag)
qed

theorem replaceTag_substitutes_witness:
  "(\<exists>html'. replaceTag (''<i value={{TZ}}> {{TZ}}'' @ NUL # ''....'') ''{{TZ}}'' ''ICT-7'' = Inr html' \<and>
             c_str html' = ''<i value='' @ ''ICT-7'' @ ''> {{TZ}}'' \<and>
             length html' = length (''<i value={{TZ}}> {{TZ}}'' @ NUL # ''....'')) \<and>
   replaceTag (''<i value=5>'' @ NUL # ''....'') ''{{TZ}}'' ''ICT-7'' = Inr (''<i value=5>'' @ NUL # ''....'')"
proof -
  let ?b = "''<i value={{TZ}}> {{TZ}}'' @ NUL # ''....''"
  let ?c = "''<i value=5>'' @ NUL # ''....''"
  have cs: "c_str ?b = ''<i value={{TZ}}> {{TZ}}''" by (simp add: c_str_def NUL_def)
  have h1: "NUL \<in> set ?b" by simp
  have h2: "NUL \<notin> set ''{{TZ}}''" by (simp add: NUL_def)
  have h3: "NUL \<notin> set ''ICT-7''" by (simp add: NUL_def)
  have fs: "find_sub ''{{TZ}}'' (c_str ?b) = Some 9" unfolding cs by simp
  have first: "\<forall>pre' post'. c_str ?b = pre' @ ''{{TZ}}'' @ post' \<longrightarrow> length ''<i value='' \<le> length pre'"
  proof (intro allI impI)
    fix pre' post' assume e: "c_str ?b = pre' @ ''{{TZ}}'' @ post'"
    from find_sub_least[OF fs e] show "length ''<i value='' \<le> length pre'" by simp
  qed
  have occ: "c_str ?b = ''<i value='' @ ''{{TZ}}'' @ ''> {{TZ}}''" unfolding cs by simp
  have fit: "length ''<i value='' + length ''ICT-7'' + length ''> {{TZ}}'' < length ?b" by simp
  have A: "\<exists>html'. replaceTag ?b ''{{TZ}}'' ''ICT-7'' = Inr html' \<and>
             c_str html' = ''<i value='' @ ''ICT-7'' @ ''> {{TZ}}'' \<and> length html' = length ?b"
    using replaceTag_substitutes[OF h1 h2 h3] occ first fit by blast
  have cs2: "c_str ?c = ''<i value=5>''" by (simp add: c_str_def NUL_def)
  have none: "find_sub ''{{TZ}}'' (c_str ?c) = None" unfolding cs2 by simp
  have absent: "\<forall>pre post. c_str ?c \<noteq> pre @ ''{{TZ}}'' @ post"
  proof (intro allI notI)
    fix pre post assume e: "c_str ?c = pre @ ''{{TZ}}'' @ post"
    then have "length pre \<le> length (c_str ?c)" by (metis le_add1 length_append)
    from find_sub_None[OF none this] e show False by simp
  qed
  have h1': "NUL \<in> set ?c" by simp
  have B: "replaceTag ?c ''{{TZ}}'' ''ICT-7'' = Inr ?c"
    using replaceTag_substitutes[OF h1' h2 h3] absent by blast
  from A B show ?thesis by blast
qed

section \<open>Properties of \<open>handleSettings\<close>\<close>

subsection \<open>Room for one substitution, and for the page\<close>

lemma c_str_short_NUL: "length (c_str b) < length b \<Longrightarrow> NUL \<in> set b"
proof (rule ccontr)
  assume a: "length (c_str b) < length b" and n: "NUL \<notin> set b"
  from n have "c_str b = b" unfolding c_str_def by (auto simp: takeWhile_eq_all_conv)
  with a show False by simp
qed

lemma field_fits:
  assumes "NUL \<in> set (take (Suc n) a)"
  shows "field_str a = Inr (c_str a) \<and> length (c_str a) \<le> n \<and> NUL \<notin> set (c_str a)"
proof -
  have in_a: "NUL \<in> set a" using assms by (auto dest: in_set_takeD)
  obtain i where i: "i < length (take (Suc n) a)" "take (Suc n) a ! i = NUL"
    using assms by (auto simp: in_set_conv_nth)
  then have ai: "i < length a" "i \<le> n" "a ! i = NUL" by auto
  have "\<not> i < length (c_str a)"
  proof
    assume l: "i < length (c_str a)"
    then have "c_str a ! i = a ! i" unfolding c_str_def by (rule takeWhile_nth)
    moreover from l have "c_str a ! i \<in> set (c_str a)" by simp
    ultimately show False using ai(3) NUL_notin_c_str[of a] by simp
  qed
  with \<open>i \<le> n\<close> have "length (c_str a) \<le> n" by simp
  with in_a show ?thesis by (simp add: field_str_def NUL_notin_c_str)
qed

lemma replaceTag_room:
  assumes nul: "NUL \<in> set page" and nv: "NUL \<notin> set v"
    and grow: "length (c_str page) + (length v - length tag) \<le> L"
    and room: "L < length page"
  shows "\<exists>page'. replaceTag page tag v = Inr page' \<and> NUL \<in> set page' \<and>
           length page' = length page \<and> length (c_str page') \<le> L"
proof (cases "find_sub tag (c_str page)")
  case None
  from replaceTag_absent[OF nul None] nul grow show ?thesis by auto
next
  case (Some p)
  let ?s = "c_str page"
  from find_sub_Some[OF Some] have p: "p \<le> length ?s" "prefix tag (drop p ?s)" by auto
  from p(2) have "length tag \<le> length (drop p ?s)" by (rule prefix_length_le)
  then have pt: "p + length tag \<le> length ?s" using p(1) by simp
  have fit: "length ?s + length v < length page + length tag"
    using grow room by linarith
  from replaceTag_found[OF nul nv Some fit] obtain page' where
    r: "replaceTag page tag v = Inr page'"
       "c_str page' = take p ?s @ v @ drop (p + length tag) ?s"
       "length page' = length page" by blast
  have "length (c_str page') = p + length v + (length ?s - (p + length tag))"
    using r(2) p(1) by simp
  with pt grow have le: "length (c_str page') \<le> L" by linarith
  with room r(3) have "NUL \<in> set page'" by (intro c_str_short_NUL) simp
  with r le show ?thesis by blast
qed

lemma replaceTag_step:
  assumes nul: "NUL \<in> set page" and nv: "NUL \<notin> set v"
    and grow: "length (c_str page) + (length v - length tag) \<le> L"
    and room: "L < length page"
  shows "\<exists>page'. replaceTag page tag v = Inr page' \<and> NUL \<in> set page' \<and>
           length page' = length page \<and> length (c_str page') \<le> L \<and>
           c_str page' = substituted tag v (c_str page)"
proof (cases "find_sub tag (c_str page)")
  case None
  from replaceTag_absent[OF nul None] nul grow None show ?thesis
    by (auto simp: substituted_def)
next
  case (Some p)
  have fit: "length (c_str page) + length v < length page + length tag"
    using grow room by linarith
  from replaceTag_found[OF nul nv Some fit] obtain page' where
    r: "replaceTag page tag v = Inr page'"
       "c_str page' = take p (c_str page) @ v @ drop (p + length tag) (c_str page)" by blast
  from replaceTag_room[OF nul nv grow room] r(1) have
    "NUL \<in> set page'" "length page' = length page" "length (c_str page') \<le> L" by auto
  with r Some show ?thesis by (simp add: substituted_def)
qed

lemma malloc_copy:
  assumes "NUL \<notin> set html" and "malloc e (length html + k) = Some blk" and "0 < k"
  shows "\<exists>page. memcpy blk 0 (html @ [NUL]) (length html + 1) = Inr page \<and> NUL \<in> set page \<and>
           length page = length html + k \<and> c_str page = html"
proof -
  have len: "length blk = length html + k"
    using assms(2) by (auto simp: malloc_def split: if_splits)
  let ?page = "html @ NUL # drop (length html + 1) blk"
  have "memcpy blk 0 (html @ [NUL]) (length html + 1) = Inr ?page"
    using len assms(3) by (simp add: memcpy_def)
  moreover have "c_str ?page = html" using c_str_append_NUL[OF assms(1)] by simp
  moreover have "length ?page = length html + k" using len assms(3) by simp
  ultimately show ?thesis by auto
qed

lemma hw_handleSettings_room:
  assumes h: "NUL \<notin> set html"
    and f1: "NUL \<in> set (take 33 (hw_ssid c))"
    and f2: "NUL \<in> set (take 65 (hw_pass c))"
    and f3: "NUL \<in> set (take 40 (hw_tzInfo c))"
  shows "\<exists>a. hw_handleSettings e html c = Inr a \<and> length (resp_body a) \<le> length html + 113 \<and>
           (malloc_ok e \<longrightarrow>
              a = \<lparr>resp_code = 200, resp_headers = [], resp_type = Some ''text/html'',
                  resp_body = substituted ''{{TZ}}'' (c_str (hw_tzInfo c))
                    (substituted ''{{PASS}}'' (c_str (hw_pass c))
                    (substituted ''{{SSID}}'' (c_str (hw_ssid c))
                    (html)))\<rparr>)"
proof (cases "malloc e (length html + 200)")
  case None
  then have "\<not> malloc_ok e" by (simp add: malloc_def split: if_splits)
  with None show ?thesis by (simp add: hw_handleSettings_def)
next
  case (Some blk)
  let ?n = "length html"
  from malloc_copy[OF h Some] obtain p0 where
    p0: "memcpy blk 0 (html @ [NUL]) (?n + 1) = Inr p0" "NUL \<in> set p0"
        "length p0 = ?n + 200" "c_str p0 = html" by auto
  from field_fits[of 32 "hw_ssid c"] f1 have v1:
    "field_str (hw_ssid c) = Inr (c_str (hw_ssid c))"
    "length (c_str (hw_ssid c)) \<le> 32" "NUL \<notin> set (c_str (hw_ssid c))" by auto
  from field_fits[of 64 "hw_pass c"] f2 have v2:
    "field_str (hw_pass c) = Inr (c_str (hw_pass c))"
    "length (c_str (hw_pass c)) \<le> 64" "NUL \<notin> set (c_str (hw_pass c))" by auto
  from field_fits[of 39 "hw_tzInfo c"] f3 have v3:
    "field_str (hw_tzInfo c) = Inr (c_str (hw_tzInfo c))"
    "length (c_str (hw_tzInfo c)) \<le> 39" "NUL \<notin> set (c_str (hw_tzInfo c))" by auto
  have "\<exists>p1. replaceTag p0 ''{{SSID}}'' (c_str (hw_ssid c)) = Inr p1 \<and> NUL \<in> set p1 \<and>
          length p1 = length p0 \<and> length (c_str p1) \<le> ?n + 24 \<and>
          c_str p1 = substituted ''{{SSID}}'' (c_str (hw_ssid c)) (c_str p0)"
    using p0(2,3,4) v1 by (intro replaceTag_step) auto
  then obtain p1 where p1: "replaceTag p0 ''{{SSID}}'' (c_str (hw_ssid c)) = Inr p1"
    "NUL \<in> set p1" "length p1 = ?n + 200" "length (c_str p1) \<le> ?n + 24"
    "c_str p1 = substituted ''{{SSID}}'' (c_str (hw_ssid c)) (c_str p0)"
    using p0(3) by auto
  have "\<exists>p2. replaceTag p1 ''{{PASS}}'' (c_str (hw_pass c)) = Inr p2 \<and> NUL \<in> set p2 \<and>
          length p2 = length p1 \<and> length (c_str p2) \<le> ?n + 80 \<and>
          c_str p2 = substituted ''{{PASS}}'' (c_str (hw_pass c)) (c_str p1)"
    using p1(2,3,4) v2 by (intro replaceTag_step) auto
  then obtain p2 where p2: "replaceTag p1 ''{{PASS}}'' (c_str (hw_pass c)) = Inr p2"
    "NUL \<in> set p2" "length p2 = ?n + 200" "length (c_str p2) \<le> ?n + 80"
    "c_str p2 = substituted ''{{PASS}}'' (c_str (hw_pass c)) (c_str p1)"
    using p1(3) by auto
  have "\<exists>p3. replaceTag p2 ''{{TZ}}'' (c_str (hw_tzInfo c)) = Inr p3 \<and> NUL \<in> set p3 \<and>
          length p3 = length p2 \<and> length (c_str p3) \<le> ?n + 113 \<and>
          c_str p3 = substituted ''{{TZ}}'' (c_str (hw_tzInfo c)) (c_str p2)"
    using p2(2,3,4) v3 by (intro replaceTag_step) auto
  then obtain p3 where p3: "replaceTag p2 ''{{TZ}}'' (c_str (hw_tzInfo c)) = Inr p3"
    "NUL \<in> set p3" "length p3 = ?n + 200" "length (c_str p3) \<le> ?n + 113"
    "c_str p3 = substituted ''{{TZ}}'' (c_str (hw_tzInfo c)) (c_str p2)"
    using p2(3) by auto
  have p0': "memcpy blk 0 (html @ [NUL]) (Suc ?n) = Inr p0" using p0(1) by simp
  have eq: "hw_handleSettings e html c =
      Inr \<lparr>resp_code = 200, resp_headers = [], resp_type = Some ''text/html'',
           resp_body = c_str p3\<rparr>"
    unfolding hw_handleSettings_def
    by (simp add: Some Let_def and_then_def p0' v1(1) v2(1) v3(1)
        p1(1) p2(1) p3(1))
  have bd: "c_str p3 =
      substituted ''{{TZ}}'' (c_str (hw_tzInfo c))
                    (substituted ''{{PASS}}'' (c_str (hw_pass c))
                    (substituted ''{{SSID}}'' (c_str (hw_ssid c))
                    (html)))"
    by (simp only: p3(5) p2(5) p1(5) p0(4))
  from eq p3(4) bd show ?thesis by simp
qed

lemma digit_not_NUL: "d < 10 \<Longrightarrow> digit d \<noteq> NUL"
proof -
  assume "d < 10"
  then have "digit d \<in> set ''0123456789''" unfolding digit_def by (intro nth_mem) simp
  then show ?thesis by (auto simp: NUL_def)
qed

lemma dec_no_NUL: "NUL \<notin> set (dec n)"
proof (induction n rule: dec.induct)
  case (1 n)
  show ?case
  proof (cases "n < 10")
    case True
    then show ?thesis using digit_not_NUL[of n] by (subst dec.simps) auto
  next
    case False
    with 1 have "NUL \<notin> set (dec (n div 10))" by simp
    moreover have "digit (n mod 10) \<noteq> NUL" by (rule digit_not_NUL) simp
    ultimately show ?thesis using False by (subst dec.simps) (auto simp del: dec.simps)
  qed
qed

lemma portStr_ok:
  "NUL \<notin> set (snprintf 6 (dec n)) \<and> length (snprintf 6 (dec n)) \<le> 5"
  using dec_no_NUL[of n] by (auto simp: snprintf_def dest: in_set_takeD)

lemma o13_handleSettings_room:
  assumes h: "NUL \<notin> set html"
    and f1: "NUL \<in> set (take 33 (o13_ssid c))"
    and f2: "NUL \<in> set (take 65 (o13_pass c))"
    and f3: "NUL \<in> set (take 40 (o13_tz c))"
  shows "\<exists>a. o13_handleSettings e html c = Inr a \<and> length (resp_body a) \<le> length html + 113 \<and>
           (malloc_ok e \<longrightarrow>
              a = \<lparr>resp_code = 200, resp_headers = [], resp_type = Some ''text/html'',
                  resp_body = substituted ''{{TZ}}'' (c_str (o13_tz c))
                    (substituted ''{{PASS}}'' (c_str (o13_pass c))
                    (substituted ''{{SSID}}'' (c_str (o13_ssid c))
                    (html)))\<rparr>)"
proof (cases "malloc e (length html + 200)")
  case None
  then have "\<not> malloc_ok e" by (simp add: malloc_def split: if_splits)
  with None show ?thesis by (simp add: o13_handleSettings_def)
next
  case (Some blk)
  let ?n = "length html"
  from malloc_copy[OF h Some] obtain p0 where
    p0: "memcpy blk 0 (html @ [NUL]) (?n + 1) = Inr p0" "NUL \<in> set p0"
        "length p0 = ?n + 200" "c_str p0 = html" by auto
  from field_fits[of 32 "o13_ssid c"] f1 have v1:
    "field_str (o13_ssid c) = Inr (c_str (o13_ssid c))"
    "length (c_str (o13_ssid c)) \<le> 32" "NUL \<notin> set (c_str (o13_ssid c))" by auto
  from field_fits[of 64 "o13_pass c"] f2 have v2:
    "field_str (o13_pass c) = Inr (c_str (o13_pass c))"
    "length (c_str (o13_pass c)) \<le> 64" "NUL \<notin> set (c_str (o13_pass c))" by auto
  from field_fits[of 39 "o13_tz c"] f3 have v3:
    "field_str (o13_tz c) = Inr (c_str (o13_tz c))"
    "length (c_str (o13_tz c)) \<le> 39" "NUL \<notin> set (c_str (o13_tz c))" by auto
  have "\<exists>p1. replaceTag p0 ''{{SSID}}'' (c_str (o13_ssid c)) = Inr p1 \<and> NUL \<in> set p1 \<and>
          length p1 = length p0 \<and> length (c_str p1) \<le> ?n + 24 \<and>
          c_str p1 = substituted ''{{SSID}}'' (c_str (o13_ssid c)) (c_str p0)"
    using p0(2,3,4) v1 by (intro replaceTag_step) auto
  then obtain p1 where p1: "rep p0 ''{{SSID}}'' (c_str (o13_ssid c)) = Inr p1"
    "NUL \<in> set p1" "length p1 = ?n + 200" "length (c_str p1) \<le> ?n + 24"
    "c_str p1 = substituted ''{{SSID}}'' (c_str (o13_ssid c)) (c_str p0)"
    using p0(3) by (auto simp: rep_replaceTag)
  have "\<exists>p2. replaceTag p1 ''{{PASS}}'' (c_str (o13_pass c)) = Inr p2 \<and> NUL \<in> set p2 \<and>
          length p2 = length p1 \<and> length (c_str p2) \<le> ?n + 80 \<and>
          c_str p2 = substituted ''{{PASS}}'' (c_str (o13_pass c)) (c_str p1)"
    using p1(2,3,4) v2 by (intro replaceTag_step) auto
  then obtain p2 where p2: "rep p1 ''{{PASS}}'' (c_str (o13_pass c)) = Inr p2"
    "NUL \<in> set p2" "length p2 = ?n + 200" "length (c_str p2) \<le> ?n + 80"
    "c_str p2 = substituted ''{{PASS}}'' (c_str (o13_pass c)) (c_str p1)"
    using p1(3) by (auto simp: rep_replaceTag)
  have "\<exists>p3. replaceTag p2 ''{{TZ}}'' (c_str (o13_tz c)) = Inr p3 \<and> NUL \<in> set p3 \<and>
          length p3 = length p2 \<and> length (c_str p3) \<le> ?n + 113 \<and>
          c_str p3 = substituted ''{{TZ}}'' (c_str (o13_tz c)) (c_str p2)"
    using p2(2,3,4) v3 by (intro replaceTag_step) auto
  then obtain p3 where p3: "rep p2 ''{{TZ}}'' (c_str (o13_tz c)) = Inr p3"
    "NUL \<in> set p3" "length p3 = ?n + 200" "length (c_str p3) \<le> ?n + 113"
    "c_str p3 = substituted ''{{TZ}}'' (c_str (o13_tz c)) (c_str p2)"
    using p2(3) by (auto simp: rep_replaceTag)
  have p0': "memcpy blk 0 (html @ [NUL]) (Suc ?n) = Inr p0" using p0(1) by simp
  have eq: "o13_handleSettings e html c =
      Inr \<lparr>resp_code = 200, resp_headers = [], resp_type = Some ''text/html'',
           resp_body = c_str p3\<rparr>"
    unfolding o13_handleSettings_def
    by (simp add: Some Let_def and_then_def p0' v1(1) v2(1) v3(1)
        p1(1) p2(1) p3(1))
  have bd: "c_str p3 =
      substituted ''{{TZ}}'' (c_str (o13_tz c))
                    (substituted ''{{PASS}}'' (c_str (o13_pass c))
                    (substituted ''{{SSID}}'' (c_str (o13_ssid c))
                    (html)))"
    by (simp only: p3(5) p2(5) p1(5) p0(4))
  from eq p3(4) bd show ?thesis by simp
qed

lemma e01_handleSettings_room:
  assumes h: "NUL \<notin> set html"
    and f1: "NUL \<in> set (take 33 (e01_ssid c))"
    and f2: "NUL \<in> set (take 65 (e01_pass c))"
    and f3: "NUL \<in> set (take 40 (e01_tzInfo c))"
    and f4: "NUL \<in> set (take 65 (e01_mqttHost c))"
    and f5: "NUL \<in> set (take 33 (e01_mqttUser c))"
    and f6: "NUL \<in> set (take 65 (e01_mqttPass c))"
    and f7: "NUL \<in> set (take 65 (e01_mqttTopic c))"
  shows "\<exists>a. e01_handleSettings e html c = Inr a \<and> length (resp_body a) \<le> length html + 284 \<and>
           (malloc_ok e \<longrightarrow>
              a = \<lparr>resp_code = 200, resp_headers = [], resp_type = Some ''text/html'',
                  resp_body = substituted ''{{MQTT_TOPIC}}'' (c_str (e01_mqttTopic c))
                    (substituted ''{{MQTT_PASS}}'' (c_str (e01_mqttPass c))
                    (substituted ''{{MQTT_USER}}'' (c_str (e01_mqttUser c))
                    (substituted ''{{MQTT_PORT}}'' (snprintf 6 (dec (unat (e01_mqttPort c))))
                    (substituted ''{{MQTT_HOST}}'' (c_str (e01_mqttHost c))
                    (substituted ''{{TZ}}'' (c_str (e01_tzInfo c))
                    (substituted ''{{PASS}}'' (c_str (e01_pass c))
                    (substituted ''{{SSID}}'' (c_str (e01_ssid c))
                    (html))))))))\<rparr>)"
proof (cases "malloc e (length html + 300)")
  case None
  then have "\<not> malloc_ok e" by (simp add: malloc_def split: if_splits)
  with None show ?thesis by (simp add: e01_handleSettings_def)
next
  case (Some blk)
  let ?n = "length html"
  let ?port = "snprintf 6 (dec (unat (e01_mqttPort c)))"
  from malloc_copy[OF h Some] obtain p0 where
    p0: "memcpy blk 0 (html @ [NUL]) (?n + 1) = Inr p0" "NUL \<in> set p0"
        "length p0 = ?n + 300" "c_str p0 = html" by auto
  from field_fits[of 32 "e01_ssid c"] f1 have v1:
    "field_str (e01_ssid c) = Inr (c_str (e01_ssid c))"
    "length (c_str (e01_ssid c)) \<le> 32" "NUL \<notin> set (c_str (e01_ssid c))" by auto
  from field_fits[of 64 "e01_pass c"] f2 have v2:
    "field_str (e01_pass c) = Inr (c_str (e01_pass c))"
    "length (c_str (e01_pass c)) \<le> 64" "NUL \<notin> set (c_str (e01_pass c))" by auto
  from field_fits[of 39 "e01_tzInfo c"] f3 have v3:
    "field_str (e01_tzInfo c) = Inr (c_str (e01_tzInfo c))"
    "length (c_str (e01_tzInfo c)) \<le> 39" "NUL \<notin> set (c_str (e01_tzInfo c))" by auto
  from field_fits[of 64 "e01_mqttHost c"] f4 have v4:
    "field_str (e01_mqttHost c) = Inr (c_str (e01_mqttHost c))"
    "length (c_str (e01_mqttHost c)) \<le> 64" "NUL \<notin> set (c_str (e01_mqttHost c))" by auto
  from field_fits[of 32 "e01_mqttUser c"] f5 have v5:
    "field_str (e01_mqttUser c) = Inr (c_str (e01_mqttUser c))"
    "length (c_str (e01_mqttUser c)) \<le> 32" "NUL \<notin> set (c_str (e01_mqttUser c))" by auto
  from field_fits[of 64 "e01_mqttPass c"] f6 have v6:
    "field_str (e01_mqttPass c) = Inr (c_str (e01_mqttPass c))"
    "length (c_str (e01_mqttPass c)) \<le> 64" "NUL \<notin> set (c_str (e01_mqttPass c))" by auto
  from field_fits[of 64 "e01_mqttTopic c"] f7 have v7:
    "field_str (e01_mqttTopic c) = Inr (c_str (e01_mqttTopic c))"
    "length (c_str (e01_mqttTopic c)) \<le> 64" "NUL \<notin> set (c_str (e01_mqttTopic c))" by auto
  have vp: "NUL \<notin> set ?port" "length ?port \<le> 5" using portStr_ok by auto
  have "\<exists>p1. replaceTag p0 ''{{SSID}}'' (c_str (e01_ssid c)) = Inr p1 \<and> NUL \<in> set p1 \<and>
          length p1 = length p0 \<and> length (c_str p1) \<le> ?n + 24 \<and>
          c_str p1 = substituted ''{{SSID}}'' (c_str (e01_ssid c)) (c_str p0)"
    using p0(2,3,4) v1 by (intro replaceTag_step) auto
  then obtain p1 where p1: "replaceTag p0 ''{{SSID}}'' (c_str (e01_ssid c)) = Inr p1"
    "NUL \<in> set p1" "length p1 = ?n + 300" "length (c_str p1) \<le> ?n + 24"
    "c_str p1 = substituted ''{{SSID}}'' (c_str (e01_ssid c)) (c_str p0)"
    using p0(3) by auto
  have "\<exists>p2. replaceTag p1 ''{{PASS}}'' (c_str (e01_pass c)) = Inr p2 \<and> NUL \<in> set p2 \<and>
          length p2 = length p1 \<and> length (c_str p2) \<le> ?n + 80 \<and>
          c_str p2 = substituted ''{{PASS}}'' (c_str (e01_pass c)) (c_str p1)"
    using p1(2,3,4) v2 by (intro replaceTag_step) auto
  then obtain p2 where p2: "replaceTag p1 ''{{PASS}}'' (c_str (e01_pass c)) = Inr p2"
    "NUL \<in> set p2" "length p2 = ?n + 300" "length (c_str p2) \<le> ?n + 80"
    "c_str p2 = substituted ''{{PASS}}'' (c_str (e01_pass c)) (c_str p1)"
    using p1(3) by auto
  have "\<exists>p3. replaceTag p2 ''{{TZ}}'' (c_str (e01_tzInfo c)) = Inr p3 \<and> NUL \<in> set p3 \<and>
          length p3 = length p2 \<and> length (c_str p3) \<le> ?n + 113 \<and>
          c_str p3 = substituted ''{{TZ}}'' (c_str (e01_tzInfo c)) (c_str p2)"
    using p2(2,3,4) v3 by (intro replaceTag_step) auto
  then obtain p3 where p3: "replaceTag p2 ''{{TZ}}'' (c_str (e01_tzInfo c)) = Inr p3"
    "NUL \<in> set p3" "length p3 = ?n + 300" "length (c_str p3) \<le> ?n + 113"
    "c_str p3 = substituted ''{{TZ}}'' (c_str (e01_tzInfo c)) (c_str p2)"
    using p2(3) by auto
  have "\<exists>p4. replaceTag p3 ''{{MQTT_HOST}}'' (c_str (e01_mqttHost c)) = Inr p4 \<and> NUL \<in> set p4 \<and>
          length p4 = length p3 \<and> length (c_str p4) \<le> ?n + 164 \<and>
          c_str p4 = substituted ''{{MQTT_HOST}}'' (c_str (e01_mqttHost c)) (c_str p3)"
    using p3(2,3,4) v4 by (intro replaceTag_step) auto
  then obtain p4 where p4: "replaceTag p3 ''{{MQTT_HOST}}'' (c_str (e01_mqttHost c)) = Inr p4"
    "NUL \<in> set p4" "length p4 = ?n + 300" "length (c_str p4) \<le> ?n + 164"
    "c_str p4 = substituted ''{{MQTT_HOST}}'' (c_str (e01_mqttHost c)) (c_str p3)"
    using p3(3) by auto
  have "\<exists>p5. replaceTag p4 ''{{MQTT_PORT}}'' ?port = Inr p5 \<and> NUL \<in> set p5 \<and>
          length p5 = length p4 \<and> length (c_str p5) \<le> ?n + 164 \<and>
          c_str p5 = substituted ''{{MQTT_PORT}}'' ?port (c_str p4)"
    using p4(2,3,4) vp by (intro replaceTag_step) auto
  then obtain p5 where p5: "replaceTag p4 ''{{MQTT_PORT}}'' ?port = Inr p5"
    "NUL \<in> set p5" "length p5 = ?n + 300" "length (c_str p5) \<le> ?n + 164"
    "c_str p5 = substituted ''{{MQTT_PORT}}'' ?port (c_str p4)"
    using p4(3) by auto
  have "\<exists>p6. replaceTag p5 ''{{MQTT_USER}}'' (c_str (e01_mqttUser c)) = Inr p6 \<and> NUL \<in> set p6 \<and>
          length p6 = length p5 \<and> length (c_str p6) \<le> ?n + 183 \<and>
          c_str p6 = substituted ''{{MQTT_USER}}'' (c_str (e01_mqttUser c)) (c_str p5)"
    using p5(2,3,4) v5 by (intro replaceTag_step) auto
  then obtain p6 where p6: "replaceTag p5 ''{{MQTT_USER}}'' (c_str (e01_mqttUser c)) = Inr p6"
    "NUL \<in> set p6" "length p6 = ?n + 300" "length (c_str p6) \<le> ?n + 183"
    "c_str p6 = substituted ''{{MQTT_USER}}'' (c_str (e01_mqttUser c)) (c_str p5)"
    using p5(3) by auto
  have "\<exists>p7. replaceTag p6 ''{{MQTT_PASS}}'' (c_str (e01_mqttPass c)) = Inr p7 \<and> NUL \<in> set p7 \<and>
          length p7 = length p6 \<and> length (c_str p7) \<le> ?n + 234 \<and>
          c_str p7 = substituted ''{{MQTT_PASS}}'' (c_str (e01_mqttPass c)) (c_str p6)"
    using p6(2,3,4) v6 by (intro replaceTag_step) auto
  then obtain p7 where p7: "replaceTag p6 ''{{MQTT_PASS}}'' (c_str (e01_mqttPass c)) = Inr p7"
    "NUL \<in> set p7" "length p7 = ?n + 300" "length (c_str p7) \<le> ?n + 234"
    "c_str p7 = substituted ''{{MQTT_PASS}}'' (c_str (e01_mqttPass c)) (c_str p6)"
    using p6(3) by auto
  have "\<exists>p8. replaceTag p7 ''{{MQTT_TOPIC}}'' (c_str (e01_mqttTopic c)) = Inr p8 \<and> NUL \<in> set p8 \<and>
          length p8 = length p7 \<and> length (c_str p8) \<le> ?n + 284 \<and>
          c_str p8 = substituted ''{{MQTT_TOPIC}}'' (c_str (e01_mqttTopic c)) (c_str p7)"
    using p7(2,3,4) v7 by (intro replaceTag_step) auto
  then obtain p8 where p8: "replaceTag p7 ''{{MQTT_TOPIC}}'' (c_str (e01_mqttTopic c)) = Inr p8"
    "NUL \<in> set p8" "length p8 = ?n + 300" "length (c_str p8) \<le> ?n + 284"
    "c_str p8 = substituted ''{{MQTT_TOPIC}}'' (c_str (e01_mqttTopic c)) (c_str p7)"
    using p7(3) by auto
  have p0': "memcpy blk 0 (html @ [NUL]) (Suc ?n) = Inr p0" using p0(1) by simp
  have eq: "e01_handleSettings e html c =
      Inr \<lparr>resp_code = 200, resp_headers = [], resp_type = Some ''text/html'',
           resp_body = c_str p8\<rparr>"
    unfolding e01_handleSettings_def
    by (simp add: Some Let_def and_then_def p0' v1(1) v2(1) v3(1) v4(1) v5(1) v6(1) v7(1)
        p1(1) p2(1) p3(1) p4(1) p5(1) p6(1) p7(1) p8(1))
  have bd: "c_str p8 =
      substituted ''{{MQTT_TOPIC}}'' (c_str (e01_mqttTopic c))
                    (substituted ''{{MQTT_PASS}}'' (c_str (e01_mqttPass c))
                    (substituted ''{{MQTT_USER}}'' (c_str (e01_mqttUser c))
                    (substituted ''{{MQTT_PORT}}'' ?port
                    (substituted ''{{MQTT_HOST}}'' (c_str (e01_mqttHost c))
                    (substituted ''{{TZ}}'' (c_str (e01_tzInfo c))
                    (substituted ''{{PASS}}'' (c_str (e01_pass c))
                    (substituted ''{{SSID}}'' (c_str (e01_ssid c))
                    (html))))))))"
    by (simp only: p8(5) p7(5) p6(5) p5(5) p4(5) p3(5) p2(5) p1(5) p0(4))
  from eq p8(4) bd show ?thesis by simp
qed

subsection \<open>C2: the substitutions stay inside the block\<close>

text \<open>
  C2. Let the page text be a C string and let every field of the configuration hold a
  string within its array: a NUL among the first 33 bytes of \<open>ssid\<close> (at most 32
  characters), the first 65 of \<open>pass\<close>, the first 40 of \<open>tzInfo\<close>, and in ESP01\_OLED\_V2
  the first 65, 33, 65 and 65 bytes of \<open>mqttHost\<close>, \<open>mqttUser\<close>, \<open>mqttPass\<close> and
  \<open>mqttTopic\<close>; the port is printed into \<open>portStr[6]\<close> and so has at most 5 digits. Then
  \<open>handleSettings\<close> ends without a fault, that is, no \<open>memcpy\<close>, \<open>memmove\<close> or read
  leaves the block of \<open>pgmLen + 200\<close> (ESP01: \<open>pgmLen + 300\<close>) bytes, whatever the
  page text is and wherever the tags occur in it; and the text sent is at most 113
  (ESP01: 284) characters longer than the page, which with the terminator is below the
  200 (300) bytes of slack. The same holds for OLED13\_NTP\_V1, which uses \<open>rep\<close>.
\<close>

theorem handleSettings_within_block:
  assumes "NUL \<notin> set html"
  shows "(NUL \<in> set (take 33 (hw_ssid hw)) \<and> NUL \<in> set (take 65 (hw_pass hw)) \<and>
          NUL \<in> set (take 40 (hw_tzInfo hw)) \<longrightarrow>
            (\<exists>a. hw_handleSettings e html hw = Inr a \<and>
                  length (resp_body a) \<le> length html + 113)) \<and>
         (NUL \<in> set (take 33 (e01_ssid c)) \<and> NUL \<in> set (take 65 (e01_pass c)) \<and>
          NUL \<in> set (take 40 (e01_tzInfo c)) \<and> NUL \<in> set (take 65 (e01_mqttHost c)) \<and>
          NUL \<in> set (take 33 (e01_mqttUser c)) \<and> NUL \<in> set (take 65 (e01_mqttPass c)) \<and>
          NUL \<in> set (take 65 (e01_mqttTopic c)) \<longrightarrow>
            (\<exists>a. e01_handleSettings e html c = Inr a \<and>
                  length (resp_body a) \<le> length html + 284)) \<and>
         (NUL \<in> set (take 33 (o13_ssid oc)) \<and> NUL \<in> set (take 65 (o13_pass oc)) \<and>
          NUL \<in> set (take 40 (o13_tz oc)) \<longrightarrow>
            (\<exists>a. o13_handleSettings e html oc = Inr a \<and>
                  length (resp_body a) \<le> length html + 113))"
  using hw_handleSettings_room[OF assms, of hw e] e01_handleSettings_room[OF assms, of c e]
    o13_handleSettings_room[OF assms, of oc e]
  by blast

theorem handleSettings_within_block_witness:
  "\<forall>e :: env.
     (\<exists>a. hw_handleSettings (e\<lparr>malloc_ok := True\<rparr>)
             (''ssid={{SSID}};pass={{PASS}};tz={{TZ}}'')
           \<lparr>hw_magic = 0xBE,
            hw_ssid = ''Workshop-AP-2.4GHz_North-Wing-07'' @ [NUL],
            hw_pass = ''correct-horse-battery-staple_0123456789_ABCDEFGHIJKLMNOPQRSTUVWX'' @ [NUL],
            hw_tzInfo = ''CET-1CEST-2,M3.5.0/02:00:00,M10.5.0/03:'' @ [NUL]\<rparr> = Inr a \<and>
          length (resp_body a) \<le>
            length (''ssid={{SSID}};pass={{PASS}};tz={{TZ}}'') + 113 \<and>
          a = \<lparr>resp_code = 200, resp_headers = [], resp_type = Some ''text/html'',
            resp_body =
              ''ssid=Workshop-AP-2.4GHz_North-Wing-07;pass=correct-horse-battery-staple_0123'' @
              ''456789_ABCDEFGHIJKLMNOPQRSTUVWX;tz=CET-1CEST-2,M3.5.0/02:00:00,M10.5.0/03:''\<rparr> \<and>
          length (resp_body a) =
            length (''ssid={{SSID}};pass={{PASS}};tz={{TZ}}'') + 113) \<and>
     (\<exists>a. e01_handleSettings (e\<lparr>malloc_ok := True\<rparr>)
             (''ssid={{SSID}};pass={{PASS}};tz={{TZ}};host={{MQTT_HOST}};port={{MQTT_PORT}};'' @
              ''user={{MQTT_USER}};mpass={{MQTT_PASS}};topic={{MQTT_TOPIC}}'')
           \<lparr>e01_magic = 0xCD,
            e01_ssid = ''Workshop-AP-2.4GHz_North-Wing-07'' @ [NUL],
            e01_pass = ''correct-horse-battery-staple_0123456789_ABCDEFGHIJKLMNOPQRSTUVWX'' @ [NUL],
            e01_mqttHost = ''broker-01.sensors.building-a.campus.example.org.internal.lan.zon'' @ [NUL],
            e01_mqttPort = 65535,
            e01_mqttUser = ''clock-display-node-esp01-unit-42'' @ [NUL],
            e01_mqttPass = ''Zx9_kQ2-vB7.mN4/tR8_wE1-yU6.iO3/pA5_sD0-fG9.hJ2/kL7_cV4-bN1.mQ8/'' @ [NUL],
            e01_mqttTopic = ''site/building-a/floor-3/room-312/devices/esp01-clock/time/status'' @ [NUL],
            e01_tzInfo = ''CET-1CEST-2,M3.5.0/02:00:00,M10.5.0/03:'' @ [NUL]\<rparr> = Inr a \<and>
          length (resp_body a) \<le>
            length (''ssid={{SSID}};pass={{PASS}};tz={{TZ}};host={{MQTT_HOST}};port={{MQTT_PORT}};'' @
              ''user={{MQTT_USER}};mpass={{MQTT_PASS}};topic={{MQTT_TOPIC}}'') + 284 \<and>
          a = \<lparr>resp_code = 200, resp_headers = [], resp_type = Some ''text/html'',
            resp_body =
              ''ssid=Workshop-AP-2.4GHz_North-Wing-07;pass=correct-horse-battery-staple_0123'' @
              ''456789_ABCDEFGHIJKLMNOPQRSTUVWX;tz=CET-1CEST-2,M3.5.0/02:00:00,M10.5.0/03:;h'' @
              ''ost=broker-01.sensors.building-a.campus.example.org.internal.lan.zon;port=65'' @
              ''535;user=clock-display-node-esp01-unit-42;mpass=Zx9_kQ2-vB7.mN4/tR8_wE1-yU6.'' @
              ''iO3/pA5_sD0-fG9.hJ2/kL7_cV4-bN1.mQ8/;topic=site/building-a/floor-3/room-312/'' @
              ''devices/esp01-clock/time/status''\<rparr> \<and>
          length (resp_body a) =
            length (''ssid={{SSID}};pass={{PASS}};tz={{TZ}};host={{MQTT_HOST}};port={{MQTT_PORT}};'' @
              ''user={{MQTT_USER}};mpass={{MQTT_PASS}};topic={{MQTT_TOPIC}}'') + 276) \<and>
     (\<exists>a. o13_handleSettings (e\<lparr>malloc_ok := True\<rparr>)
             (''ssid={{SSID}};pass={{PASS}};tz={{TZ}}'')
           \<lparr>o13_magic = 0xE7,
            o13_ssid = ''Workshop-AP-2.4GHz_North-Wing-07'' @ [NUL],
            o13_pass = ''correct-horse-battery-staple_0123456789_ABCDEFGHIJKLMNOPQRSTUVWX'' @ [NUL],
            o13_tz = ''CET-1CEST-2,M3.5.0/02:00:00,M10.5.0/03:'' @ [NUL]\<rparr> = Inr a \<and>
          length (resp_body a) \<le>
            length (''ssid={{SSID}};pass={{PASS}};tz={{TZ}}'') + 113 \<and>
          a = \<lparr>resp_code = 200, resp_headers = [], resp_type = Some ''text/html'',
            resp_body =
              ''ssid=Workshop-AP-2.4GHz_North-Wing-07;pass=correct-horse-battery-staple_0123'' @
              ''456789_ABCDEFGHIJKLMNOPQRSTUVWX;tz=CET-1CEST-2,M3.5.0/02:00:00,M10.5.0/03:''\<rparr> \<and>
          length (resp_body a) =
            length (''ssid={{SSID}};pass={{PASS}};tz={{TZ}}'') + 113)"
proof (intro allI conjI)
  fix e :: env
  let ?e = "e\<lparr>malloc_ok := True\<rparr>"
  let ?ssid = "''Workshop-AP-2.4GHz_North-Wing-07''"
  let ?pw = "''correct-horse-battery-staple_0123456789_ABCDEFGHIJKLMNOPQRSTUVWX''"
  let ?tz = "''CET-1CEST-2,M3.5.0/02:00:00,M10.5.0/03:''"
  let ?host = "''broker-01.sensors.building-a.campus.example.org.internal.lan.zon''"
  let ?user = "''clock-display-node-esp01-unit-42''"
  let ?mpw = "''Zx9_kQ2-vB7.mN4/tR8_wE1-yU6.iO3/pA5_sD0-fG9.hJ2/kL7_cV4-bN1.mQ8/''"
  let ?topic = "''site/building-a/floor-3/room-312/devices/esp01-clock/time/status''"
  let ?h3 = "''ssid={{SSID}};pass={{PASS}};tz={{TZ}}''"
  let ?h8 = "''ssid={{SSID}};pass={{PASS}};tz={{TZ}};host={{MQTT_HOST}};port={{MQTT_PORT}};'' @
              ''user={{MQTT_USER}};mpass={{MQTT_PASS}};topic={{MQTT_TOPIC}}''"
  let ?b3 = "''ssid=Workshop-AP-2.4GHz_North-Wing-07;pass=correct-horse-battery-staple_0123'' @
              ''456789_ABCDEFGHIJKLMNOPQRSTUVWX;tz=CET-1CEST-2,M3.5.0/02:00:00,M10.5.0/03:''"
  let ?b8 = "''ssid=Workshop-AP-2.4GHz_North-Wing-07;pass=correct-horse-battery-staple_0123'' @
              ''456789_ABCDEFGHIJKLMNOPQRSTUVWX;tz=CET-1CEST-2,M3.5.0/02:00:00,M10.5.0/03:;h'' @
              ''ost=broker-01.sensors.building-a.campus.example.org.internal.lan.zon;port=65'' @
              ''535;user=clock-display-node-esp01-unit-42;mpass=Zx9_kQ2-vB7.mN4/tR8_wE1-yU6.'' @
              ''iO3/pA5_sD0-fG9.hJ2/kL7_cV4-bN1.mQ8/;topic=site/building-a/floor-3/room-312/'' @
              ''devices/esp01-clock/time/status''"
  let ?hw = "\<lparr>hw_magic = 0xBE,
            hw_ssid = ''Workshop-AP-2.4GHz_North-Wing-07'' @ [NUL],
            hw_pass = ''correct-horse-battery-staple_0123456789_ABCDEFGHIJKLMNOPQRSTUVWX'' @ [NUL],
            hw_tzInfo = ''CET-1CEST-2,M3.5.0/02:00:00,M10.5.0/03:'' @ [NUL]\<rparr>"
  let ?oc = "\<lparr>o13_magic = 0xE7,
            o13_ssid = ''Workshop-AP-2.4GHz_North-Wing-07'' @ [NUL],
            o13_pass = ''correct-horse-battery-staple_0123456789_ABCDEFGHIJKLMNOPQRSTUVWX'' @ [NUL],
            o13_tz = ''CET-1CEST-2,M3.5.0/02:00:00,M10.5.0/03:'' @ [NUL]\<rparr>"
  let ?c = "\<lparr>e01_magic = 0xCD,
            e01_ssid = ''Workshop-AP-2.4GHz_North-Wing-07'' @ [NUL],
            e01_pass = ''correct-horse-battery-staple_0123456789_ABCDEFGHIJKLMNOPQRSTUVWX'' @ [NUL],
            e01_mqttHost = ''broker-01.sensors.building-a.campus.example.org.internal.lan.zon'' @ [NUL],
            e01_mqttPort = 65535,
            e01_mqttUser = ''clock-display-node-esp01-unit-42'' @ [NUL],
            e01_mqttPass = ''Zx9_kQ2-vB7.mN4/tR8_wE1-yU6.iO3/pA5_sD0-fG9.hJ2/kL7_cV4-bN1.mQ8/'' @ [NUL],
            e01_mqttTopic = ''site/building-a/floor-3/room-312/devices/esp01-clock/time/status'' @ [NUL],
            e01_tzInfo = ''CET-1CEST-2,M3.5.0/02:00:00,M10.5.0/03:'' @ [NUL]\<rparr>"
  have h3: "NUL \<notin> set ?h3" and h8: "NUL \<notin> set ?h8" by (simp_all add: NUL_def)
  have cs: "c_str (?ssid @ [NUL]) = ?ssid" "c_str (?pw @ [NUL]) = ?pw" "c_str (?tz @ [NUL]) = ?tz"
    "c_str (?host @ [NUL]) = ?host" "c_str (?user @ [NUL]) = ?user"
    "c_str (?mpw @ [NUL]) = ?mpw" "c_str (?topic @ [NUL]) = ?topic"
    by (simp_all add: c_str_def NUL_def)
  have port: "snprintf 6 (dec (unat (65535 :: 16 word))) = ''65535''"
    by (simp add: snprintf_def dec.simps digit_def)
  have fh: "NUL \<in> set (take 33 (hw_ssid ?hw))" "NUL \<in> set (take 65 (hw_pass ?hw))"
    "NUL \<in> set (take 40 (hw_tzInfo ?hw))"
    by simp_all
  have fo: "NUL \<in> set (take 33 (o13_ssid ?oc))" "NUL \<in> set (take 65 (o13_pass ?oc))"
    "NUL \<in> set (take 40 (o13_tz ?oc))"
    by simp_all
  have fc: "NUL \<in> set (take 33 (e01_ssid ?c))" "NUL \<in> set (take 65 (e01_pass ?c))"
    "NUL \<in> set (take 40 (e01_tzInfo ?c))" "NUL \<in> set (take 65 (e01_mqttHost ?c))"
    "NUL \<in> set (take 33 (e01_mqttUser ?c))" "NUL \<in> set (take 65 (e01_mqttPass ?c))"
    "NUL \<in> set (take 65 (e01_mqttTopic ?c))"
    by simp_all
  have s3: "substituted ''{{TZ}}'' ?tz
              (substituted ''{{PASS}}'' ?pw (substituted ''{{SSID}}'' ?ssid ?h3)) = ?b3"
    by (simp add: substituted_def)
  have s8: "substituted ''{{MQTT_TOPIC}}'' ?topic
             (substituted ''{{MQTT_PASS}}'' ?mpw
             (substituted ''{{MQTT_USER}}'' ?user
             (substituted ''{{MQTT_PORT}}'' ''65535''
             (substituted ''{{MQTT_HOST}}'' ?host
             (substituted ''{{TZ}}'' ?tz
             (substituted ''{{PASS}}'' ?pw (substituted ''{{SSID}}'' ?ssid ?h8))))))) = ?b8"
    by (simp add: substituted_def)
  note T3 = handleSettings_within_block[OF h3, of ?hw ?e ?c ?oc]
  note T8 = handleSettings_within_block[OF h8, of ?hw ?e ?c ?oc]
  from T3 fh obtain a1 where a1: "hw_handleSettings ?e ?h3 ?hw = Inr a1"
    "length (resp_body a1) \<le> length ?h3 + 113" by blast
  from hw_handleSettings_room[OF h3 fh, of ?e] a1(1)
  have "a1 = \<lparr>resp_code = 200, resp_headers = [], resp_type = Some ''text/html'',
               resp_body = substituted ''{{TZ}}'' (c_str (hw_tzInfo ?hw))
                 (substituted ''{{PASS}}'' (c_str (hw_pass ?hw))
                 (substituted ''{{SSID}}'' (c_str (hw_ssid ?hw)) ?h3))\<rparr>"
    by simp
  then have b1: "a1 = \<lparr>resp_code = 200, resp_headers = [], resp_type = Some ''text/html'',
                      resp_body = ?b3\<rparr>"
    by (simp only: hw_DevConfig.simps cs s3)
  then have "length (resp_body a1) = length ?h3 + 113" by simp
  with a1 b1 show "\<exists>a. hw_handleSettings ?e ?h3 ?hw = Inr a \<and>
      length (resp_body a) \<le> length ?h3 + 113 \<and>
      a = \<lparr>resp_code = 200, resp_headers = [], resp_type = Some ''text/html'',
            resp_body = ?b3\<rparr> \<and>
      length (resp_body a) = length ?h3 + 113"
    by (intro exI[of _ a1] conjI)
  from T8 fc obtain a2 where a2: "e01_handleSettings ?e ?h8 ?c = Inr a2"
    "length (resp_body a2) \<le> length ?h8 + 284" by blast
  from e01_handleSettings_room[OF h8 fc, of ?e] a2(1)
  have "a2 = \<lparr>resp_code = 200, resp_headers = [], resp_type = Some ''text/html'',
               resp_body = substituted ''{{MQTT_TOPIC}}'' (c_str (e01_mqttTopic ?c))
                 (substituted ''{{MQTT_PASS}}'' (c_str (e01_mqttPass ?c))
                 (substituted ''{{MQTT_USER}}'' (c_str (e01_mqttUser ?c))
                 (substituted ''{{MQTT_PORT}}'' (snprintf 6 (dec (unat (e01_mqttPort ?c))))
                 (substituted ''{{MQTT_HOST}}'' (c_str (e01_mqttHost ?c))
                 (substituted ''{{TZ}}'' (c_str (e01_tzInfo ?c))
                 (substituted ''{{PASS}}'' (c_str (e01_pass ?c))
                 (substituted ''{{SSID}}'' (c_str (e01_ssid ?c)) ?h8)))))))\<rparr>"
    by simp
  then have b2: "a2 = \<lparr>resp_code = 200, resp_headers = [], resp_type = Some ''text/html'',
                      resp_body = ?b8\<rparr>"
    by (simp only: e01_DevConfig.simps cs port s8)
  then have "length (resp_body a2) = length ?h8 + 276" by simp
  with a2 b2 show "\<exists>a. e01_handleSettings ?e ?h8 ?c = Inr a \<and>
      length (resp_body a) \<le> length ?h8 + 284 \<and>
      a = \<lparr>resp_code = 200, resp_headers = [], resp_type = Some ''text/html'',
            resp_body = ?b8\<rparr> \<and>
      length (resp_body a) = length ?h8 + 276"
    by (intro exI[of _ a2] conjI)
  from T3 fo obtain a3 where a3: "o13_handleSettings ?e ?h3 ?oc = Inr a3"
    "length (resp_body a3) \<le> length ?h3 + 113" by blast
  from o13_handleSettings_room[OF h3 fo, of ?e] a3(1)
  have "a3 = \<lparr>resp_code = 200, resp_headers = [], resp_type = Some ''text/html'',
               resp_body = substituted ''{{TZ}}'' (c_str (o13_tz ?oc))
                 (substituted ''{{PASS}}'' (c_str (o13_pass ?oc))
                 (substituted ''{{SSID}}'' (c_str (o13_ssid ?oc)) ?h3))\<rparr>"
    by simp
  then have b3: "a3 = \<lparr>resp_code = 200, resp_headers = [], resp_type = Some ''text/html'',
                      resp_body = ?b3\<rparr>"
    by (simp only: o13_DevConfig.simps cs s3)
  then have "length (resp_body a3) = length ?h3 + 113" by simp
  with a3 b3 show "\<exists>a. o13_handleSettings ?e ?h3 ?oc = Inr a \<and>
      length (resp_body a) \<le> length ?h3 + 113 \<and>
      a = \<lparr>resp_code = 200, resp_headers = [], resp_type = Some ''text/html'',
            resp_body = ?b3\<rparr> \<and>
      length (resp_body a) = length ?h3 + 113"
    by (intro exI[of _ a3] conjI)
qed

section \<open>Properties of the configuration store\<close>

subsection \<open>C3: \<open>loadConfig\<close> and the magic byte\<close>

text \<open>
  Read for ESP32\_OLED\_V1, the claim's list of defaults is short by one: with a wrong magic
  byte that sketch also sets \<open>ledBlink\<close> to 1, so the configuration is not the zeroed
  record with only the magic byte, the timezone, the port and the topic filled in. Here
  the EEPROM holds zeros.
\<close>

theorem loadConfig_esp32_ledBlink_counterexample:
  "e32_magic e32_zeroed \<noteq> e32_EEPROM_MAGIC \<and>
   fst (e32_loadConfig e32_zeroed) \<noteq>
     \<lparr>e32_magic = e32_EEPROM_MAGIC, e32_ssid = replicate 33 NUL, e32_pass = replicate 65 NUL,
      e32_tzInfo = ''ICT-7'' @ replicate 35 NUL, e32_mqttServer = replicate 65 NUL,
      e32_mqttPort = 1883, e32_mqttUser = replicate 33 NUL, e32_mqttPass = replicate 65 NUL,
      e32_mqttTopic = ''esp32/oled/time'' @ replicate 50 NUL, e32_ledBlink = 0\<rparr> \<and>
   e32_ledBlink (fst (e32_loadConfig e32_zeroed)) = 1"
  by (simp add: e32_loadConfig_def e32_saveConfig_def e32_zeroed_def e32_EEPROM_MAGIC_def Let_def)

lemma strlcpy_zeros:
  "length s < n \<Longrightarrow> strlcpy (replicate n NUL) s n = s @ replicate (n - length s) NUL"
  by (cases n) (auto simp: strlcpy_def Let_def min_def replicate_app_Cons_same Suc_diff_le
        simp flip: replicate_Suc)

text \<open>
  C3, amended by that default. \<open>loadConfig\<close> (\<open>loadCfg\<close> in OLED13\_NTP\_V1) takes the
  record stored in the EEPROM. When its magic byte differs from the sketch's constant
  (\<open>0xBE\<close>, \<open>0xE7\<close>, \<open>0xCD\<close>, \<open>0xE7\<close>), the configuration in memory is all zeros but
  for the magic byte, the timezone \<open>ICT-7\<close>, in the two MQTT sketches the port 1883 and
  the topic (\<open>ntp/esp01\<close>, \<open>esp32/oled/time\<close>), and in ESP32\_OLED\_V1 also \<open>ledBlink = 1\<close>,
  after which that sketch writes the defaults to the EEPROM. When the magic byte matches,
  the stored record is the configuration, whatever its other fields hold.
\<close>

theorem loadConfig_gated_by_magic:
  "(hw_magic hw \<noteq> hw_EEPROM_MAGIC \<longrightarrow>
      hw_loadConfig hw = \<lparr>hw_magic = 0xBE, hw_ssid = replicate 33 NUL,
                           hw_pass = replicate 65 NUL,
                           hw_tzInfo = ''ICT-7'' @ replicate 35 NUL\<rparr>) \<and>
   (hw_magic hw = hw_EEPROM_MAGIC \<longrightarrow> hw_loadConfig hw = hw) \<and>
   (o13_magic oc \<noteq> o13_EEPROM_MAGIC \<longrightarrow>
      o13_loadCfg oc = \<lparr>o13_magic = 0xE7, o13_ssid = replicate 33 NUL,
                          o13_pass = replicate 65 NUL,
                          o13_tz = ''ICT-7'' @ replicate 35 NUL\<rparr>) \<and>
   (o13_magic oc = o13_EEPROM_MAGIC \<longrightarrow> o13_loadCfg oc = oc) \<and>
   (e01_magic c \<noteq> e01_EEPROM_MAGIC \<longrightarrow>
      e01_loadConfig c = \<lparr>e01_magic = 0xCD, e01_ssid = replicate 33 NUL,
                            e01_pass = replicate 65 NUL, e01_mqttHost = replicate 65 NUL,
                            e01_mqttPort = 1883, e01_mqttUser = replicate 33 NUL,
                            e01_mqttPass = replicate 65 NUL,
                            e01_mqttTopic = ''ntp/esp01'' @ replicate 56 NUL,
                            e01_tzInfo = ''ICT-7'' @ replicate 35 NUL\<rparr>) \<and>
   (e01_magic c = e01_EEPROM_MAGIC \<longrightarrow> e01_loadConfig c = c) \<and>
   (e32_magic x \<noteq> e32_EEPROM_MAGIC \<longrightarrow>
      fst (e32_loadConfig x) =
        \<lparr>e32_magic = 0xE7, e32_ssid = replicate 33 NUL, e32_pass = replicate 65 NUL,
         e32_tzInfo = ''ICT-7'' @ replicate 35 NUL, e32_mqttServer = replicate 65 NUL,
         e32_mqttPort = 1883, e32_mqttUser = replicate 33 NUL,
         e32_mqttPass = replicate 65 NUL,
         e32_mqttTopic = ''esp32/oled/time'' @ replicate 50 NUL, e32_ledBlink = 1\<rparr> \<and>
      snd (e32_loadConfig x) = fst (e32_loadConfig x)) \<and>
   (e32_magic x = e32_EEPROM_MAGIC \<longrightarrow> e32_loadConfig x = (x, x))"
proof -
  have tz: "strlcpy (replicate 40 NUL) ''ICT-7'' 40 = ''ICT-7'' @ replicate 35 NUL"
    by (simp add: strlcpy_zeros)
  have t1: "strlcpy (replicate 65 NUL) ''ntp/esp01'' 65 = ''ntp/esp01'' @ replicate 56 NUL"
    by (simp add: strlcpy_zeros)
  have t2: "strlcpy (replicate 65 NUL) ''esp32/oled/time'' 65 = ''esp32/oled/time'' @ replicate 50 NUL"
    by (simp add: strlcpy_zeros)
  have hw1: "hw_magic hw \<noteq> hw_EEPROM_MAGIC \<longrightarrow>
      hw_loadConfig hw = \<lparr>hw_magic = 0xBE, hw_ssid = replicate 33 NUL,
                           hw_pass = replicate 65 NUL,
                           hw_tzInfo = ''ICT-7'' @ replicate 35 NUL\<rparr>"
    by (simp add: hw_loadConfig_def hw_zeroed_def hw_EEPROM_MAGIC_def Let_def tz)
  have hw2: "hw_magic hw = hw_EEPROM_MAGIC \<longrightarrow> hw_loadConfig hw = hw"
    by (simp add: hw_loadConfig_def Let_def)
  have o1: "o13_magic oc \<noteq> o13_EEPROM_MAGIC \<longrightarrow>
      o13_loadCfg oc = \<lparr>o13_magic = 0xE7, o13_ssid = replicate 33 NUL,
                          o13_pass = replicate 65 NUL,
                          o13_tz = ''ICT-7'' @ replicate 35 NUL\<rparr>"
    by (simp add: o13_loadCfg_def o13_zeroed_def o13_EEPROM_MAGIC_def Let_def tz)
  have o2: "o13_magic oc = o13_EEPROM_MAGIC \<longrightarrow> o13_loadCfg oc = oc"
    by (simp add: o13_loadCfg_def Let_def)
  have e1: "e01_magic c \<noteq> e01_EEPROM_MAGIC \<longrightarrow>
      e01_loadConfig c = \<lparr>e01_magic = 0xCD, e01_ssid = replicate 33 NUL,
                            e01_pass = replicate 65 NUL, e01_mqttHost = replicate 65 NUL,
                            e01_mqttPort = 1883, e01_mqttUser = replicate 33 NUL,
                            e01_mqttPass = replicate 65 NUL,
                            e01_mqttTopic = ''ntp/esp01'' @ replicate 56 NUL,
                            e01_tzInfo = ''ICT-7'' @ replicate 35 NUL\<rparr>"
    by (simp add: e01_loadConfig_def e01_zeroed_def e01_EEPROM_MAGIC_def Let_def tz t1)
  have e2: "e01_magic c = e01_EEPROM_MAGIC \<longrightarrow> e01_loadConfig c = c"
    by (simp add: e01_loadConfig_def Let_def)
  have x1: "e32_magic x \<noteq> e32_EEPROM_MAGIC \<longrightarrow>
      fst (e32_loadConfig x) =
        \<lparr>e32_magic = 0xE7, e32_ssid = replicate 33 NUL, e32_pass = replicate 65 NUL,
         e32_tzInfo = ''ICT-7'' @ replicate 35 NUL, e32_mqttServer = replicate 65 NUL,
         e32_mqttPort = 1883, e32_mqttUser = replicate 33 NUL,
         e32_mqttPass = replicate 65 NUL,
         e32_mqttTopic = ''esp32/oled/time'' @ replicate 50 NUL, e32_ledBlink = 1\<rparr> \<and>
      snd (e32_loadConfig x) = fst (e32_loadConfig x)"
    by (simp add: e32_loadConfig_def e32_saveConfig_def e32_zeroed_def e32_EEPROM_MAGIC_def
        Let_def tz t2)
  have x2: "e32_magic x = e32_EEPROM_MAGIC \<longrightarrow> e32_loadConfig x = (x, x)"
    by (simp add: e32_loadConfig_def Let_def)
  from hw1 hw2 o1 o2 e1 e2 x1 x2 show ?thesis by blast
qed

theorem loadConfig_gated_by_magic_witness:
  "hw_loadConfig (hw_zeroed\<lparr>hw_magic := 0xFF, hw_ssid := replicate 33 (CHR 0xFF)\<rparr>) =
     \<lparr>hw_magic = 0xBE, hw_ssid = replicate 33 NUL, hw_pass = replicate 65 NUL,
      hw_tzInfo = ''ICT-7'' @ replicate 35 NUL\<rparr> \<and>
   hw_loadConfig (hw_zeroed\<lparr>hw_magic := 0xBE, hw_ssid := replicate 33 (CHR 0xFF)\<rparr>) =
     hw_zeroed\<lparr>hw_magic := 0xBE, hw_ssid := replicate 33 (CHR 0xFF)\<rparr> \<and>
   o13_loadCfg (o13_zeroed\<lparr>o13_magic := 0xFF\<rparr>) =
     \<lparr>o13_magic = 0xE7, o13_ssid = replicate 33 NUL, o13_pass = replicate 65 NUL,
      o13_tz = ''ICT-7'' @ replicate 35 NUL\<rparr> \<and>
   o13_loadCfg (o13_zeroed\<lparr>o13_magic := 0xE7\<rparr>) = o13_zeroed\<lparr>o13_magic := 0xE7\<rparr> \<and>
   e01_mqttPort (e01_loadConfig (e01_zeroed\<lparr>e01_magic := 0xFF\<rparr>)) = 1883 \<and>
   e01_loadConfig (e01_zeroed\<lparr>e01_magic := 0xCD\<rparr>) = e01_zeroed\<lparr>e01_magic := 0xCD\<rparr> \<and>
   e32_ledBlink (fst (e32_loadConfig (e32_zeroed\<lparr>e32_magic := 0xFF\<rparr>))) = 1 \<and>
   e32_loadConfig (e32_zeroed\<lparr>e32_magic := 0xE7\<rparr>) =
     (e32_zeroed\<lparr>e32_magic := 0xE7\<rparr>, e32_zeroed\<lparr>e32_magic := 0xE7\<rparr>)"
proof -
  let ?hb = "hw_zeroed\<lparr>hw_magic := 0xFF, hw_ssid := replicate 33 (CHR 0xFF)\<rparr>"
  let ?hg = "hw_zeroed\<lparr>hw_magic := 0xBE, hw_ssid := replicate 33 (CHR 0xFF)\<rparr>"
  have b: "hw_magic ?hb \<noteq> hw_EEPROM_MAGIC" "o13_magic (o13_zeroed\<lparr>o13_magic := 0xFF\<rparr>) \<noteq> o13_EEPROM_MAGIC"
    "e01_magic (e01_zeroed\<lparr>e01_magic := 0xFF\<rparr>) \<noteq> e01_EEPROM_MAGIC"
    "e32_magic (e32_zeroed\<lparr>e32_magic := 0xFF\<rparr>) \<noteq> e32_EEPROM_MAGIC"
    by (simp_all add: hw_EEPROM_MAGIC_def o13_EEPROM_MAGIC_def e01_EEPROM_MAGIC_def
        e32_EEPROM_MAGIC_def)
  have g: "hw_magic ?hg = hw_EEPROM_MAGIC" "o13_magic (o13_zeroed\<lparr>o13_magic := 0xE7\<rparr>) = o13_EEPROM_MAGIC"
    "e01_magic (e01_zeroed\<lparr>e01_magic := 0xCD\<rparr>) = e01_EEPROM_MAGIC"
    "e32_magic (e32_zeroed\<lparr>e32_magic := 0xE7\<rparr>) = e32_EEPROM_MAGIC"
    by (simp_all add: hw_EEPROM_MAGIC_def o13_EEPROM_MAGIC_def e01_EEPROM_MAGIC_def
        e32_EEPROM_MAGIC_def)
  note bad = loadConfig_gated_by_magic[of ?hb "o13_zeroed\<lparr>o13_magic := 0xFF\<rparr>"
      "e01_zeroed\<lparr>e01_magic := 0xFF\<rparr>" "e32_zeroed\<lparr>e32_magic := 0xFF\<rparr>"]
  note good = loadConfig_gated_by_magic[of ?hg "o13_zeroed\<lparr>o13_magic := 0xE7\<rparr>"
      "e01_zeroed\<lparr>e01_magic := 0xCD\<rparr>" "e32_zeroed\<lparr>e32_magic := 0xE7\<rparr>"]
  have 1: "hw_loadConfig ?hb = \<lparr>hw_magic = 0xBE, hw_ssid = replicate 33 NUL,
      hw_pass = replicate 65 NUL, hw_tzInfo = ''ICT-7'' @ replicate 35 NUL\<rparr>"
    using bad b(1) by blast
  have 2: "hw_loadConfig ?hg = ?hg" using good g(1) by blast
  have 3: "o13_loadCfg (o13_zeroed\<lparr>o13_magic := 0xFF\<rparr>) =
     \<lparr>o13_magic = 0xE7, o13_ssid = replicate 33 NUL, o13_pass = replicate 65 NUL,
      o13_tz = ''ICT-7'' @ replicate 35 NUL\<rparr>" using bad b(2) by blast
  have 4: "o13_loadCfg (o13_zeroed\<lparr>o13_magic := 0xE7\<rparr>) = o13_zeroed\<lparr>o13_magic := 0xE7\<rparr>"
    using good g(2) by blast
  have "e01_loadConfig (e01_zeroed\<lparr>e01_magic := 0xFF\<rparr>) =
      \<lparr>e01_magic = 0xCD, e01_ssid = replicate 33 NUL,
       e01_pass = replicate 65 NUL, e01_mqttHost = replicate 65 NUL,
       e01_mqttPort = 1883, e01_mqttUser = replicate 33 NUL,
       e01_mqttPass = replicate 65 NUL,
       e01_mqttTopic = ''ntp/esp01'' @ replicate 56 NUL,
       e01_tzInfo = ''ICT-7'' @ replicate 35 NUL\<rparr>" using bad b(3) by blast
  then have 5: "e01_mqttPort (e01_loadConfig (e01_zeroed\<lparr>e01_magic := 0xFF\<rparr>)) = 1883" by simp
  have 6: "e01_loadConfig (e01_zeroed\<lparr>e01_magic := 0xCD\<rparr>) = e01_zeroed\<lparr>e01_magic := 0xCD\<rparr>"
    using good g(3) by blast
  have "fst (e32_loadConfig (e32_zeroed\<lparr>e32_magic := 0xFF\<rparr>)) =
        \<lparr>e32_magic = 0xE7, e32_ssid = replicate 33 NUL, e32_pass = replicate 65 NUL,
         e32_tzInfo = ''ICT-7'' @ replicate 35 NUL, e32_mqttServer = replicate 65 NUL,
         e32_mqttPort = 1883, e32_mqttUser = replicate 33 NUL,
         e32_mqttPass = replicate 65 NUL,
         e32_mqttTopic = ''esp32/oled/time'' @ replicate 50 NUL, e32_ledBlink = 1\<rparr>"
    using bad b(4) by blast
  then have 7: "e32_ledBlink (fst (e32_loadConfig (e32_zeroed\<lparr>e32_magic := 0xFF\<rparr>))) = 1" by simp
  have 8: "e32_loadConfig (e32_zeroed\<lparr>e32_magic := 0xE7\<rparr>) =
     (e32_zeroed\<lparr>e32_magic := 0xE7\<rparr>, e32_zeroed\<lparr>e32_magic := 0xE7\<rparr>)"
    using good g(4) by blast
  from 1 2 3 4 5 6 7 8 show ?thesis by blast
qed

subsection \<open>C10: what the captive-portal save leaves alone\<close>

lemma hw_setup_cfg: "hw_cfg (hw_setup b ee) = hw_loadConfig ee"
  by (simp add: hw_setup_def hw_boot_def hw_startSTA_def hw_startAP_def Let_def)

lemma o13_setup_cfg: "o13_cfg (o13_setup b ee) = o13_loadCfg ee"
  by (simp add: o13_setup_def o13_boot_def o13_startSTA_def o13_startAP_def Let_def)

lemma e01_setup_cfg: "e01_cfg (e01_setup b ee) = e01_loadConfig ee"
  by (simp add: e01_setup_def e01_boot_def e01_startSTA_def e01_startAP_def Let_def)

text \<open>
  C10. In ESP01\_OLED\_V2 and OLED13\_NTP\_V1, \<open>handlePortalSave\<close> changes the
  configuration only in \<open>ssid\<close> and \<open>pass\<close> (each only when the argument is present) and
  in the magic byte written by \<open>saveConfig\<close> / \<open>saveCfg\<close>; the EEPROM then holds that
  record, the \<open>setup\<close> that follows the restart loads it back unchanged, and so the
  timezone and, in ESP01\_OLED\_V2, the five MQTT settings are after the reboot what they
  were before the request.
\<close>

theorem handlePortalSave_frame:
  "(case e01_handlePortalSave r c of (cfg, eeprom, a) \<Rightarrow>
      cfg = c\<lparr>e01_ssid := (if hasArg r ''ssid'' then strlcpy (e01_ssid c) (arg r ''ssid'') 33
                            else e01_ssid c),
              e01_pass := (if hasArg r ''pass'' then strlcpy (e01_pass c) (arg r ''pass'') 65
                            else e01_pass c),
              e01_magic := e01_EEPROM_MAGIC\<rparr> \<and>
      eeprom = cfg \<and>
      e01_cfg (e01_setup b eeprom) = cfg \<and>
      e01_tzInfo (e01_cfg (e01_setup b eeprom)) = e01_tzInfo c \<and>
      e01_mqttHost (e01_cfg (e01_setup b eeprom)) = e01_mqttHost c \<and>
      e01_mqttPort (e01_cfg (e01_setup b eeprom)) = e01_mqttPort c \<and>
      e01_mqttUser (e01_cfg (e01_setup b eeprom)) = e01_mqttUser c \<and>
      e01_mqttPass (e01_cfg (e01_setup b eeprom)) = e01_mqttPass c \<and>
      e01_mqttTopic (e01_cfg (e01_setup b eeprom)) = e01_mqttTopic c) \<and>
   (case o13_handlePortalSave r oc of (cfg, eeprom, a) \<Rightarrow>
      cfg = oc\<lparr>o13_ssid := (if hasArg r ''ssid'' then strlcpy (o13_ssid oc) (arg r ''ssid'') 33
                             else o13_ssid oc),
               o13_pass := (if hasArg r ''pass'' then strlcpy (o13_pass oc) (arg r ''pass'') 65
                             else o13_pass oc),
               o13_magic := o13_EEPROM_MAGIC\<rparr> \<and>
      eeprom = cfg \<and>
      o13_cfg (o13_setup b eeprom) = cfg \<and>
      o13_tz (o13_cfg (o13_setup b eeprom)) = o13_tz oc)"
proof -
  have e01: "e01_handlePortalSave r c =
      (c\<lparr>e01_ssid := (if hasArg r ''ssid'' then strlcpy (e01_ssid c) (arg r ''ssid'') 33
                            else e01_ssid c),
              e01_pass := (if hasArg r ''pass'' then strlcpy (e01_pass c) (arg r ''pass'') 65
                            else e01_pass c),
              e01_magic := e01_EEPROM_MAGIC\<rparr>,
       c\<lparr>e01_ssid := (if hasArg r ''ssid'' then strlcpy (e01_ssid c) (arg r ''ssid'') 33
                            else e01_ssid c),
              e01_pass := (if hasArg r ''pass'' then strlcpy (e01_pass c) (arg r ''pass'') 65
                            else e01_pass c),
              e01_magic := e01_EEPROM_MAGIC\<rparr>, saved_page)"
    by (simp add: e01_handlePortalSave_def e01_saveConfig_def Let_def)
  have o13: "o13_handlePortalSave r oc =
      (oc\<lparr>o13_ssid := (if hasArg r ''ssid'' then strlcpy (o13_ssid oc) (arg r ''ssid'') 33
                             else o13_ssid oc),
               o13_pass := (if hasArg r ''pass'' then strlcpy (o13_pass oc) (arg r ''pass'') 65
                             else o13_pass oc),
               o13_magic := o13_EEPROM_MAGIC\<rparr>,
       oc\<lparr>o13_ssid := (if hasArg r ''ssid'' then strlcpy (o13_ssid oc) (arg r ''ssid'') 33
                             else o13_ssid oc),
               o13_pass := (if hasArg r ''pass'' then strlcpy (o13_pass oc) (arg r ''pass'') 65
                             else o13_pass oc),
               o13_magic := o13_EEPROM_MAGIC\<rparr>, saved_page)"
    by (simp add: o13_handlePortalSave_def o13_saveCfg_def Let_def)
  show ?thesis
    unfolding e01 o13
    by (simp add: e01_setup_cfg o13_setup_cfg e01_loadConfig_def o13_loadCfg_def Let_def)
qed

section \<open>Properties of the web server\<close>

subsection \<open>C7: requests without a handler\<close>

text \<open>
  C7. When the request waiting in \<open>server.handleClient()\<close> matches no registered route
  (no route for its path, or none for its path and method), the answer is the one of the
  not-found handler: in AP mode status 302 with the header \<open>Location: http://192.168.4.1/\<close>
  in the three ESP8266 sketches and \<open>Location: http://192.168.4.1/settings\<close> in
  ESP32\_OLED\_V1, in station mode status 404 with the plain text \<open>Not Found\<close>. The
  globals stay as they are and the device does not restart.
\<close>

theorem notFound_redirect_or_404:
  "(request e = Some r \<and> find_handler (hw_routes st) r = None \<longrightarrow>
      hw_handleClient pg e st =
        Inr (st, Some (if hw_apMode st
                       then \<lparr>resp_code = 302,
                             resp_headers = [(''Location'', ''http://192.168.4.1/'')],
                             resp_type = None, resp_body = []\<rparr>
                       else \<lparr>resp_code = 404, resp_headers = [],
                             resp_type = Some ''text/plain'', resp_body = ''Not Found''\<rparr>),
             False)) \<and>
   (request e = Some r \<and> find_handler (o13_routes ost) r = None \<longrightarrow>
      o13_handleClient pg e ost =
        Inr (ost, Some (if o13_apMode ost
                        then \<lparr>resp_code = 302,
                              resp_headers = [(''Location'', ''http://192.168.4.1/'')],
                              resp_type = None, resp_body = []\<rparr>
                        else \<lparr>resp_code = 404, resp_headers = [],
                              resp_type = Some ''text/plain'', resp_body = ''Not Found''\<rparr>),
             False)) \<and>
   (request e = Some r \<and> find_handler (e01_routes est) r = None \<longrightarrow>
      e01_handleClient pg e est =
        Inr (est, Some (if e01_apMode est
                        then \<lparr>resp_code = 302,
                              resp_headers = [(''Location'', ''http://192.168.4.1/'')],
                              resp_type = None, resp_body = []\<rparr>
                        else \<lparr>resp_code = 404, resp_headers = [],
                              resp_type = Some ''text/plain'', resp_body = ''Not Found''\<rparr>),
             False)) \<and>
   (e32_request x = Some r \<and> find_handler setupRoutes r = None \<longrightarrow>
      e32_handleClient xpg x xst =
        Inr (xst, Some (if e32_apMode xst
                        then \<lparr>resp_code = 302,
                              resp_headers = [(''Location'', ''http://192.168.4.1/settings'')],
                              resp_type = Some ''text/plain'', resp_body = []\<rparr>
                        else \<lparr>resp_code = 404, resp_headers = [],
                              resp_type = Some ''text/plain'', resp_body = ''Not Found''\<rparr>),
             False))"
  by (simp add: hw_handleClient_def o13_handleClient_def e01_handleClient_def
      e32_handleClient_def handleNotFound_def e32_notFound_def)

theorem notFound_redirect_or_404_witness:
  "\<forall>(e :: env) pg st ost est x xpg xst.
     hw_handleClient pg
         (e\<lparr>request := Some \<lparr>req_method = HTTP_GET, req_uri = ''/generate_204'', req_args = []\<rparr>\<rparr>)
         (hw_startAP st) =
       Inr (hw_startAP st,
            Some \<lparr>resp_code = 302, resp_headers = [(''Location'', ''http://192.168.4.1/'')],
                  resp_type = None, resp_body = []\<rparr>, False) \<and>
     hw_handleClient pg
         (e\<lparr>request := Some \<lparr>req_method = HTTP_GET, req_uri = ''/save'', req_args = []\<rparr>\<rparr>)
         (hw_startSTA st) =
       Inr (hw_startSTA st,
            Some \<lparr>resp_code = 404, resp_headers = [], resp_type = Some ''text/plain'',
                  resp_body = ''Not Found''\<rparr>, False) \<and>
     o13_handleClient pg
         (e\<lparr>request := Some \<lparr>req_method = HTTP_GET, req_uri = ''/generate_204'', req_args = []\<rparr>\<rparr>)
         (o13_startAP ost) =
       Inr (o13_startAP ost,
            Some \<lparr>resp_code = 302, resp_headers = [(''Location'', ''http://192.168.4.1/'')],
                  resp_type = None, resp_body = []\<rparr>, False) \<and>
     e01_handleClient pg
         (e\<lparr>request := Some \<lparr>req_method = HTTP_GET, req_uri = ''/generate_204'', req_args = []\<rparr>\<rparr>)
         (e01_startSTA est) =
       Inr (e01_startSTA est,
            Some \<lparr>resp_code = 404, resp_headers = [], resp_type = Some ''text/plain'',
                  resp_body = ''Not Found''\<rparr>, False) \<and>
     e32_handleClient xpg
         (x\<lparr>e32_request := Some \<lparr>req_method = HTTP_GET, req_uri = ''/generate_204'', req_args = []\<rparr>\<rparr>)
         (e32_startAP xst) =
       Inr (e32_startAP xst,
            Some \<lparr>resp_code = 302,
                  resp_headers = [(''Location'', ''http://192.168.4.1/settings'')],
                  resp_type = Some ''text/plain'', resp_body = []\<rparr>, False)"
proof (intro allI)
  fix e :: env and pg st ost est x xpg xst
  let ?r = "\<lparr>req_method = HTTP_GET, req_uri = ''/generate_204'', req_args = []\<rparr>"
  let ?s = "\<lparr>req_method = HTTP_GET, req_uri = ''/save'', req_args = []\<rparr>"
  have n: "find_handler (hw_routes (hw_startAP st)) ?r = None"
    "find_handler (hw_routes (hw_startSTA st)) ?s = None"
    "find_handler (o13_routes (o13_startAP ost)) ?r = None"
    "find_handler (e01_routes (e01_startSTA est)) ?r = None"
    "find_handler setupRoutes ?r = None"
    by (simp_all add: find_handler_def canHandle_def hw_startAP_def hw_startSTA_def
        o13_startAP_def e01_startSTA_def setupRoutes_def)
  have m: "hw_apMode (hw_startAP st)" "\<not> hw_apMode (hw_startSTA st)"
    "o13_apMode (o13_startAP ost)" "\<not> e01_apMode (e01_startSTA est)"
    "e32_apMode (e32_startAP xst)"
    by (simp_all add: hw_startAP_def hw_startSTA_def o13_startAP_def e01_startSTA_def
        e32_startAP_def)
  have 1: "hw_handleClient pg (e\<lparr>request := Some ?r\<rparr>) (hw_startAP st) =
       Inr (hw_startAP st,
            Some \<lparr>resp_code = 302, resp_headers = [(''Location'', ''http://192.168.4.1/'')],
                  resp_type = None, resp_body = []\<rparr>, False)"
    using notFound_redirect_or_404[where e="e\<lparr>request := Some ?r\<rparr>" and r="?r" and st="hw_startAP st" and pg=pg and ost=ost and est=est and x=x and xpg=xpg and xst=xst]
      n(1) m(1) by simp
  have 2: "hw_handleClient pg (e\<lparr>request := Some ?s\<rparr>) (hw_startSTA st) =
       Inr (hw_startSTA st,
            Some \<lparr>resp_code = 404, resp_headers = [], resp_type = Some ''text/plain'',
                  resp_body = ''Not Found''\<rparr>, False)"
    using notFound_redirect_or_404[where e="e\<lparr>request := Some ?s\<rparr>" and r="?s" and st="hw_startSTA st" and pg=pg and ost=ost and est=est and x=x and xpg=xpg and xst=xst]
      n(2) m(2) by simp
  have 3: "o13_handleClient pg (e\<lparr>request := Some ?r\<rparr>) (o13_startAP ost) =
       Inr (o13_startAP ost,
            Some \<lparr>resp_code = 302, resp_headers = [(''Location'', ''http://192.168.4.1/'')],
                  resp_type = None, resp_body = []\<rparr>, False)"
    using notFound_redirect_or_404[where e="e\<lparr>request := Some ?r\<rparr>" and r="?r" and ost="o13_startAP ost" and pg=pg and st=st and est=est and x=x and xpg=xpg and xst=xst]
      n(3) m(3) by simp
  have 4: "e01_handleClient pg (e\<lparr>request := Some ?r\<rparr>) (e01_startSTA est) =
       Inr (e01_startSTA est,
            Some \<lparr>resp_code = 404, resp_headers = [], resp_type = Some ''text/plain'',
                  resp_body = ''Not Found''\<rparr>, False)"
    using notFound_redirect_or_404[where e="e\<lparr>request := Some ?r\<rparr>" and r="?r" and est="e01_startSTA est" and pg=pg and st=st and ost=ost and x=x and xpg=xpg and xst=xst]
      n(4) m(4) by simp
  have 5: "e32_handleClient xpg (x\<lparr>e32_request := Some ?r\<rparr>) (e32_startAP xst) =
       Inr (e32_startAP xst,
            Some \<lparr>resp_code = 302,
                  resp_headers = [(''Location'', ''http://192.168.4.1/settings'')],
                  resp_type = Some ''text/plain'', resp_body = []\<rparr>, False)"
    using notFound_redirect_or_404[where r="?r" and x="x\<lparr>e32_request := Some ?r\<rparr>" and xpg=xpg and xst="e32_startAP xst" and e=e and st=st and ost=ost and est=est and pg=pg]
      n(5) m(5) by simp
  from 1 2 3 4 5 show "hw_handleClient pg (e\<lparr>request := Some ?r\<rparr>) (hw_startAP st) =
       Inr (hw_startAP st,
            Some \<lparr>resp_code = 302, resp_headers = [(''Location'', ''http://192.168.4.1/'')],
                  resp_type = None, resp_body = []\<rparr>, False) \<and>
     hw_handleClient pg (e\<lparr>request := Some ?s\<rparr>) (hw_startSTA st) =
       Inr (hw_startSTA st,
            Some \<lparr>resp_code = 404, resp_headers = [], resp_type = Some ''text/plain'',
                  resp_body = ''Not Found''\<rparr>, False) \<and>
     o13_handleClient pg (e\<lparr>request := Some ?r\<rparr>) (o13_startAP ost) =
       Inr (o13_startAP ost,
            Some \<lparr>resp_code = 302, resp_headers = [(''Location'', ''http://192.168.4.1/'')],
                  resp_type = None, resp_body = []\<rparr>, False) \<and>
     e01_handleClient pg (e\<lparr>request := Some ?r\<rparr>) (e01_startSTA est) =
       Inr (e01_startSTA est,
            Some \<lparr>resp_code = 404, resp_headers = [], resp_type = Some ''text/plain'',
                  resp_body = ''Not Found''\<rparr>, False) \<and>
     e32_handleClient xpg (x\<lparr>e32_request := Some ?r\<rparr>) (e32_startAP xst) =
       Inr (e32_startAP xst,
            Some \<lparr>resp_code = 302,
                  resp_headers = [(''Location'', ''http://192.168.4.1/settings'')],
                  resp_type = Some ''text/plain'', resp_body = []\<rparr>, False)"
    by blast
qed

section \<open>Properties of \<open>setup\<close> and \<open>loop\<close>\<close>

subsection \<open>What the two waits return\<close>

lemma wifi_wait_polls:
  assumes "j \<le> 60"
  shows "status (wifi_wait status (word_of_nat t0) (t0 + 250 * j)) \<longleftrightarrow>
           (\<exists>k. j \<le> k \<and> k \<le> 60 \<and> status (t0 + 250 * k))"
  using assms
proof (induction "60 - j" arbitrary: j)
  case 0
  then have j: "j = 60" by simp
  have w: "(word_of_nat (t0 + 250 * 60) - word_of_nat t0 :: millis_t) = 15000" by simp
  have "wifi_wait status (word_of_nat t0) (t0 + 250 * 60) = t0 + 250 * 60"
    by (subst wifi_wait.simps) (simp only: w, simp)
  moreover have "(\<exists>k. 60 \<le> k \<and> k \<le> 60 \<and> status (t0 + 250 * k)) \<longleftrightarrow> status (t0 + 250 * 60)"
    by (metis le_antisym order_refl)
  ultimately show ?case unfolding j by simp
next
  case (Suc n)
  then have j: "j < 60" by simp
  show ?case
  proof (cases "status (t0 + 250 * j)")
    case True
    then have "wifi_wait status (word_of_nat t0) (t0 + 250 * j) = t0 + 250 * j"
      by (subst wifi_wait.simps) simp
    with True Suc.prems show ?thesis by auto
  next
    case False
    have "(word_of_nat (t0 + 250 * j) - word_of_nat t0 :: millis_t) = word_of_nat (250 * j)"
      by simp
    moreover have "(word_of_nat (250 * j) :: millis_t) < 15000"
    proof -
      have "250 * j < 15000" using j by simp
      moreover have "unat (word_of_nat (250 * j) :: millis_t) = (250 * j) mod 2 ^ 32"
        by (subst unat_of_nat) simp
      ultimately have "unat (word_of_nat (250 * j) :: millis_t) < 15000"
        by (simp only: mod_less_eq_dividend [THEN le_less_trans])
      then show ?thesis by (simp add: word_less_nat_alt)
    qed
    ultimately have c: "(word_of_nat (t0 + 250 * j) - word_of_nat t0 :: millis_t) < 15000"
      by (simp only:)
    have "wifi_wait status (word_of_nat t0) (t0 + 250 * j) =
          wifi_wait status (word_of_nat t0) (t0 + 250 * j + 250)"
      using False c by (subst wifi_wait.simps) (simp only: if_True simp_thms)
    moreover have "t0 + 250 * j + 250 = t0 + 250 * Suc j" by simp
    ultimately have "wifi_wait status (word_of_nat t0) (t0 + 250 * j) =
          wifi_wait status (word_of_nat t0) (t0 + 250 * Suc j)" by (simp only:)
    moreover have "status (wifi_wait status (word_of_nat t0) (t0 + 250 * Suc j)) \<longleftrightarrow>
           (\<exists>k. Suc j \<le> k \<and> k \<le> 60 \<and> status (t0 + 250 * k))"
      using Suc.hyps(1)[of "Suc j"] Suc.hyps(2) j by simp
    moreover have "(\<exists>k. Suc j \<le> k \<and> k \<le> 60 \<and> status (t0 + 250 * k)) \<longleftrightarrow>
           (\<exists>k. j \<le> k \<and> k \<le> 60 \<and> status (t0 + 250 * k))"
      using False by (metis Suc_leD Suc_leI le_neq_implies_less)
    ultimately show ?thesis by simp
  qed
qed

lemma wifi_wait_result:
  "wifi_connected b (wifi_wait (wifi_connected b) (word_of_nat (begin_time b)) (begin_time b)) \<longleftrightarrow>
     (\<exists>k\<le>60. wifi_connected b (begin_time b + 250 * k))"
  using wifi_wait_polls[of 0 "wifi_connected b" "begin_time b"] by simp

lemma connect_wait_polls:
  assumes "j \<le> 30"
  shows "status (connect_wait status (t0 + 500 * j) (int j)) \<longleftrightarrow>
           (\<exists>k. j \<le> k \<and> k \<le> 30 \<and> status (t0 + 500 * k))"
  using assms
proof (induction "30 - j" arbitrary: j)
  case 0
  then have j: "j = 30" by simp
  have "connect_wait status (t0 + 500 * 30) 30 = t0 + 500 * 30"
    by (subst connect_wait.simps) simp
  moreover have "(\<exists>k. 30 \<le> k \<and> k \<le> 30 \<and> status (t0 + 500 * k)) \<longleftrightarrow> status (t0 + 500 * 30)"
    by (metis le_antisym order_refl)
  ultimately show ?case unfolding j by simp
next
  case (Suc n)
  then have j: "j < 30" by simp
  show ?case
  proof (cases "status (t0 + 500 * j)")
    case True
    then have "connect_wait status (t0 + 500 * j) (int j) = t0 + 500 * j"
      by (subst connect_wait.simps) simp
    with True Suc.prems show ?thesis by auto
  next
    case False
    have "connect_wait status (t0 + 500 * j) (int j) =
          connect_wait status (t0 + 500 * j + 500) (int j + 1)"
      using False j by (subst connect_wait.simps) simp
    moreover have "t0 + 500 * j + 500 = t0 + 500 * Suc j" "int j + 1 = int (Suc j)" by simp_all
    ultimately have "connect_wait status (t0 + 500 * j) (int j) =
          connect_wait status (t0 + 500 * Suc j) (int (Suc j))" by (simp only:)
    moreover have "status (connect_wait status (t0 + 500 * Suc j) (int (Suc j))) \<longleftrightarrow>
           (\<exists>k. Suc j \<le> k \<and> k \<le> 30 \<and> status (t0 + 500 * k))"
      using Suc.hyps(1)[of "Suc j"] Suc.hyps(2) j by simp
    moreover have "(\<exists>k. Suc j \<le> k \<and> k \<le> 30 \<and> status (t0 + 500 * k)) \<longleftrightarrow>
           (\<exists>k. j \<le> k \<and> k \<le> 30 \<and> status (t0 + 500 * k))"
      using False by (metis Suc_leD Suc_leI le_neq_implies_less)
    ultimately show ?thesis by simp
  qed
qed

lemma connectWiFi_result:
  "connectWiFi b \<longleftrightarrow> (\<exists>k\<le>30. wifi_connected b (begin_time b + 500 * k))"
  using connect_wait_polls[of 0 "wifi_connected b" "begin_time b"] by (simp add: connectWiFi_def)

subsection \<open>What the parts of \<open>loop\<close> leave unchanged\<close>

lemma and_then_Inr: "and_then r f = Inr y \<Longrightarrow> \<exists>x. r = Inr x \<and> f x = Inr y"
  by (cases r) (simp_all add: and_then_def)

lemma hw_oledUpdate_frame:
  assumes "hw_oledUpdate e st = Inr (st', ops)"
  shows "st' = st \<or> st' = st\<lparr>hw_lastOledUpdate := millis_oled_set e\<rparr>"
  using assms
  by (auto simp: hw_oledUpdate_def Let_def and_then_def split: if_splits sum.splits)

lemma hw_handleClient_frame:
  assumes "hw_handleClient pg e st = Inr (st', a, restart)"
  shows "hw_ntpData st' = hw_ntpData st \<and> hw_apMode st' = hw_apMode st \<and>
         hw_lastOledUpdate st' = hw_lastOledUpdate st \<and> hw_routes st' = hw_routes st \<and>
         (\<not> restart \<longrightarrow> st' = st)"
  using assms
  by (auto simp: hw_handleClient_def and_then_def
      split: option.splits handler.splits sum.splits prod.splits)

lemma o13_oledUpdate_frame:
  assumes "o13_oledUpdate e st = Inr (st', ops)"
  shows "st' = st \<or> st' = st\<lparr>lastOled := millis_oled_set e\<rparr> \<or>
         st' = st\<lparr>lastOled := millis_oled_set e, ledState := \<not> ledState st\<rparr>"
  using assms
  by (auto simp: o13_oledUpdate_def Let_def and_then_def split: if_splits sum.splits)

lemma o13_handleClient_frame:
  assumes "o13_handleClient pg e st = Inr (st', a, restart)"
  shows "ntpSynced st' = ntpSynced st \<and> o13_apMode st' = o13_apMode st \<and>
         ntpH st' = ntpH st \<and> ntpM st' = ntpM st \<and> ntpS st' = ntpS st \<and>
         ntpDay st' = ntpDay st \<and> ntpMon st' = ntpMon st \<and> ntpWday st' = ntpWday st \<and>
         ntpYear st' = ntpYear st \<and>
         lastOled st' = lastOled st \<and> o13_routes st' = o13_routes st \<and>
         (\<not> restart \<longrightarrow> st' = st)"
  using assms
  by (auto simp: o13_handleClient_def and_then_def
      split: option.splits handler.splits sum.splits prod.splits)

lemma e01_oledUpdate_frame:
  assumes "e01_oledUpdate e st = Inr (st', ops)"
  shows "st' = st \<or> st' = st\<lparr>e01_lastOledUpdate := millis_oled_set e\<rparr>"
  using assms
  by (auto simp: e01_oledUpdate_def Let_def and_then_def split: if_splits sum.splits)

lemma e01_handleClient_frame:
  assumes "e01_handleClient pg e st = Inr (st', a, restart)"
  shows "e01_ntpData st' = e01_ntpData st \<and> e01_apMode st' = e01_apMode st \<and>
         e01_lastOledUpdate st' = e01_lastOledUpdate st \<and> e01_routes st' = e01_routes st \<and>
         lastMqttPub st' = lastMqttPub st \<and> lastMqttReconnect st' = lastMqttReconnect st \<and>
         (\<not> restart \<longrightarrow> st' = st)"
  using assms
  by (auto simp: e01_handleClient_def and_then_def
      split: option.splits handler.splits sum.splits prod.splits)

lemma e01_mqttReconnect_frame:
  assumes "e01_mqttReconnect e st = (st', ops)"
  shows "st' = st \<or> st' = st\<lparr>lastMqttReconnect := millis_reconnect_set e\<rparr>"
  using assms by (auto simp: e01_mqttReconnect_def Let_def split: if_splits)

lemma e01_loop_mqtt_frame:
  assumes "e01_loop_mqtt e st = (st', ops)"
  shows "e01_ntpData st' = e01_ntpData st \<and> e01_apMode st' = e01_apMode st \<and>
         e01_cfg st' = e01_cfg st \<and> e01_routes st' = e01_routes st \<and>
         e01_lastOledUpdate st' = e01_lastOledUpdate st"
proof (cases "\<not> e01_apMode st \<and> e01_mqttHost (e01_cfg st) ! 0 \<noteq> NUL")
  case False
  with assms show ?thesis by (auto simp: e01_loop_mqtt_def)
next
  case True
  obtain s1 o1 where r: "e01_mqttReconnect e st = (s1, o1)" by (cases "e01_mqttReconnect e st")
  from e01_mqttReconnect_frame[OF r] have
    "e01_ntpData s1 = e01_ntpData st \<and> e01_apMode s1 = e01_apMode st \<and>
     e01_cfg s1 = e01_cfg st \<and> e01_routes s1 = e01_routes st \<and>
     e01_lastOledUpdate s1 = e01_lastOledUpdate st" by auto
  with assms True r show ?thesis
    by (auto simp: e01_loop_mqtt_def Let_def split: if_splits)
qed

lemma e32_mqttReconnect_frame:
  assumes "e32_mqttReconnect r st = Inr (st', ops)"
  shows "st' = st \<or> st' = st\<lparr>lastTry := retry_millis_set r\<rparr>"
  using assms
  by (auto simp: e32_mqttReconnect_def Let_def and_then_def split: if_splits sum.splits)

lemma e32_loop_head_frame:
  assumes "e32_loop_head e st = Inr (st', ops)"
  shows "st' = st \<or> st' = st\<lparr>lastTry := retry_millis_set (loop_retry e)\<rparr>"
proof (cases "\<not> e32_apMode st \<and> mqttEnabled st \<and> \<not> loop_connected e")
  case False
  with assms show ?thesis
    by (auto simp: e32_loop_head_def and_then_def split: if_splits)
next
  case True
  with assms obtain s1 o1 where r: "e32_mqttReconnect (loop_retry e) st = Inr (s1, o1)" "st' = s1"
    by (auto simp: e32_loop_head_def and_then_def split: sum.splits)
  from e32_mqttReconnect_frame[OF r(1)] r(2) show ?thesis by simp
qed

lemma e32_handleClient_frame:
  assumes "e32_handleClient pg e st = Inr (st', a, restart)"
  shows "e32_apMode st' = e32_apMode st \<and> mqttEnabled st' = mqttEnabled st \<and>
         lastMqtt st' = lastMqtt st \<and> e32_lastOled st' = e32_lastOled st \<and>
         lastTry st' = lastTry st \<and> (\<not> restart \<longrightarrow> st' = st)"
  using assms
  by (auto simp: e32_handleClient_def and_then_def
      split: option.splits e32_handler.splits sum.splits prod.splits)

lemma updateOLED_frame:
  assumes "updateOLED e st = Inr (st', ops)"
  shows "st' = st \<or> st' = st\<lparr>e32_lastOled := oled_millis_set e\<rparr> \<or>
         (\<exists>s. st' = st\<lparr>e32_lastOled := oled_millis_set e, lastSec := s\<rparr>)"
  using assms
  by (auto simp: updateOLED_def Let_def and_then_def split: if_splits sum.splits option.splits)

lemma blinkLED_frame:
  "e32_apMode (blinkLED e st) = e32_apMode st \<and> mqttEnabled (blinkLED e st) = mqttEnabled st \<and>
   e32_cfg (blinkLED e st) = e32_cfg st \<and> lastMqtt (blinkLED e st) = lastMqtt st \<and>
   lastTry (blinkLED e st) = lastTry st \<and> e32_lastOled (blinkLED e st) = e32_lastOled st"
  by (simp add: blinkLED_def)

lemma e32_loop_publish_frame:
  assumes "e32_loop_publish e st = Inr (st', ops)"
  shows "st' = st \<or> st' = st\<lparr>lastMqtt := pub_millis_set e\<rparr>"
  using assms
  by (auto simp: e32_loop_publish_def Let_def and_then_def
      split: if_splits sum.splits option.splits)

lemma and_then_pairE:
  assumes "and_then r (\<lambda>(a, b). f a b) = Inr y"
  obtains a b where "r = Inr (a, b)" and "f a b = Inr y"
proof (cases r)
  case (Inl x) with assms show ?thesis by (simp add: and_then_def)
next
  case (Inr p)
  obtain a b where "p = (a, b)" by (cases p)
  with assms Inr that show ?thesis by (simp add: and_then_def)
qed

lemma and_then_tripleE:
  assumes "and_then r (\<lambda>(a, b, c). f a b c) = Inr y"
  obtains a b c where "r = Inr (a, b, c)" and "f a b c = Inr y"
proof (cases r)
  case (Inl x) with assms show ?thesis by (simp add: and_then_def)
next
  case (Inr p)
  obtain a b c where "p = (a, b, c)" by (cases p)
  with assms Inr that show ?thesis by (simp add: and_then_def)
qed

lemma hw_loop_steps:
  assumes "hw_loop pg e st = Inr (st', ops, a, restart)"
  obtains s1 where
    "hw_oledUpdate e (if \<not> hw_apMode st
        then st\<lparr>hw_ntpData := ntpUpdate (time_now e) (local_tm e) (hw_ntpData st)\<rparr> else st)
       = Inr (s1, ops)"
    and "hw_handleClient pg e s1 = Inr (st', a, restart)"
proof -
  let ?s0 = "if \<not> hw_apMode st
             then st\<lparr>hw_ntpData := ntpUpdate (time_now e) (local_tm e) (hw_ntpData st)\<rparr> else st"
  from assms have "and_then (hw_oledUpdate e ?s0) (\<lambda>(st, ops).
         and_then (hw_handleClient pg e st) (\<lambda>(st, a, restart).
           Inr (st, ops, a, restart))) = Inr (st', ops, a, restart)"
    by (simp add: hw_loop_def Let_def)
  then obtain s1 o1 where u: "hw_oledUpdate e ?s0 = Inr (s1, o1)"
    and r: "and_then (hw_handleClient pg e s1) (\<lambda>(st, a, restart). Inr (st, o1, a, restart))
            = Inr (st', ops, a, restart)"
    by (rule and_then_pairE)
  from r obtain s2 a2 b2 where h: "hw_handleClient pg e s1 = Inr (s2, a2, b2)"
    and r2: "(Inr (s2, o1, a2, b2) :: fault + _) = Inr (st', ops, a, restart)"
    by (rule and_then_tripleE)
  from r2 have "s2 = st'" "o1 = ops" "a2 = a" "b2 = restart" by simp_all
  with u h that show thesis by simp
qed

lemma hw_loop_frame:
  assumes "hw_loop pg e st = Inr (st', ops, a, restart)"
  shows "hw_apMode st' = hw_apMode st \<and> hw_routes st' = hw_routes st \<and>
         hw_ntpData st' = (if \<not> hw_apMode st
                           then ntpUpdate (time_now e) (local_tm e) (hw_ntpData st)
                           else hw_ntpData st)"
proof -
  let ?s0 = "if \<not> hw_apMode st
             then st\<lparr>hw_ntpData := ntpUpdate (time_now e) (local_tm e) (hw_ntpData st)\<rparr> else st"
  from assms obtain s1 where u: "hw_oledUpdate e ?s0 = Inr (s1, ops)"
    and h: "hw_handleClient pg e s1 = Inr (st', a, restart)" by (rule hw_loop_steps)
  from hw_oledUpdate_frame[OF u] have
    "hw_apMode s1 = hw_apMode ?s0 \<and> hw_routes s1 = hw_routes ?s0 \<and> hw_ntpData s1 = hw_ntpData ?s0"
    by auto
  with hw_handleClient_frame[OF h] show ?thesis by auto
qed

lemma o13_loop_steps:
  assumes "o13_loop pg e st = Inr (st', ops, a, restart)"
  obtains s1 where
    "o13_oledUpdate e (if \<not> o13_apMode st then o13_ntpUpdate (time_now e) (local_tm e) st else st)
       = Inr (s1, ops)"
    and "o13_handleClient pg e s1 = Inr (st', a, restart)"
proof -
  let ?s0 = "if \<not> o13_apMode st then o13_ntpUpdate (time_now e) (local_tm e) st else st"
  from assms have "and_then (o13_oledUpdate e ?s0) (\<lambda>(st, ops).
         and_then (o13_handleClient pg e st) (\<lambda>(st, a, restart).
           Inr (st, ops, a, restart))) = Inr (st', ops, a, restart)"
    by (simp add: o13_loop_def Let_def)
  then obtain s1 o1 where u: "o13_oledUpdate e ?s0 = Inr (s1, o1)"
    and r: "and_then (o13_handleClient pg e s1) (\<lambda>(st, a, restart). Inr (st, o1, a, restart))
            = Inr (st', ops, a, restart)"
    by (rule and_then_pairE)
  from r obtain s2 a2 b2 where h: "o13_handleClient pg e s1 = Inr (s2, a2, b2)"
    and r2: "(Inr (s2, o1, a2, b2) :: fault + _) = Inr (st', ops, a, restart)"
    by (rule and_then_tripleE)
  from r2 have "s2 = st'" "o1 = ops" "a2 = a" "b2 = restart" by simp_all
  with u h that show thesis by simp
qed

lemma o13_loop_frame:
  assumes "o13_loop pg e st = Inr (st', ops, a, restart)"
  shows "o13_apMode st' = o13_apMode st \<and> o13_routes st' = o13_routes st \<and>
         ntpSynced st' = (if \<not> o13_apMode st
                          then ntpSynced (o13_ntpUpdate (time_now e) (local_tm e) st)
                          else ntpSynced st)"
proof -
  let ?s0 = "if \<not> o13_apMode st then o13_ntpUpdate (time_now e) (local_tm e) st else st"
  from assms obtain s1 where u: "o13_oledUpdate e ?s0 = Inr (s1, ops)"
    and h: "o13_handleClient pg e s1 = Inr (st', a, restart)" by (rule o13_loop_steps)
  have ap: "o13_apMode ?s0 = o13_apMode st" "o13_routes ?s0 = o13_routes st"
    by (auto simp: o13_ntpUpdate_def)
  from o13_oledUpdate_frame[OF u] have
    "o13_apMode s1 = o13_apMode ?s0 \<and> o13_routes s1 = o13_routes ?s0 \<and> ntpSynced s1 = ntpSynced ?s0"
    by auto
  with o13_handleClient_frame[OF h] ap show ?thesis by auto
qed

lemma e01_loop_steps:
  assumes "e01_loop pg e st = Inr (st', ops, a, mops, restart)"
  obtains s1 s2 where
    "e01_oledUpdate e (if \<not> e01_apMode st
        then st\<lparr>e01_ntpData := ntpUpdate (time_now e) (local_tm e) (e01_ntpData st)\<rparr> else st)
       = Inr (s1, ops)"
    and "e01_handleClient pg e s1 = Inr (s2, a, restart)"
    and "restart \<longrightarrow> st' = s2 \<and> mops = []"
    and "\<not> restart \<longrightarrow> e01_loop_mqtt e s2 = (st', mops)"
proof -
  let ?s0 = "if \<not> e01_apMode st
             then st\<lparr>e01_ntpData := ntpUpdate (time_now e) (local_tm e) (e01_ntpData st)\<rparr> else st"
  from assms have "and_then (e01_oledUpdate e ?s0) (\<lambda>(st, ops).
         and_then (e01_handleClient pg e st) (\<lambda>(st, a, restart).
           if restart then Inr (st, ops, a, [], True)
           else (case e01_loop_mqtt e st of (st, mops) \<Rightarrow> Inr (st, ops, a, mops, False))))
         = Inr (st', ops, a, mops, restart)"
    by (simp add: e01_loop_def Let_def)
  then obtain s1 o1 where u: "e01_oledUpdate e ?s0 = Inr (s1, o1)"
    and r: "and_then (e01_handleClient pg e s1) (\<lambda>(st, a, restart).
           if restart then Inr (st, o1, a, [], True)
           else (case e01_loop_mqtt e st of (st, mops) \<Rightarrow> Inr (st, o1, a, mops, False)))
         = Inr (st', ops, a, mops, restart)"
    by (rule and_then_pairE)
  from r obtain s2 a2 b2 where h: "e01_handleClient pg e s1 = Inr (s2, a2, b2)"
    and r2: "(if b2 then Inr (s2, o1, a2, [], True)
           else (case e01_loop_mqtt e s2 of (st, mops) \<Rightarrow> Inr (st, o1, a2, mops, False)))
         = (Inr (st', ops, a, mops, restart) :: fault + _)"
    by (rule and_then_tripleE)
  obtain s3 m3 where m: "e01_loop_mqtt e s2 = (s3, m3)" by (cases "e01_loop_mqtt e s2")
  from r2 m have e: "o1 = ops" "a2 = a" "b2 = restart"
    "restart \<longrightarrow> st' = s2 \<and> mops = []" "\<not> restart \<longrightarrow> s3 = st' \<and> m3 = mops"
    by (auto split: if_splits)
  with u h m that show thesis by simp
qed

lemma e01_loop_frame:
  assumes "e01_loop pg e st = Inr (st', ops, a, mops, restart)"
  shows "e01_apMode st' = e01_apMode st \<and> e01_routes st' = e01_routes st \<and>
         e01_ntpData st' = (if \<not> e01_apMode st
                            then ntpUpdate (time_now e) (local_tm e) (e01_ntpData st)
                            else e01_ntpData st)"
proof -
  let ?s0 = "if \<not> e01_apMode st
             then st\<lparr>e01_ntpData := ntpUpdate (time_now e) (local_tm e) (e01_ntpData st)\<rparr> else st"
  from assms obtain s1 s2 where u: "e01_oledUpdate e ?s0 = Inr (s1, ops)"
    and h: "e01_handleClient pg e s1 = Inr (s2, a, restart)"
    and t: "restart \<longrightarrow> st' = s2 \<and> mops = []"
    and f: "\<not> restart \<longrightarrow> e01_loop_mqtt e s2 = (st', mops)" by (rule e01_loop_steps)
  from e01_oledUpdate_frame[OF u] have f1:
    "e01_apMode s1 = e01_apMode ?s0 \<and> e01_routes s1 = e01_routes ?s0 \<and>
     e01_ntpData s1 = e01_ntpData ?s0" by auto
  from e01_handleClient_frame[OF h] have f2:
    "e01_apMode s2 = e01_apMode s1 \<and> e01_routes s2 = e01_routes s1 \<and>
     e01_ntpData s2 = e01_ntpData s1" by auto
  have f3: "e01_apMode st' = e01_apMode s2 \<and> e01_routes st' = e01_routes s2 \<and>
     e01_ntpData st' = e01_ntpData s2"
  proof (cases restart)
    case True with t show ?thesis by simp
  next
    case False
    with f have "e01_loop_mqtt e s2 = (st', mops)" by simp
    from e01_loop_mqtt_frame[OF this] show ?thesis by auto
  qed
  from f1 f2 f3 show ?thesis by auto
qed

lemma e32_loop_steps:
  assumes "e32_loop pg e st = Inr (st', ops, a, mops, restart)"
  obtains s1 m1 s2 where
    "e32_loop_head e st = Inr (s1, m1)"
    and "e32_handleClient pg e s1 = Inr (s2, a, restart)"
    and "restart \<longrightarrow> st' = s2 \<and> ops = [] \<and> mops = m1"
    and "\<not> restart \<longrightarrow> (\<exists>s3 pops. updateOLED e s2 = Inr (s3, ops) \<and>
            e32_loop_publish e (blinkLED e s3) = Inr (st', pops) \<and> mops = m1 @ pops)"
proof -
  from assms obtain s1 m1 where h: "e32_loop_head e st = Inr (s1, m1)"
    and r1: "and_then (e32_handleClient pg e s1) (\<lambda>(st, a, restart).
       if restart then Inr (st, [], a, m1, True)
       else
         and_then (updateOLED e st) (\<lambda>(st, ops).
         and_then (e32_loop_publish e (blinkLED e st)) (\<lambda>(st, pops).
           Inr (st, ops, a, m1 @ pops, False)))) = Inr (st', ops, a, mops, restart)"
    unfolding e32_loop_def by (rule and_then_pairE)
  from r1 obtain s2 a2 b2 where c: "e32_handleClient pg e s1 = Inr (s2, a2, b2)"
    and r2: "(if b2 then Inr (s2, [], a2, m1, True)
       else
         and_then (updateOLED e s2) (\<lambda>(st, ops).
         and_then (e32_loop_publish e (blinkLED e st)) (\<lambda>(st, pops).
           Inr (st, ops, a2, m1 @ pops, False)))) = Inr (st', ops, a, mops, restart)"
    by (rule and_then_tripleE)
  show thesis
  proof (cases b2)
    case True
    with r2 have "st' = s2" "ops = []" "a2 = a" "mops = m1" "restart" by simp_all
    with h c True that show thesis by simp
  next
    case False
    with r2 have "and_then (updateOLED e s2) (\<lambda>(st, ops).
         and_then (e32_loop_publish e (blinkLED e st)) (\<lambda>(st, pops).
           Inr (st, ops, a2, m1 @ pops, False))) = Inr (st', ops, a, mops, restart)" by simp
    then obtain s3 o3 where u: "updateOLED e s2 = Inr (s3, o3)"
      and r3: "and_then (e32_loop_publish e (blinkLED e s3)) (\<lambda>(st, pops).
           Inr (st, o3, a2, m1 @ pops, False)) = Inr (st', ops, a, mops, restart)"
      by (rule and_then_pairE)
    from r3 obtain s4 q4 where p: "e32_loop_publish e (blinkLED e s3) = Inr (s4, q4)"
      and r4: "(Inr (s4, o3, a2, m1 @ q4, False) :: fault + _) = Inr (st', ops, a, mops, restart)"
      by (rule and_then_pairE)
    from r4 have "s4 = st'" "o3 = ops" "a2 = a" "mops = m1 @ q4" "\<not> restart" by simp_all
    with h c u p False that show thesis by simp
  qed
qed

lemma e32_loop_frame:
  assumes "e32_loop pg e st = Inr (st', ops, a, mops, restart)"
  shows "e32_apMode st' = e32_apMode st \<and> mqttEnabled st' = mqttEnabled st \<and>
         (\<not> restart \<longrightarrow> e32_cfg st' = e32_cfg st)"
proof -
  from assms obtain s1 m1 s2 where h: "e32_loop_head e st = Inr (s1, m1)"
    and c: "e32_handleClient pg e s1 = Inr (s2, a, restart)"
    and t: "restart \<longrightarrow> st' = s2 \<and> ops = [] \<and> mops = m1"
    and f: "\<not> restart \<longrightarrow> (\<exists>s3 pops. updateOLED e s2 = Inr (s3, ops) \<and>
            e32_loop_publish e (blinkLED e s3) = Inr (st', pops) \<and> mops = m1 @ pops)"
    by (rule e32_loop_steps)
  from e32_loop_head_frame[OF h] have f1:
    "e32_apMode s1 = e32_apMode st \<and> mqttEnabled s1 = mqttEnabled st \<and> e32_cfg s1 = e32_cfg st"
    by auto
  from e32_handleClient_frame[OF c] have f2:
    "e32_apMode s2 = e32_apMode s1 \<and> mqttEnabled s2 = mqttEnabled s1 \<and> (\<not> restart \<longrightarrow> s2 = s1)"
    by auto
  show ?thesis
  proof (cases restart)
    case True
    with t f1 f2 show ?thesis by auto
  next
    case False
    with f obtain s3 pops where u: "updateOLED e s2 = Inr (s3, ops)"
      and p: "e32_loop_publish e (blinkLED e s3) = Inr (st', pops)" by auto
    from updateOLED_frame[OF u] have f3:
      "e32_apMode s3 = e32_apMode s2 \<and> mqttEnabled s3 = mqttEnabled s2 \<and> e32_cfg s3 = e32_cfg s2"
      by auto
    from e32_loop_publish_frame[OF p] blinkLED_frame[of e s3] have f4:
      "e32_apMode st' = e32_apMode s3 \<and> mqttEnabled st' = mqttEnabled s3 \<and> e32_cfg st' = e32_cfg s3"
      by auto
    from f1 f2 f3 f4 False show ?thesis by auto
  qed
qed

subsection \<open>The mode chosen by \<open>setup\<close>\<close>

lemma first_byte_NUL: "xs \<noteq> [] \<Longrightarrow> (xs ! 0 = NUL) = (c_str xs = [])"
  by (cases xs) (auto simp: c_str_def)

lemma hw_setup_apMode:
  assumes "length (hw_ssid ee) = 33"
  shows "hw_apMode (hw_setup b ee) \<longleftrightarrow>
           c_str (hw_ssid (hw_loadConfig ee)) = [] \<or>
           \<not> (\<exists>k\<le>60. wifi_connected b (begin_time b + 250 * k))"
proof -
  have "hw_ssid (hw_loadConfig ee) \<noteq> []"
    using assms by (auto simp: hw_loadConfig_def hw_zeroed_def Let_def)
  from first_byte_NUL[OF this] show ?thesis
    by (simp add: hw_setup_def hw_boot_def hw_startSTA_def hw_startAP_def hw_wifiConnect_def
        Let_def wifi_wait_result)
qed

lemma o13_setup_apMode:
  assumes "length (o13_ssid ee) = 33"
  shows "o13_apMode (o13_setup b ee) \<longleftrightarrow>
           c_str (o13_ssid (o13_loadCfg ee)) = [] \<or>
           \<not> (\<exists>k\<le>60. wifi_connected b (begin_time b + 250 * k))"
proof -
  have "o13_ssid (o13_loadCfg ee) \<noteq> []"
    using assms by (auto simp: o13_loadCfg_def o13_zeroed_def Let_def)
  from first_byte_NUL[OF this] show ?thesis
    by (simp add: o13_setup_def o13_boot_def o13_startSTA_def o13_startAP_def o13_wifiConnect_def
        Let_def wifi_wait_result)
qed

lemma e01_setup_apMode:
  assumes "length (e01_ssid ee) = 33"
  shows "e01_apMode (e01_setup b ee) \<longleftrightarrow>
           c_str (e01_ssid (e01_loadConfig ee)) = [] \<or>
           \<not> (\<exists>k\<le>60. wifi_connected b (begin_time b + 250 * k))"
proof -
  have "e01_ssid (e01_loadConfig ee) \<noteq> []"
    using assms by (auto simp: e01_loadConfig_def e01_zeroed_def Let_def)
  from first_byte_NUL[OF this] show ?thesis
    by (simp add: e01_setup_def e01_boot_def e01_startSTA_def e01_startAP_def e01_wifiConnect_def
        Let_def wifi_wait_result)
qed

lemma setupMQTT_total:
  assumes "NUL \<in> set (e32_mqttUser (e32_cfg st))"
  shows "\<exists>st' ops. setupMQTT r st = Inr (st', ops) \<and> e32_apMode st' = e32_apMode st \<and>
           mqttEnabled st' = mqttEnabled st \<and> e32_cfg st' = e32_cfg st"
  using assms
  by (auto simp: setupMQTT_def e32_mqttReconnect_def and_then_def field_str_def Let_def)

lemma e32_setup_apMode:
  assumes s: "NUL \<in> set (e32_ssid (fst (e32_loadConfig ee)))"
    and m: "NUL \<in> set (e32_mqttServer (fst (e32_loadConfig ee)))"
    and u: "NUL \<in> set (e32_mqttUser (fst (e32_loadConfig ee)))"
  shows "\<exists>st ops. e32_setup b ee = Inr (st, ops) \<and>
           (e32_apMode st \<longleftrightarrow>
              c_str (e32_ssid (fst (e32_loadConfig ee))) = [] \<or>
              \<not> (\<exists>k\<le>30. wifi_connected b (begin_time b + 500 * k))) \<and>
           (mqttEnabled st \<longleftrightarrow> \<not> e32_apMode st \<and> c_str (e32_mqttServer (e32_cfg st)) \<noteq> []) \<and>
           e32_cfg st = fst (e32_loadConfig ee)"
proof -
  obtain cfg ee' where l: "e32_loadConfig ee = (cfg, ee')" by (cases "e32_loadConfig ee")
  let ?st = "(e32_boot ee')\<lparr>e32_cfg := cfg\<rparr>"
  from s m u l have f: "field_str (e32_ssid cfg) = Inr (c_str (e32_ssid cfg))"
    "field_str (e32_mqttServer cfg) = Inr (c_str (e32_mqttServer cfg))"
    "NUL \<in> set (e32_mqttUser cfg)"
    by (simp_all add: field_str_def)
  show ?thesis
  proof (cases "0 < length (c_str (e32_ssid cfg)) \<and> connectWiFi b")
    case False
    then have "e32_setup b ee = Inr (e32_startAP ?st, [])"
      by (auto simp: e32_setup_def l Let_def and_then_def f)
    with False l show ?thesis
      by (auto simp: e32_startAP_def e32_boot_def connectWiFi_result)
  next
    case True
    show ?thesis
    proof (cases "0 < length (c_str (e32_mqttServer cfg))")
      case False
      with True have "e32_setup b ee = Inr (?st\<lparr>e32_apMode := False\<rparr>, [])"
        by (auto simp: e32_setup_def l Let_def and_then_def f)
      with True False l show ?thesis
        by (auto simp: e32_boot_def connectWiFi_result)
    next
      case srv: True
      let ?s1 = "?st\<lparr>e32_apMode := False, mqttEnabled := True\<rparr>"
      have "NUL \<in> set (e32_mqttUser (e32_cfg ?s1))" using f(3) by simp
      from setupMQTT_total[OF this, of "boot_retry b"] obtain st' ops where
        r: "setupMQTT (boot_retry b) ?s1 = Inr (st', ops)" "e32_apMode st' = e32_apMode ?s1"
           "mqttEnabled st' = mqttEnabled ?s1" "e32_cfg st' = e32_cfg ?s1" by blast
      from True srv r(1) have "e32_setup b ee = Inr (st', ops)"
        by (auto simp: e32_setup_def l Let_def and_then_def f)
      with True srv r l show ?thesis
        by (auto simp: connectWiFi_result)
    qed
  qed
qed

subsection \<open>C4: access-point mode or station mode\<close>

text \<open>
  C4. After \<open>setup\<close> the flag \<open>apMode\<close> is set exactly when the SSID of the loaded
  configuration is the empty string or none of the status polls of the connection attempt
  finds \<open>WL_CONNECTED\<close>: the polls of the three ESP8266 sketches are 250 ms apart and end
  15 seconds after the attempt began (polls 0 to 60), those of ESP32\_OLED\_V1 follow its
  30 delays of half a second (polls 0 to 30). Otherwise the sketch is in station mode.
  No pass through \<open>loop\<close> changes \<open>apMode\<close>, so the value set at boot stays until the
  next restart. The \<open>ssid\<close> array has its 33 bytes; in ESP32\_OLED\_V1, where \<open>setup\<close>
  takes \<open>strlen\<close> of fields, these hold terminated strings.
\<close>

theorem apMode_decided_at_boot:
  "(length (hw_ssid hee) = 33 \<longrightarrow>
      (hw_apMode (hw_setup b hee) \<longleftrightarrow>
         c_str (hw_ssid (hw_loadConfig hee)) = [] \<or>
         \<not> (\<exists>k\<le>60. wifi_connected b (begin_time b + 250 * k)))) \<and>
   (hw_loop pg e hst = Inr (hst', ops, a, restart) \<longrightarrow> hw_apMode hst' = hw_apMode hst) \<and>
   (length (o13_ssid oee) = 33 \<longrightarrow>
      (o13_apMode (o13_setup b oee) \<longleftrightarrow>
         c_str (o13_ssid (o13_loadCfg oee)) = [] \<or>
         \<not> (\<exists>k\<le>60. wifi_connected b (begin_time b + 250 * k)))) \<and>
   (o13_loop pg e ost = Inr (ost', ops, a, restart) \<longrightarrow> o13_apMode ost' = o13_apMode ost) \<and>
   (length (e01_ssid cee) = 33 \<longrightarrow>
      (e01_apMode (e01_setup b cee) \<longleftrightarrow>
         c_str (e01_ssid (e01_loadConfig cee)) = [] \<or>
         \<not> (\<exists>k\<le>60. wifi_connected b (begin_time b + 250 * k)))) \<and>
   (e01_loop pg e1 cst = Inr (cst', ops, a, mops, restart) \<longrightarrow> e01_apMode cst' = e01_apMode cst) \<and>
   (NUL \<in> set (e32_ssid (fst (e32_loadConfig xee))) \<and>
    NUL \<in> set (e32_mqttServer (fst (e32_loadConfig xee))) \<and>
    NUL \<in> set (e32_mqttUser (fst (e32_loadConfig xee))) \<longrightarrow>
      (\<exists>st mops. e32_setup xb xee = Inr (st, mops) \<and>
         (e32_apMode st \<longleftrightarrow>
            c_str (e32_ssid (fst (e32_loadConfig xee))) = [] \<or>
            \<not> (\<exists>k\<le>30. wifi_connected xb (begin_time xb + 500 * k))))) \<and>
   (e32_loop xpg x xst = Inr (xst', gops, a, mops, restart) \<longrightarrow> e32_apMode xst' = e32_apMode xst)"
proof (intro conjI impI)
  show "hw_apMode (hw_setup b hee) \<longleftrightarrow>
         c_str (hw_ssid (hw_loadConfig hee)) = [] \<or>
         \<not> (\<exists>k\<le>60. wifi_connected b (begin_time b + 250 * k))"
    if "length (hw_ssid hee) = 33" using that by (rule hw_setup_apMode)
  show "o13_apMode (o13_setup b oee) \<longleftrightarrow>
         c_str (o13_ssid (o13_loadCfg oee)) = [] \<or>
         \<not> (\<exists>k\<le>60. wifi_connected b (begin_time b + 250 * k))"
    if "length (o13_ssid oee) = 33" using that by (rule o13_setup_apMode)
  show "e01_apMode (e01_setup b cee) \<longleftrightarrow>
         c_str (e01_ssid (e01_loadConfig cee)) = [] \<or>
         \<not> (\<exists>k\<le>60. wifi_connected b (begin_time b + 250 * k))"
    if "length (e01_ssid cee) = 33" using that by (rule e01_setup_apMode)
  show "hw_apMode hst' = hw_apMode hst" if "hw_loop pg e hst = Inr (hst', ops, a, restart)"
    using hw_loop_frame[OF that] by simp
  show "o13_apMode ost' = o13_apMode ost" if "o13_loop pg e ost = Inr (ost', ops, a, restart)"
    using o13_loop_frame[OF that] by simp
  show "e01_apMode cst' = e01_apMode cst" if "e01_loop pg e1 cst = Inr (cst', ops, a, mops, restart)"
    using e01_loop_frame[OF that] by simp
  show "e32_apMode xst' = e32_apMode xst" if "e32_loop xpg x xst = Inr (xst', gops, a, mops, restart)"
    using e32_loop_frame[OF that] by simp
  show "\<exists>st mops. e32_setup xb xee = Inr (st, mops) \<and>
         (e32_apMode st \<longleftrightarrow>
            c_str (e32_ssid (fst (e32_loadConfig xee))) = [] \<or>
            \<not> (\<exists>k\<le>30. wifi_connected xb (begin_time xb + 500 * k)))"
    if "NUL \<in> set (e32_ssid (fst (e32_loadConfig xee))) \<and>
        NUL \<in> set (e32_mqttServer (fst (e32_loadConfig xee))) \<and>
        NUL \<in> set (e32_mqttUser (fst (e32_loadConfig xee)))"
    using e32_setup_apMode[of xee xb] that by blast
qed

theorem apMode_decided_at_boot_witness:
  "\<forall>(e :: env) (e1 :: e01_env) (pg :: pages) (x :: e32_env) (xpg :: e32_pages).
     hw_apMode (hw_setup \<lparr>wifi_connected = (\<lambda>t. False), begin_time = 300\<rparr> hw_zeroed) \<and>
     \<not> hw_apMode (hw_setup \<lparr>wifi_connected = (\<lambda>t. 1000 \<le> t), begin_time = 300\<rparr>
                    (hw_zeroed\<lparr>hw_magic := 0xBE, hw_ssid := ''home'' @ replicate 29 NUL\<rparr>)) \<and>
     hw_apMode (hw_setup \<lparr>wifi_connected = (\<lambda>t. 20000 \<le> t), begin_time = 300\<rparr>
                    (hw_zeroed\<lparr>hw_magic := 0xBE, hw_ssid := ''home'' @ replicate 29 NUL\<rparr>)) \<and>
     (\<exists>st' ops a r.
        hw_loop pg (e\<lparr>millis_oled_test := 100, request := None\<rparr>) (hw_boot hw_zeroed) =
          Inr (st', ops, a, r) \<and> hw_apMode st' = hw_apMode (hw_boot hw_zeroed)) \<and>
     \<not> o13_apMode (o13_setup \<lparr>wifi_connected = (\<lambda>t. 1000 \<le> t), begin_time = 300\<rparr>
                    (o13_zeroed\<lparr>o13_magic := 0xE7, o13_ssid := ''home'' @ replicate 29 NUL\<rparr>)) \<and>
     (\<exists>st' ops a r.
        o13_loop pg (e\<lparr>millis_oled_test := 100, request := None\<rparr>) (o13_boot o13_zeroed) =
          Inr (st', ops, a, r) \<and> o13_apMode st' = o13_apMode (o13_boot o13_zeroed)) \<and>
     \<not> e01_apMode (e01_setup \<lparr>wifi_connected = (\<lambda>t. 1000 \<le> t), begin_time = 300\<rparr>
                    (e01_zeroed\<lparr>e01_magic := 0xCD, e01_ssid := ''home'' @ replicate 29 NUL\<rparr>)) \<and>
     (\<exists>st' ops a mops r.
        e01_loop pg (e1\<lparr>millis_oled_test := 100, request := None\<rparr>) (e01_boot e01_zeroed) =
          Inr (st', ops, a, mops, r) \<and> e01_apMode st' = e01_apMode (e01_boot e01_zeroed)) \<and>
     (\<exists>st mops. e32_setup \<lparr>wifi_connected = (\<lambda>t. 1000 \<le> t), begin_time = 300,
                            boot_retry = \<lparr>retry_connected = False, retry_millis_test = 2000,
                                          retry_millis_set = 2000, retry_random = 7\<rparr>\<rparr>
                   (e32_zeroed\<lparr>e32_magic := 0xE7, e32_ssid := ''home'' @ replicate 29 NUL\<rparr>)
                 = Inr (st, mops) \<and> \<not> e32_apMode st) \<and>
     (\<exists>st' ops a mops r.
        e32_loop xpg (x\<lparr>e32_request := None, oled_millis_test := 100\<rparr>) (e32_boot e32_zeroed) =
          Inr (st', ops, a, mops, r) \<and> e32_apMode st' = e32_apMode (e32_boot e32_zeroed))"
proof (intro allI)
  fix e :: env and e1 :: e01_env and pg :: pages and x :: e32_env and xpg :: e32_pages
  let ?b0 = "\<lparr>wifi_connected = (\<lambda>t. False), begin_time = 300\<rparr>"
  let ?b1 = "\<lparr>wifi_connected = (\<lambda>t::nat. 1000 \<le> t), begin_time = 300\<rparr>"
  let ?b2 = "\<lparr>wifi_connected = (\<lambda>t::nat. 20000 \<le> t), begin_time = 300\<rparr>"
  let ?xb = "\<lparr>wifi_connected = (\<lambda>t::nat. 1000 \<le> t), begin_time = 300,
               boot_retry = \<lparr>retry_connected = False, retry_millis_test = 2000,
                              retry_millis_set = 2000, retry_random = 7\<rparr>\<rparr>"
  let ?h = "hw_zeroed\<lparr>hw_magic := 0xBE, hw_ssid := ''home'' @ replicate 29 NUL\<rparr>"
  let ?o = "o13_zeroed\<lparr>o13_magic := 0xE7, o13_ssid := ''home'' @ replicate 29 NUL\<rparr>"
  let ?c = "e01_zeroed\<lparr>e01_magic := 0xCD, e01_ssid := ''home'' @ replicate 29 NUL\<rparr>"
  let ?x = "e32_zeroed\<lparr>e32_magic := 0xE7, e32_ssid := ''home'' @ replicate 29 NUL\<rparr>"
  let ?e = "e\<lparr>millis_oled_test := 100, request := None\<rparr>"
  let ?e1 = "e1\<lparr>millis_oled_test := 100, request := None\<rparr>"
  let ?xe = "x\<lparr>e32_request := None, oled_millis_test := 100\<rparr>"
  note T = apMode_decided_at_boot
  note T1 = T[THEN conjunct1, rule_format]
  note T2 = T[THEN conjunct2, THEN conjunct1, rule_format]
  note T3 = T[THEN conjunct2, THEN conjunct2, THEN conjunct1, rule_format]
  note T4 = T[THEN conjunct2, THEN conjunct2, THEN conjunct2, THEN conjunct1, rule_format]
  note T5 = T[THEN conjunct2, THEN conjunct2, THEN conjunct2, THEN conjunct2, THEN conjunct1,
      rule_format]
  note T6 = T[THEN conjunct2, THEN conjunct2, THEN conjunct2, THEN conjunct2, THEN conjunct2,
      THEN conjunct1, rule_format]
  note T7 = T[THEN conjunct2, THEN conjunct2, THEN conjunct2, THEN conjunct2, THEN conjunct2,
      THEN conjunct2, THEN conjunct1, rule_format]
  note T8 = T[THEN conjunct2, THEN conjunct2, THEN conjunct2, THEN conjunct2, THEN conjunct2,
      THEN conjunct2, THEN conjunct2, rule_format]
  have len: "length (hw_ssid hw_zeroed) = 33" "length (hw_ssid ?h) = 33"
    "length (o13_ssid ?o) = 33" "length (e01_ssid ?c) = 33"
    by (simp_all add: hw_zeroed_def o13_zeroed_def e01_zeroed_def)
  have cs: "c_str (hw_ssid (hw_loadConfig hw_zeroed)) = []"
    "c_str (hw_ssid (hw_loadConfig ?h)) \<noteq> []"
    "c_str (o13_ssid (o13_loadCfg ?o)) \<noteq> []"
    "c_str (e01_ssid (e01_loadConfig ?c)) \<noteq> []"
    "c_str (e32_ssid (fst (e32_loadConfig ?x))) \<noteq> []"
    by (simp_all add: hw_loadConfig_def o13_loadCfg_def e01_loadConfig_def e32_loadConfig_def
        hw_zeroed_def o13_zeroed_def e01_zeroed_def e32_zeroed_def
        hw_EEPROM_MAGIC_def o13_EEPROM_MAGIC_def e01_EEPROM_MAGIC_def e32_EEPROM_MAGIC_def
        Let_def c_str_def NUL_def strlcpy_def)
  have xn: "NUL \<in> set (e32_ssid (fst (e32_loadConfig ?x)))"
    "NUL \<in> set (e32_mqttServer (fst (e32_loadConfig ?x)))"
    "NUL \<in> set (e32_mqttUser (fst (e32_loadConfig ?x)))"
    by (simp_all add: e32_loadConfig_def e32_zeroed_def e32_EEPROM_MAGIC_def Let_def)
  have p1: "\<exists>k\<le>60. wifi_connected ?b1 (begin_time ?b1 + 250 * k)"
    by (rule exI[of _ 3]) simp
  have p2: "\<not> (\<exists>k\<le>60. wifi_connected ?b2 (begin_time ?b2 + 250 * k))" by auto
  have px: "\<exists>k\<le>30. wifi_connected ?xb (begin_time ?xb + 500 * k)"
    by (rule exI[of _ 2]) simp
  have 1: "hw_apMode (hw_setup ?b0 hw_zeroed)"
    using T1[of hw_zeroed ?b0, OF len(1)] cs(1) by simp
  have 2: "\<not> hw_apMode (hw_setup ?b1 ?h)"
    using T1[of ?h ?b1, OF len(2)] cs(2) p1 by simp
  have 3: "hw_apMode (hw_setup ?b2 ?h)"
    using T1[of ?h ?b2, OF len(2)] p2 by simp
  have r4: "hw_loop pg ?e (hw_boot hw_zeroed) =
      Inr ((hw_boot hw_zeroed)\<lparr>hw_ntpData := ntpUpdate (time_now e) (local_tm e) ntpData_boot\<rparr>,
           [], None, False)"
    by (simp add: hw_loop_def hw_boot_def hw_oledUpdate_def hw_handleClient_def and_then_def Let_def)
  have 4: "\<exists>st' ops a r. hw_loop pg ?e (hw_boot hw_zeroed) = Inr (st', ops, a, r) \<and>
             hw_apMode st' = hw_apMode (hw_boot hw_zeroed)"
    using T2[OF r4] r4 by blast
  have 5: "\<not> o13_apMode (o13_setup ?b1 ?o)"
    using T3[of ?o ?b1, OF len(3)] cs(3) p1 by simp
  have r6: "o13_loop pg ?e (o13_boot o13_zeroed) =
      Inr (o13_ntpUpdate (time_now e) (local_tm e) (o13_boot o13_zeroed), [], None, False)"
    by (simp add: o13_loop_def o13_boot_def o13_oledUpdate_def o13_handleClient_def and_then_def
        Let_def o13_ntpUpdate_def)
  have 6: "\<exists>st' ops a r. o13_loop pg ?e (o13_boot o13_zeroed) = Inr (st', ops, a, r) \<and>
             o13_apMode st' = o13_apMode (o13_boot o13_zeroed)"
    using T4[OF r6] r6 by blast
  have 7: "\<not> e01_apMode (e01_setup ?b1 ?c)"
    using T5[of ?c ?b1, OF len(4)] cs(4) p1 by simp
  have r8: "e01_loop pg ?e1 (e01_boot e01_zeroed) =
      Inr ((e01_boot e01_zeroed)\<lparr>e01_ntpData := ntpUpdate (time_now e1) (local_tm e1) ntpData_boot\<rparr>,
           [], None, [], False)"
    by (simp add: e01_loop_def e01_boot_def e01_oledUpdate_def e01_handleClient_def and_then_def
        Let_def e01_loop_mqtt_def e01_zeroed_def)
  have 8: "\<exists>st' ops a mops r. e01_loop pg ?e1 (e01_boot e01_zeroed) = Inr (st', ops, a, mops, r) \<and>
             e01_apMode st' = e01_apMode (e01_boot e01_zeroed)"
    using T6[OF r8] r8 by blast
  have 9: "\<exists>st mops. e32_setup ?xb ?x = Inr (st, mops) \<and> \<not> e32_apMode st"
    using T7[of ?x ?xb] xn cs(5) px by auto
  have r10: "e32_loop xpg ?xe (e32_boot e32_zeroed) = Inr (e32_boot e32_zeroed, [], None, [], False)"
    by (simp add: e32_loop_def e32_boot_def e32_loop_head_def e32_handleClient_def updateOLED_def
        blinkLED_def e32_loop_publish_def and_then_def Let_def e32_zeroed_def)
  have 10: "\<exists>st' ops a mops r. e32_loop xpg ?xe (e32_boot e32_zeroed) = Inr (st', ops, a, mops, r) \<and>
             e32_apMode st' = e32_apMode (e32_boot e32_zeroed)"
    using T8[OF r10] r10 by blast
  show "hw_apMode (hw_setup ?b0 hw_zeroed) \<and> \<not> hw_apMode (hw_setup ?b1 ?h) \<and>
     hw_apMode (hw_setup ?b2 ?h) \<and>
     (\<exists>st' ops a r. hw_loop pg ?e (hw_boot hw_zeroed) = Inr (st', ops, a, r) \<and>
         hw_apMode st' = hw_apMode (hw_boot hw_zeroed)) \<and>
     \<not> o13_apMode (o13_setup ?b1 ?o) \<and>
     (\<exists>st' ops a r. o13_loop pg ?e (o13_boot o13_zeroed) = Inr (st', ops, a, r) \<and>
         o13_apMode st' = o13_apMode (o13_boot o13_zeroed)) \<and>
     \<not> e01_apMode (e01_setup ?b1 ?c) \<and>
     (\<exists>st' ops a mops r. e01_loop pg ?e1 (e01_boot e01_zeroed) = Inr (st', ops, a, mops, r) \<and>
         e01_apMode st' = e01_apMode (e01_boot e01_zeroed)) \<and>
     (\<exists>st mops. e32_setup ?xb ?x = Inr (st, mops) \<and> \<not> e32_apMode st) \<and>
     (\<exists>st' ops a mops r. e32_loop xpg ?xe (e32_boot e32_zeroed) = Inr (st', ops, a, mops, r) \<and>
         e32_apMode st' = e32_apMode (e32_boot e32_zeroed))"
    using 1 2 3 4 5 6 7 8 9 10 by blast
qed

section \<open>Properties of the clock and the display\<close>

subsection \<open>The synced flag\<close>

lemma ntpUpdate_keeps_synced: "synced d \<Longrightarrow> synced (ntpUpdate now lt d)"
  by (simp add: ntpUpdate_def)

lemma o13_ntpUpdate_keeps_synced: "ntpSynced st \<Longrightarrow> ntpSynced (o13_ntpUpdate now lt st)"
  by (simp add: o13_ntpUpdate_def)

lemma hw_later_synced:
  assumes "hw_later pg st st'" and "synced (hw_ntpData st)"
  shows "synced (hw_ntpData st')"
  using assms
proof (induction rule: hw_later.induct)
  case hw_now
  then show ?case .
next
  case (hw_pass st1 e st2 ops a)
  from hw_loop_frame[OF hw_pass.hyps(2)] hw_pass.IH[OF hw_pass.prems]
  show ?case by (simp add: ntpUpdate_keeps_synced)
qed

lemma o13_later_synced:
  assumes "o13_later pg st st'" and "ntpSynced st"
  shows "ntpSynced st'"
  using assms
proof (induction rule: o13_later.induct)
  case o13_now
  then show ?case .
next
  case (o13_pass st1 e st2 ops a)
  from o13_loop_frame[OF o13_pass.hyps(2)] o13_pass.IH[OF o13_pass.prems]
  show ?case by (simp add: o13_ntpUpdate_keeps_synced)
qed

lemma e01_later_synced:
  assumes "e01_later pg st st'" and "synced (e01_ntpData st)"
  shows "synced (e01_ntpData st')"
  using assms
proof (induction rule: e01_later.induct)
  case e01_now
  then show ?case .
next
  case (e01_pass st1 e st2 ops a mops)
  from e01_loop_frame[OF e01_pass.hyps(2)] e01_pass.IH[OF e01_pass.prems]
  show ?case by (simp add: ntpUpdate_keeps_synced)
qed

subsection \<open>The screens differ\<close>

lemma hw_signal_no_text: "DrawString x y s \<notin> set (hw_signal rssi)"
  by (auto simp: hw_signal_def Let_def)

lemma hw_screens_differ:
  "hw_setup_screen \<noteq> hw_syncing_screen ip"
  "hw_clock_screen e ap d date \<noteq> hw_setup_screen"
  "hw_clock_screen e ap d date \<noteq> hw_syncing_screen ip"
  "hw_setup_screen \<noteq> []" "hw_syncing_screen ip \<noteq> []" "hw_clock_screen e ap d date \<noteq> []"
proof -
  show "hw_setup_screen \<noteq> hw_syncing_screen ip"
    by (simp add: hw_setup_screen_def hw_syncing_screen_def)
  have "DrawString 64 8 ''WiFi Setup'' \<notin> set (hw_clock_screen e ap d date)"
    by (simp add: hw_clock_screen_def hw_signal_no_text)
  moreover have "DrawString 64 8 ''WiFi Setup'' \<in> set hw_setup_screen"
    by (simp add: hw_setup_screen_def)
  ultimately show "hw_clock_screen e ap d date \<noteq> hw_setup_screen" by metis
  have "DrawString 64 12 ''Syncing NTP...'' \<notin> set (hw_clock_screen e ap d date)"
    by (simp add: hw_clock_screen_def hw_signal_no_text)
  moreover have "DrawString 64 12 ''Syncing NTP...'' \<in> set (hw_syncing_screen ip)"
    by (simp add: hw_syncing_screen_def)
  ultimately show "hw_clock_screen e ap d date \<noteq> hw_syncing_screen ip" by metis
  show "hw_setup_screen \<noteq> []" "hw_syncing_screen ip \<noteq> []" "hw_clock_screen e ap d date \<noteq> []"
    by (simp_all add: hw_setup_screen_def hw_syncing_screen_def hw_clock_screen_def)
qed

lemma o13_screens_differ:
  "o13_setup_screen \<noteq> o13_syncing_screen ip"
  "o13_clock_screen st dn mn \<noteq> o13_setup_screen"
  "o13_clock_screen st dn mn \<noteq> o13_syncing_screen ip"
  "o13_setup_screen \<noteq> []" "o13_syncing_screen ip \<noteq> []" "o13_clock_screen st dn mn \<noteq> []"
  by (simp_all add: o13_setup_screen_def o13_syncing_screen_def o13_clock_screen_def)

lemma e01_screens_differ:
  "e01_setup_screen \<noteq> e01_syncing_screen ip"
  "e01_clock_screen e ap d date \<noteq> e01_setup_screen"
  "e01_clock_screen e ap d date \<noteq> e01_syncing_screen ip"
  "e01_setup_screen \<noteq> []" "e01_syncing_screen ip \<noteq> []" "e01_clock_screen e ap d date \<noteq> []"
  by (simp_all add: e01_setup_screen_def e01_syncing_screen_def e01_clock_screen_def)


subsection \<open>What is drawn once synced\<close>

lemma hw_oledUpdate_synced:
  assumes "hw_oledUpdate e st = Inr (st', ops)" and "synced (hw_ntpData st)"
  shows "ops = [] \<or> (\<exists>date. ops = hw_clock_screen e (hw_apMode st) (hw_ntpData st) date)"
  using assms
  by (auto simp: hw_oledUpdate_def Let_def and_then_def split: if_splits sum.splits)

lemma o13_clock_screen_lastOled [simp]:
  "o13_clock_screen (st\<lparr>lastOled := t\<rparr>) dn mn = o13_clock_screen st dn mn"
  by (simp add: o13_clock_screen_def)

lemma o13_oledUpdate_synced:
  assumes "o13_oledUpdate e st = Inr (st', ops)" and "ntpSynced st"
  shows "ops = [] \<or> (\<exists>dn mn. ops = o13_clock_screen st dn mn)"
  using assms
  by (auto simp: o13_oledUpdate_def Let_def and_then_def split: if_splits sum.splits)

lemma e01_oledUpdate_synced:
  assumes "e01_oledUpdate e st = Inr (st', ops)" and "synced (e01_ntpData st)"
  shows "ops = [] \<or> (\<exists>date. ops = e01_clock_screen e (e01_apMode st) (e01_ntpData st) date)"
  using assms
  by (auto simp: e01_oledUpdate_def Let_def and_then_def split: if_splits sum.splits)

lemma hw_loop_synced:
  assumes l: "hw_loop pg e st = Inr (st', ops, a, r)" and s: "synced (hw_ntpData st)"
  shows "ops = [] \<or> (\<exists>date. ops = hw_clock_screen e (hw_apMode st') (hw_ntpData st') date)"
proof -
  let ?s0 = "if \<not> hw_apMode st
             then st\<lparr>hw_ntpData := ntpUpdate (time_now e) (local_tm e) (hw_ntpData st)\<rparr> else st"
  from l obtain s1 where u: "hw_oledUpdate e ?s0 = Inr (s1, ops)" by (rule hw_loop_steps)
  have "synced (hw_ntpData ?s0)" using s by (simp add: ntpUpdate_keeps_synced)
  from hw_oledUpdate_synced[OF u this] hw_loop_frame[OF l] show ?thesis by auto
qed

lemma o13_loop_synced:
  assumes l: "o13_loop pg e st = Inr (st', ops, a, r)" and s: "ntpSynced st"
  shows "ops = [] \<or>
         (\<exists>dn mn. ops = o13_clock_screen
            (if \<not> o13_apMode st then o13_ntpUpdate (time_now e) (local_tm e) st else st) dn mn)"
proof -
  let ?s0 = "if \<not> o13_apMode st then o13_ntpUpdate (time_now e) (local_tm e) st else st"
  from l obtain s1 where u: "o13_oledUpdate e ?s0 = Inr (s1, ops)" by (rule o13_loop_steps)
  have "ntpSynced ?s0" using s by (simp add: o13_ntpUpdate_keeps_synced)
  from o13_oledUpdate_synced[OF u this] show ?thesis .
qed

lemma e01_loop_synced:
  assumes l: "e01_loop pg e st = Inr (st', ops, a, mops, r)" and s: "synced (e01_ntpData st)"
  shows "ops = [] \<or> (\<exists>date. ops = e01_clock_screen e (e01_apMode st') (e01_ntpData st') date)"
proof -
  let ?s0 = "if \<not> e01_apMode st
             then st\<lparr>e01_ntpData := ntpUpdate (time_now e) (local_tm e) (e01_ntpData st)\<rparr> else st"
  from l obtain s1 s2 where u: "e01_oledUpdate e ?s0 = Inr (s1, ops)" by (rule e01_loop_steps)
  have "synced (e01_ntpData ?s0)" using s by (simp add: ntpUpdate_keeps_synced)
  from e01_oledUpdate_synced[OF u this] e01_loop_frame[OF l] show ?thesis by auto
qed

lemma hw_setup_not_synced: "\<not> synced (hw_ntpData (hw_setup b ee))"
  by (simp add: hw_setup_def hw_boot_def hw_startSTA_def hw_startAP_def ntpData_boot_def Let_def)

lemma o13_setup_not_synced: "\<not> ntpSynced (o13_setup b ee)"
  by (simp add: o13_setup_def o13_boot_def o13_startSTA_def o13_startAP_def Let_def)

lemma e01_setup_not_synced: "\<not> synced (e01_ntpData (e01_setup b ee))"
  by (simp add: e01_setup_def e01_boot_def e01_startSTA_def e01_startAP_def ntpData_boot_def Let_def)

subsection \<open>C9: once synced, synced until the restart\<close>

text \<open>
  C9. In 8266\_HW\_630 and OLED13\_NTP\_V1 (and in ESP01\_OLED\_V2, which shares the text of
  \<open>ntpUpdate\<close>) the synced flag is false after \<open>setup\<close>. \<open>ntpUpdate\<close> changes nothing
  while the clock reads less than 100000 and sets the flag once it reads 100000 or more.
  Over a pass through \<open>loop\<close> the time snapshot changes by \<open>ntpUpdate\<close> in station mode
  and not at all in AP mode. Hence, over any number of passes without a restart, a flag
  that is set stays set, whatever the clock reads later; and a pass that starts with the
  flag set draws either nothing or the clock, never the syncing screen.
\<close>

theorem synced_stays_set:
  "\<not> synced (hw_ntpData (hw_setup b hee)) \<and>
   \<not> ntpSynced (o13_setup b oee) \<and>
   \<not> synced (e01_ntpData (e01_setup b cee)) \<and>
   (now < 100000 \<longrightarrow> ntpUpdate now lt d = d \<and> o13_ntpUpdate now lt ost = ost) \<and>
   (100000 \<le> now \<longrightarrow> synced (ntpUpdate now lt d) \<and> ntpSynced (o13_ntpUpdate now lt ost)) \<and>
   (hw_loop pg e hst = Inr (hst1, ops, a, r) \<longrightarrow>
      hw_ntpData hst1 = (if \<not> hw_apMode hst
                         then ntpUpdate (time_now e) (local_tm e) (hw_ntpData hst)
                         else hw_ntpData hst)) \<and>
   (o13_loop pg e ost = Inr (ost1, ops, a, r) \<longrightarrow>
      ntpSynced ost1 = (if \<not> o13_apMode ost
                        then ntpSynced (o13_ntpUpdate (time_now e) (local_tm e) ost)
                        else ntpSynced ost)) \<and>
   (e01_loop pg e1 cst = Inr (cst1, ops, a, mops, r) \<longrightarrow>
      e01_ntpData cst1 = (if \<not> e01_apMode cst
                          then ntpUpdate (time_now e1) (local_tm e1) (e01_ntpData cst)
                          else e01_ntpData cst)) \<and>
   (hw_later pg hst hst' \<and> synced (hw_ntpData hst) \<longrightarrow> synced (hw_ntpData hst')) \<and>
   (o13_later pg ost ost' \<and> ntpSynced ost \<longrightarrow> ntpSynced ost') \<and>
   (e01_later pg cst cst' \<and> synced (e01_ntpData cst) \<longrightarrow> synced (e01_ntpData cst')) \<and>
   (hw_later pg hst hst' \<and> synced (hw_ntpData hst) \<and>
    hw_loop pg e hst' = Inr (hst2, ops, a, r) \<longrightarrow>
      (ops = [] \<or> (\<exists>date. ops = hw_clock_screen e (hw_apMode hst2) (hw_ntpData hst2) date)) \<and>
      ops \<noteq> hw_syncing_screen ip) \<and>
   (o13_later pg ost ost' \<and> ntpSynced ost \<and>
    o13_loop pg e ost' = Inr (ost2, ops, a, r) \<longrightarrow>
      (ops = [] \<or> (\<exists>s dayName monName. ops = o13_clock_screen s dayName monName)) \<and>
      ops \<noteq> o13_syncing_screen ip) \<and>
   (e01_later pg cst cst' \<and> synced (e01_ntpData cst) \<and>
    e01_loop pg e1 cst' = Inr (cst2, ops, a, mops, r) \<longrightarrow>
      (ops = [] \<or> (\<exists>date. ops = e01_clock_screen e1 (e01_apMode cst2) (e01_ntpData cst2) date)) \<and>
      ops \<noteq> e01_syncing_screen ip)"
proof (intro conjI impI)
  show "\<not> synced (hw_ntpData (hw_setup b hee))" by (rule hw_setup_not_synced)
  show "\<not> ntpSynced (o13_setup b oee)" by (rule o13_setup_not_synced)
  show "\<not> synced (e01_ntpData (e01_setup b cee))" by (rule e01_setup_not_synced)
  show "ntpUpdate now lt d = d" if "now < 100000" using that by (simp add: ntpUpdate_def)
  show "o13_ntpUpdate now lt ost = ost" if "now < 100000"
    using that by (simp add: o13_ntpUpdate_def)
  show "synced (ntpUpdate now lt d)" if "100000 \<le> now" using that by (simp add: ntpUpdate_def)
  show "ntpSynced (o13_ntpUpdate now lt ost)" if "100000 \<le> now"
    using that by (simp add: o13_ntpUpdate_def)
  show "hw_ntpData hst1 = (if \<not> hw_apMode hst
                           then ntpUpdate (time_now e) (local_tm e) (hw_ntpData hst)
                           else hw_ntpData hst)"
    if "hw_loop pg e hst = Inr (hst1, ops, a, r)" using hw_loop_frame[OF that] by simp
  show "ntpSynced ost1 = (if \<not> o13_apMode ost
                          then ntpSynced (o13_ntpUpdate (time_now e) (local_tm e) ost)
                          else ntpSynced ost)"
    if "o13_loop pg e ost = Inr (ost1, ops, a, r)" using o13_loop_frame[OF that] by simp
  show "e01_ntpData cst1 = (if \<not> e01_apMode cst
                            then ntpUpdate (time_now e1) (local_tm e1) (e01_ntpData cst)
                            else e01_ntpData cst)"
    if "e01_loop pg e1 cst = Inr (cst1, ops, a, mops, r)" using e01_loop_frame[OF that] by simp
  show "synced (hw_ntpData hst')" if "hw_later pg hst hst' \<and> synced (hw_ntpData hst)"
    using that hw_later_synced by blast
  show "ntpSynced ost'" if "o13_later pg ost ost' \<and> ntpSynced ost"
    using that o13_later_synced by blast
  show "synced (e01_ntpData cst')" if "e01_later pg cst cst' \<and> synced (e01_ntpData cst)"
    using that e01_later_synced by blast
  show "ops = [] \<or> (\<exists>date. ops = hw_clock_screen e (hw_apMode hst2) (hw_ntpData hst2) date)"
    if "hw_later pg hst hst' \<and> synced (hw_ntpData hst) \<and>
        hw_loop pg e hst' = Inr (hst2, ops, a, r)"
    using that hw_later_synced hw_loop_synced by blast
  then show "ops \<noteq> hw_syncing_screen ip"
    if "hw_later pg hst hst' \<and> synced (hw_ntpData hst) \<and>
        hw_loop pg e hst' = Inr (hst2, ops, a, r)"
    using that hw_screens_differ(3,5) by metis
  show "ops = [] \<or> (\<exists>s dayName monName. ops = o13_clock_screen s dayName monName)"
    if "o13_later pg ost ost' \<and> ntpSynced ost \<and> o13_loop pg e ost' = Inr (ost2, ops, a, r)"
    using that o13_later_synced o13_loop_synced by blast
  then show "ops \<noteq> o13_syncing_screen ip"
    if "o13_later pg ost ost' \<and> ntpSynced ost \<and> o13_loop pg e ost' = Inr (ost2, ops, a, r)"
    using that o13_screens_differ(3,5) by metis
  show "ops = [] \<or> (\<exists>date. ops = e01_clock_screen e1 (e01_apMode cst2) (e01_ntpData cst2) date)"
    if "e01_later pg cst cst' \<and> synced (e01_ntpData cst) \<and>
        e01_loop pg e1 cst' = Inr (cst2, ops, a, mops, r)"
    using that e01_later_synced e01_loop_synced by blast
  then show "ops \<noteq> e01_syncing_screen ip"
    if "e01_later pg cst cst' \<and> synced (e01_ntpData cst) \<and>
        e01_loop pg e1 cst' = Inr (cst2, ops, a, mops, r)"
    using that e01_screens_differ(3,5) by metis
qed

theorem synced_stays_set_witness:
  "\<forall>(e :: env) (e1 :: e01_env) (pg :: pages).
     ntpUpdate 5 \<lparr>tm_sec = 7, tm_min = 30, tm_hour = 12, tm_mday = 2, tm_mon = 10,
                   tm_year = 126, tm_wday = 1\<rparr> ntpData_boot = ntpData_boot \<and>
     synced (ntpUpdate 1700000000 \<lparr>tm_sec = 7, tm_min = 30, tm_hour = 12, tm_mday = 2,
                   tm_mon = 10, tm_year = 126, tm_wday = 1\<rparr> ntpData_boot) \<and>
     (\<exists>st. hw_loop pg (e\<lparr>time_now := 5, millis_oled_test := 100, request := None\<rparr>)
              ((hw_boot hw_zeroed)\<lparr>hw_ntpData := ntpData_boot\<lparr>synced := True\<rparr>\<rparr>)
              = Inr (st, [], None, False) \<and>
           synced (hw_ntpData st)) \<and>
     (\<exists>st ops. hw_loop pg (e\<lparr>time_now := 5, millis_oled_test := 1000, request := None\<rparr>)
              ((hw_boot hw_zeroed)\<lparr>hw_ntpData := ntpData_boot\<lparr>synced := True, month := 11\<rparr>\<rparr>)
              = Inr (st, ops, None, False) \<and>
           ops \<noteq> [] \<and> ops \<noteq> hw_syncing_screen (localIP e) \<and>
           (\<exists>date. ops = hw_clock_screen
                      (e\<lparr>time_now := 5, millis_oled_test := 1000, request := None\<rparr>)
                      (hw_apMode st) (hw_ntpData st) date)) \<and>
     (\<exists>st. o13_loop pg (e\<lparr>time_now := 5, millis_oled_test := 100, request := None\<rparr>)
              ((o13_boot o13_zeroed)\<lparr>ntpSynced := True\<rparr>) = Inr (st, [], None, False) \<and>
           ntpSynced st) \<and>
     (\<exists>st. e01_loop pg (e1\<lparr>time_now := 5, millis_oled_test := 100, request := None\<rparr>)
              ((e01_boot e01_zeroed)\<lparr>e01_ntpData := ntpData_boot\<lparr>synced := True\<rparr>\<rparr>)
              = Inr (st, [], None, [], False) \<and>
           synced (e01_ntpData st))"
proof (intro allI)
  fix e :: env and e1 :: e01_env and pg :: pages
  let ?lt = "\<lparr>tm_sec = 7, tm_min = 30, tm_hour = 12, tm_mday = 2, tm_mon = 10,
               tm_year = 126, tm_wday = 1\<rparr>"
  let ?eB = "e\<lparr>time_now := 5, millis_oled_test := 100, request := None\<rparr>"
  let ?eC = "e\<lparr>time_now := 5, millis_oled_test := 1000, request := None\<rparr>"
  let ?e1 = "e1\<lparr>time_now := 5, millis_oled_test := 100, request := None\<rparr>"
  let ?h = "(hw_boot hw_zeroed)\<lparr>hw_ntpData := ntpData_boot\<lparr>synced := True\<rparr>\<rparr>"
  let ?d = "ntpData_boot\<lparr>synced := True, month := 11\<rparr>"
  let ?h2 = "(hw_boot hw_zeroed)\<lparr>hw_ntpData := ?d\<rparr>"
  let ?o = "(o13_boot o13_zeroed)\<lparr>ntpSynced := True\<rparr>"
  let ?c = "(e01_boot e01_zeroed)\<lparr>e01_ntpData := ntpData_boot\<lparr>synced := True\<rparr>\<rparr>"
  note T = synced_stays_set
  note T4 = T[THEN conjunct2, THEN conjunct2, THEN conjunct2, THEN conjunct1, rule_format]
  note T5 = T[THEN conjunct2, THEN conjunct2, THEN conjunct2, THEN conjunct2, THEN conjunct1,
      rule_format]
  note T9 = T[THEN conjunct2, THEN conjunct2, THEN conjunct2, THEN conjunct2, THEN conjunct2,
      THEN conjunct2, THEN conjunct2, THEN conjunct2, THEN conjunct1, rule_format]
  note T10 = T[THEN conjunct2, THEN conjunct2, THEN conjunct2, THEN conjunct2, THEN conjunct2,
      THEN conjunct2, THEN conjunct2, THEN conjunct2, THEN conjunct2, THEN conjunct1, rule_format]
  note T11 = T[THEN conjunct2, THEN conjunct2, THEN conjunct2, THEN conjunct2, THEN conjunct2,
      THEN conjunct2, THEN conjunct2, THEN conjunct2, THEN conjunct2, THEN conjunct2,
      THEN conjunct1, rule_format]
  note T12 = T[THEN conjunct2, THEN conjunct2, THEN conjunct2, THEN conjunct2, THEN conjunct2,
      THEN conjunct2, THEN conjunct2, THEN conjunct2, THEN conjunct2, THEN conjunct2,
      THEN conjunct2, THEN conjunct1, rule_format]
  have 1: "ntpUpdate 5 ?lt ntpData_boot = ntpData_boot"
    using T4[of 5 ?lt ntpData_boot] by simp
  have 2: "synced (ntpUpdate 1700000000 ?lt ntpData_boot)"
    using T5[of 1700000000 ?lt ntpData_boot] by simp
  have rB: "hw_loop pg ?eB ?h = Inr (?h, [], None, False)"
    by (simp add: hw_loop_def hw_boot_def hw_oledUpdate_def hw_handleClient_def and_then_def
        Let_def ntpUpdate_def)
  have "hw_later pg ?h ?h" by (rule hw_now)
  from hw_pass[OF this rB] have lB: "hw_later pg ?h ?h" .
  have 3: "\<exists>st. hw_loop pg ?eB ?h = Inr (st, [], None, False) \<and> synced (hw_ntpData st)"
    using T9[of pg ?h ?h] lB rB by simp
  have db: "\<exists>date. dateBuf ?d = Inr date"
    by (simp add: dateBuf_def at_index_def DAYS_def MONTHS_def and_then_def ntpData_boot_def)
  then obtain date where dd: "dateBuf ?d = Inr date" ..
  have rC: "hw_loop pg ?eC ?h2 =
      Inr (?h2\<lparr>hw_lastOledUpdate := millis_oled_set e\<rparr>,
           hw_clock_screen ?eC False ?d date, None, False)"
    by (simp add: hw_loop_def hw_boot_def hw_oledUpdate_def hw_handleClient_def and_then_def
        Let_def ntpUpdate_def dd hw_clock_screen_def)
  have l2: "hw_later pg ?h2 ?h2" by (rule hw_now)
  have s2: "synced (hw_ntpData ?h2)" by simp
  from T12[of pg ?h2 ?h2 ?eC _ _ _ _ "localIP e", OF conjI[OF l2 conjI[OF s2 rC]]]
  have 4: "\<exists>st ops. hw_loop pg ?eC ?h2 = Inr (st, ops, None, False) \<and>
           ops \<noteq> [] \<and> ops \<noteq> hw_syncing_screen (localIP e) \<and>
           (\<exists>date. ops = hw_clock_screen ?eC (hw_apMode st) (hw_ntpData st) date)"
    using rC by (auto simp: hw_clock_screen_def)
  have rO: "o13_loop pg ?eB ?o = Inr (?o, [], None, False)"
    by (simp add: o13_loop_def o13_boot_def o13_oledUpdate_def o13_handleClient_def and_then_def
        Let_def o13_ntpUpdate_def)
  have "o13_later pg ?o ?o" by (rule o13_now)
  from o13_pass[OF this rO] have lO: "o13_later pg ?o ?o" .
  have 5: "\<exists>st. o13_loop pg ?eB ?o = Inr (st, [], None, False) \<and> ntpSynced st"
    using T10[of pg ?o ?o] lO rO by simp
  have rE: "e01_loop pg ?e1 ?c = Inr (?c, [], None, [], False)"
    by (simp add: e01_loop_def e01_boot_def e01_oledUpdate_def e01_handleClient_def and_then_def
        Let_def ntpUpdate_def e01_loop_mqtt_def e01_zeroed_def)
  have "e01_later pg ?c ?c" by (rule e01_now)
  from e01_pass[OF this rE] have lE: "e01_later pg ?c ?c" .
  have 6: "\<exists>st. e01_loop pg ?e1 ?c = Inr (st, [], None, [], False) \<and> synced (e01_ntpData st)"
    using T11[of pg ?c ?c] lE rE by simp
  from 1 2 3 4 5 6 show
    "ntpUpdate 5 ?lt ntpData_boot = ntpData_boot \<and>
     synced (ntpUpdate 1700000000 ?lt ntpData_boot) \<and>
     (\<exists>st. hw_loop pg ?eB ?h = Inr (st, [], None, False) \<and> synced (hw_ntpData st)) \<and>
     (\<exists>st ops. hw_loop pg ?eC ?h2 = Inr (st, ops, None, False) \<and>
           ops \<noteq> [] \<and> ops \<noteq> hw_syncing_screen (localIP e) \<and>
           (\<exists>date. ops = hw_clock_screen ?eC (hw_apMode st) (hw_ntpData st) date)) \<and>
     (\<exists>st. o13_loop pg ?eB ?o = Inr (st, [], None, False) \<and> ntpSynced st) \<and>
     (\<exists>st. e01_loop pg ?e1 ?c = Inr (st, [], None, [], False) \<and> synced (e01_ntpData st))"
    by blast
qed

subsection \<open>Elapsed time on the 32-bit clock\<close>

lemma millis_elapsed:
  assumes "t1 \<le> t2" and "t2 - t1 < 2 ^ 32"
  shows "unat ((word_of_nat t2 :: 32 word) - word_of_nat t1) = t2 - t1"
proof -
  have "(word_of_nat t2 :: 32 word) - word_of_nat t1 = word_of_nat (t2 - t1)"
    using assms(1) by (simp add: of_nat_diff)
  moreover have "unat (word_of_nat (t2 - t1) :: 32 word) = t2 - t1"
    using assms(2) by (subst unat_of_nat) simp
  ultimately show ?thesis by simp
qed



subsection \<open>The table indices of the clock\<close>





subsection \<open>What holds between two passes\<close>





subsection \<open>The screen drawn in a pass\<close>




subsection \<open>The clock of ESP32\_OLED\_V1 fits its buffers\<close>

lemma length_dec:
  assumes "n < 10 ^ k" and "0 < k"
  shows "length (dec n) \<le> k"
  using assms
proof (induction n arbitrary: k rule: dec.induct)
  case (1 n)
  show ?case
  proof (cases "n < 10")
    case True
    with 1(3) show ?thesis by (subst dec.simps) simp
  next
    case False
    from 1(3) obtain j where k: "k = Suc j" by (cases k) auto
    have j: "0 < j"
    proof (rule ccontr)
      assume "\<not> 0 < j"
      with k 1(2) False show False by simp
    qed
    from 1(2) k have "n div 10 < 10 ^ j" by (simp add: less_mult_imp_div_less mult.commute)
    from 1(1)[OF False this j] have "length (dec (n div 10)) \<le> j" .
    with False k show ?thesis by (subst dec.simps) simp
  qed
qed

lemma length_dec_pos: "0 < length (dec n)"
  by (subst dec.simps) simp

lemma length_two_digits:
  assumes "0 \<le> i" and "i < 100"
  shows "length (zero_pad 2 (sdec i)) = 2"
proof -
  have "nat i < 10 ^ 2" using assms by auto
  from length_dec[OF this] have "length (dec (nat i)) \<le> 2" by simp
  with assms(1) show ?thesis by (simp add: zero_pad_def sdec_def)
qed

lemma fmt_HMS_fits:
  assumes "tm_range ti"
  shows "length (fmt_HMS ti) = 8"
proof -
  from assms have "length (zero_pad 2 (sdec (tm_hour ti))) = 2"
    and "length (zero_pad 2 (sdec (tm_min ti))) = 2"
    and "length (zero_pad 2 (sdec (tm_sec ti))) = 2"
    by (auto simp: tm_range_def intro!: length_two_digits)
  then show ?thesis by (simp add: fmt_HMS_def)
qed



subsection \<open>A call that draws stores its reading of the clock\<close>





subsection \<open>C5: a redraw every 500 ms at most, of one of three screens\<close>



section \<open>Properties of the MQTT client\<close>

subsection \<open>C8: reconnecting on a fixed timer\<close>



subsection \<open>More than a given time on the 32-bit clock\<close>

lemma millis_not_over:
  assumes "t1 \<le> t2" and "t2 \<le> t1 + n" and "n < 2 ^ 32"
  shows "\<not> (word_of_nat n :: 32 word) < word_of_nat t2 - word_of_nat t1"
proof -
  have "t2 - t1 < 2 ^ 32" using assms by simp
  from millis_elapsed[OF assms(1) this] have
    "unat ((word_of_nat t2 :: 32 word) - word_of_nat t1) = t2 - t1" .
  moreover have "unat (word_of_nat n :: 32 word) = n"
    using assms(3) by (subst unat_of_nat) simp
  ultimately show ?thesis using assms(2) by (simp add: word_less_nat_alt)
qed

lemma millis_over:
  assumes "t1 + n < t2" and "t2 - t1 < 2 ^ 32"
  shows "(word_of_nat n :: 32 word) < word_of_nat t2 - word_of_nat t1"
proof -
  have le: "t1 \<le> t2" using assms(1) by simp
  have n: "n < 2 ^ 32" using assms by simp
  from millis_elapsed[OF le assms(2)] have
    "unat ((word_of_nat t2 :: 32 word) - word_of_nat t1) = t2 - t1" .
  moreover have "unat (word_of_nat n :: 32 word) = n"
    using n by (subst unat_of_nat) simp
  ultimately show ?thesis using assms(1) by (simp add: word_less_nat_alt)
qed

subsection \<open>When ESP01\_OLED\_V2 publishes\<close>

lemma e01_mqttReconnect_no_publish:
  assumes "e01_mqttReconnect e st = (s1, ops)"
  shows "Publish t p \<notin> set ops"
  using assms by (auto simp: e01_mqttReconnect_def Let_def split: if_splits)

lemma e01_loop_mqtt_publish:
  assumes l: "e01_loop_mqtt e st = (st', mops)" and p: "Publish t p \<in> set mops"
  shows "\<not> e01_apMode st \<and> e01_mqttHost (e01_cfg st) ! 0 \<noteq> NUL \<and>
         mqtt_connected_publish e \<and> synced (e01_ntpData st) \<and>
         60000 < millis_pub_test e - lastMqttPub st \<and>
         lastMqttPub st' = millis_pub_set e \<and>
         t = e01_mqttTopic (e01_cfg st) \<and> p = mqtt_payload (e01_ntpData st)"
proof (cases "\<not> e01_apMode st \<and> e01_mqttHost (e01_cfg st) ! 0 \<noteq> NUL")
  case False
  with l p show ?thesis by (auto simp: e01_loop_mqtt_def)
next
  case True
  obtain s1 o1 where r: "e01_mqttReconnect e st = (s1, o1)" by (cases "e01_mqttReconnect e st")
  from e01_mqttReconnect_frame[OF r] have f:
    "e01_ntpData s1 = e01_ntpData st" "e01_cfg s1 = e01_cfg st" "lastMqttPub s1 = lastMqttPub st"
    by auto
  note n = e01_mqttReconnect_no_publish[OF r, of t p]
  show ?thesis
  proof (cases "60000 < millis_pub_test e - lastMqttPub s1 \<and> synced (e01_ntpData s1)")
    case False
    with l p True r n show ?thesis by (auto simp: e01_loop_mqtt_def Let_def)
  next
    case due: True
    with l True r have "st' = s1\<lparr>lastMqttPub := millis_pub_set e\<rparr>"
      and "mops = o1 @ [MqttLoop] @ mqttPublish e s1"
      by (auto simp: e01_loop_mqtt_def Let_def)
    with p n have "Publish t p \<in> set (mqttPublish e s1)"
      and s: "lastMqttPub st' = millis_pub_set e" by auto
    then have "mqtt_connected_publish e \<and> t = e01_mqttTopic (e01_cfg s1) \<and>
               p = mqtt_payload (e01_ntpData s1)"
      by (auto simp: mqttPublish_def split: if_splits)
    with True due f s show ?thesis by simp
  qed
qed

lemma e01_loop_publish:
  assumes l: "e01_loop pg e st = Inr (st', ops, a, mops, r)" and p: "Publish t p \<in> set mops"
  shows "\<not> e01_apMode st \<and> e01_mqttHost (e01_cfg st) ! 0 \<noteq> NUL \<and>
         mqtt_connected_publish e \<and> synced (e01_ntpData st') \<and>
         60000 < millis_pub_test e - lastMqttPub st \<and>
         lastMqttPub st' = millis_pub_set e \<and>
         t = e01_mqttTopic (e01_cfg st) \<and> p = mqtt_payload (e01_ntpData st')"
proof -
  from l obtain s1 s2 where u: "e01_oledUpdate e (e01_ntp_pass e st) = Inr (s1, ops)"
    and h: "e01_handleClient pg e s1 = Inr (s2, a, r)"
    and t: "r \<longrightarrow> st' = s2 \<and> mops = []"
    and f: "\<not> r \<longrightarrow> e01_loop_mqtt e s2 = (st', mops)"
    by (rule e01_loop_steps)
  from t p have nr: "\<not> r" by auto
  with f have m: "e01_loop_mqtt e s2 = (st', mops)" by simp
  from e01_handleClient_frame[OF h] nr have s2: "s2 = s1" by simp
  have s0: "e01_apMode (e01_ntp_pass e st) = e01_apMode st"
    "e01_cfg (e01_ntp_pass e st) = e01_cfg st"
    "lastMqttPub (e01_ntp_pass e st) = lastMqttPub st"
    by simp_all
  from e01_oledUpdate_frame[OF u] have
    "e01_apMode s1 = e01_apMode (e01_ntp_pass e st) \<and> e01_cfg s1 = e01_cfg (e01_ntp_pass e st) \<and>
     lastMqttPub s1 = lastMqttPub (e01_ntp_pass e st)"
    by (elim disjE) simp_all
  with s0 have s1:
    "e01_apMode s1 = e01_apMode st" "e01_cfg s1 = e01_cfg st" "lastMqttPub s1 = lastMqttPub st"
    by simp_all
  from e01_loop_mqtt_frame[OF m] have "e01_ntpData st' = e01_ntpData s2" by simp
  with e01_loop_mqtt_publish[OF m p] s1 s2 show ?thesis by simp
qed

lemma e01_loop_mqtt_due:
  assumes "\<not> e01_apMode st" and "e01_mqttHost (e01_cfg st) ! 0 \<noteq> NUL"
    and "mqtt_connected_publish e" and "synced (e01_ntpData st)"
    and "60000 < millis_pub_test e - lastMqttPub st"
  shows "\<exists>st' mops. e01_loop_mqtt e st = (st', mops) \<and>
           Publish (e01_mqttTopic (e01_cfg st)) (mqtt_payload (e01_ntpData st)) \<in> set mops \<and>
           lastMqttPub st' = millis_pub_set e"
proof -
  obtain s1 o1 where r: "e01_mqttReconnect e st = (s1, o1)" by (cases "e01_mqttReconnect e st")
  from e01_mqttReconnect_frame[OF r] have f:
    "e01_ntpData s1 = e01_ntpData st" "e01_cfg s1 = e01_cfg st" "lastMqttPub s1 = lastMqttPub st"
    by auto
  with assms r show ?thesis by (simp add: e01_loop_mqtt_def Let_def mqttPublish_def)
qed

subsection \<open>When ESP32\_OLED\_V1 publishes\<close>

lemma e32_mqttReconnect_no_publish:
  assumes "e32_mqttReconnect r st = Inr (s1, ops)"
  shows "Publish t p \<notin> set ops"
  using assms
  by (auto simp: e32_mqttReconnect_def Let_def and_then_def split: if_splits sum.splits)

lemma e32_loop_head_no_publish:
  assumes "e32_loop_head e st = Inr (s1, ops)"
  shows "Publish t p \<notin> set ops"
proof (cases "\<not> e32_apMode st \<and> mqttEnabled st \<and> \<not> loop_connected e")
  case False
  with assms show ?thesis
    by (auto simp: e32_loop_head_def and_then_def split: if_splits)
next
  case True
  with assms obtain s o1 where r: "e32_mqttReconnect (loop_retry e) st = Inr (s, o1)"
    and "ops = o1 @ [MqttLoop]"
    by (auto simp: e32_loop_head_def and_then_def split: sum.splits)
  with e32_mqttReconnect_no_publish[OF r, of t p] show ?thesis by simp
qed

lemma e32_loop_publish_only:
  assumes "e32_loop_publish e st = Inr (st', pops)" and "Publish t p \<in> set pops"
  shows "mqttEnabled st \<and> pub_connected e \<and> \<not> e32_apMode st \<and>
         60000 < pub_millis_test e - lastMqtt st \<and>
         lastMqtt st' = pub_millis_set e \<and> t = e32_mqttTopic (e32_cfg st) \<and>
         (\<exists>ti. pub_local_time e = Some ti \<and> p = fmt_Ymd ti @ '' '' @ fmt_HMS ti)"
  using assms
  by (auto simp: e32_loop_publish_def Let_def and_then_def strftime_def
      split: if_splits option.splits)

lemma e32_loop_publishes:
  assumes l: "e32_loop pg e st = Inr (st', ops, a, mops, r)" and p: "Publish t p \<in> set mops"
  shows "mqttEnabled st \<and> pub_connected e \<and> \<not> e32_apMode st \<and>
         60000 < pub_millis_test e - lastMqtt st \<and>
         lastMqtt st' = pub_millis_set e \<and> t = e32_mqttTopic (e32_cfg st) \<and>
         (\<exists>ti. pub_local_time e = Some ti \<and> p = fmt_Ymd ti @ '' '' @ fmt_HMS ti)"
proof -
  from l obtain s1 m1 s2 where h: "e32_loop_head e st = Inr (s1, m1)"
    and c: "e32_handleClient pg e s1 = Inr (s2, a, r)"
    and t: "r \<longrightarrow> st' = s2 \<and> ops = [] \<and> mops = m1"
    and f: "\<not> r \<longrightarrow> (\<exists>s3 pops. updateOLED e s2 = Inr (s3, ops) \<and>
            e32_loop_publish e (blinkLED e s3) = Inr (st', pops) \<and> mops = m1 @ pops)"
    by (rule e32_loop_steps)
  note n = e32_loop_head_no_publish[OF h, of t p]
  from t p n have nr: "\<not> r" by auto
  with f obtain s3 pops where u: "updateOLED e s2 = Inr (s3, ops)"
    and b: "e32_loop_publish e (blinkLED e s3) = Inr (st', pops)" and m: "mops = m1 @ pops"
    by blast
  from m p n have pp: "Publish t p \<in> set pops" by simp
  from e32_loop_head_frame[OF h] have f1:
    "mqttEnabled s1 = mqttEnabled st" "e32_apMode s1 = e32_apMode st"
    "lastMqtt s1 = lastMqtt st" "e32_cfg s1 = e32_cfg st" by auto
  from e32_handleClient_frame[OF c] nr have f2: "s2 = s1" by simp
  from updateOLED_frame[OF u] have f3:
    "mqttEnabled s3 = mqttEnabled s2" "e32_apMode s3 = e32_apMode s2"
    "lastMqtt s3 = lastMqtt s2" "e32_cfg s3 = e32_cfg s2" by auto
  from e32_loop_publish_only[OF b pp] blinkLED_frame[of e s3] f1 f2 f3 show ?thesis by simp
qed

lemma e32_setup_enabled:
  assumes "e32_setup b ee = Inr (st, mops)"
  shows "mqttEnabled st \<longrightarrow> \<not> e32_apMode st \<and> c_str (e32_mqttServer (e32_cfg st)) \<noteq> []"
proof -
  obtain cfg ee' where l: "e32_loadConfig ee = (cfg, ee')" by (cases "e32_loadConfig ee")
  let ?st = "(e32_boot ee')\<lparr>e32_cfg := cfg\<rparr>"
  from assms l obtain ssid where s: "field_str (e32_ssid cfg) = Inr ssid"
    by (auto simp: e32_setup_def Let_def and_then_def split: sum.splits)
  show ?thesis
  proof (cases "0 < length ssid \<and> connectWiFi b")
    case False
    with assms l s have "st = e32_startAP ?st"
      by (auto simp: e32_setup_def Let_def and_then_def)
    then show ?thesis by (simp add: e32_startAP_def e32_boot_def)
  next
    case True
    with assms l s obtain srv where v: "field_str (e32_mqttServer cfg) = Inr srv"
      by (auto simp: e32_setup_def Let_def and_then_def split: sum.splits)
    show ?thesis
    proof (cases "0 < length srv")
      case False
      with assms l s v True have "st = ?st\<lparr>e32_apMode := False\<rparr>"
        by (auto simp: e32_setup_def Let_def and_then_def)
      then show ?thesis by (simp add: e32_boot_def)
    next
      case srv: True
      let ?s1 = "?st\<lparr>e32_apMode := False, mqttEnabled := True\<rparr>"
      from assms l s v True srv have m: "setupMQTT (boot_retry b) ?s1 = Inr (st, mops)"
        by (auto simp: e32_setup_def Let_def and_then_def)
      then obtain o1 where "e32_mqttReconnect (boot_retry b) ?s1 = Inr (st, o1)"
        by (auto simp: setupMQTT_def and_then_def split: sum.splits)
      from e32_mqttReconnect_frame[OF this] have
        "e32_apMode st = False" "e32_cfg st = cfg" by auto
      moreover from v srv have "c_str (e32_mqttServer cfg) \<noteq> []"
        by (auto simp: field_str_def split: if_splits)
      ultimately show ?thesis by simp
    qed
  qed
qed

lemma e32_reachable_enabled:
  assumes "e32_reachable pg st"
  shows "mqttEnabled st \<longrightarrow> \<not> e32_apMode st \<and> c_str (e32_mqttServer (e32_cfg st)) \<noteq> []"
  using assms
proof (induction rule: e32_reachable.induct)
  case (e32_booted b eeprom st mops)
  then show ?case by (rule e32_setup_enabled)
next
  case (e32_looped st e st' ops a mops)
  from e32_loop_frame[OF e32_looped.hyps(2)] e32_looped.IH show ?case by simp
qed

lemma fmt_Ymd_fits:
  assumes "tm_range ti"
  shows "length (fmt_Ymd ti) \<le> 10"
proof -
  have "length (zero_pad 2 (sdec (tm_mon ti + 1))) = 2"
    using assms by (intro length_two_digits) (simp_all add: tm_range_def)
  moreover have "length (zero_pad 2 (sdec (tm_mday ti))) = 2"
    using assms by (intro length_two_digits) (simp_all add: tm_range_def)
  moreover have "nat (tm_year ti + 1900) < 10 ^ 4" using assms by (auto simp: tm_range_def)
  from length_dec[OF this] have "length (dec (nat (tm_year ti + 1900))) \<le> 4" by simp
  moreover have "0 \<le> tm_year ti + 1900" using assms by (simp add: tm_range_def)
  ultimately show ?thesis by (simp add: fmt_Ymd_def sdec_def)
qed

lemma e32_loop_publish_due:
  assumes "mqttEnabled st" and "pub_connected e" and "\<not> e32_apMode st"
    and "60000 < pub_millis_test e - lastMqtt st"
    and "pub_local_time e = Some ti" and "tm_range ti"
  shows "e32_loop_publish e st =
           Inr (st\<lparr>lastMqtt := pub_millis_set e\<rparr>,
                [Publish (e32_mqttTopic (e32_cfg st)) (fmt_Ymd ti @ '' '' @ fmt_HMS ti)])"
  using assms fmt_Ymd_fits[OF assms(6)] fmt_HMS_fits[OF assms(6)]
  by (simp add: e32_loop_publish_def Let_def strftime_def and_then_def)

subsection \<open>The digits of a formatted number\<close>

lemma dec_small: "n < 10 \<Longrightarrow> dec n = [digit n]"
  by (subst dec.simps) simp

lemma dec_step: "\<not> n < 10 \<Longrightarrow> dec n = dec (n div 10) @ [digit (n mod 10)]"
  by (subst dec.simps) simp

lemma dec_2:
  assumes "10 \<le> n" and "n < 100"
  shows "dec n = [digit (n div 10), digit (n mod 10)]"
proof -
  have "n div 10 < 10" using assms(2) by simp
  with assms(1) show ?thesis by (simp add: dec_step dec_small)
qed

lemma dec_3:
  assumes "100 \<le> n" and "n < 1000"
  shows "dec n = [digit (n div 100), digit (n div 10 mod 10), digit (n mod 10)]"
proof -
  have "10 \<le> n div 10" "n div 10 < 100" using assms by simp_all
  from dec_2[OF this] have "dec (n div 10) = [digit (n div 100), digit (n div 10 mod 10)]"
    by (simp add: div_mult2_eq[symmetric])
  with assms(1) show ?thesis by (simp add: dec_step)
qed

lemma dec_4:
  assumes "1000 \<le> n" and "n < 10000"
  shows "dec n = [digit (n div 1000), digit (n div 100 mod 10), digit (n div 10 mod 10),
                  digit (n mod 10)]"
proof -
  have "100 \<le> n div 10" "n div 10 < 1000" using assms by simp_all
  from dec_3[OF this] have
    "dec (n div 10) = [digit (n div 1000), digit (n div 100 mod 10), digit (n div 10 mod 10)]"
    by (simp add: div_mult2_eq[symmetric])
  with assms(1) show ?thesis by (simp add: dec_step)
qed

lemma digit_0: "digit 0 = CHR ''0''"
  by (simp add: digit_def)

lemma zeros:
  "replicate 3 CHR ''0'' = ''000''" "replicate 2 CHR ''0'' = ''00''"
  by (simp_all add: numeral_3_eq_3 numeral_2_eq_2)

lemma pad2:
  assumes "n < 100"
  shows "zero_pad 2 (dec n) = [digit (n div 10), digit (n mod 10)]"
proof (cases "n < 10")
  case True
  then show ?thesis by (simp add: dec_small zero_pad_def digit_0)
next
  case False
  with dec_2[of n] assms show ?thesis by (simp add: zero_pad_def)
qed

lemma pad4:
  assumes "n < 10000"
  shows "zero_pad 4 (dec n) = [digit (n div 1000), digit (n div 100 mod 10),
                               digit (n div 10 mod 10), digit (n mod 10)]"
proof -
  consider "n < 10" | "10 \<le> n" "n < 100" | "100 \<le> n" "n < 1000" | "1000 \<le> n"
    by linarith
  then show ?thesis
  proof cases
    case 1
    then show ?thesis by (simp add: dec_small zero_pad_def digit_0 zeros)
  next
    case 2
    then have "n div 100 = 0" "n div 1000 = 0" "n div 10 mod 10 = n div 10" by simp_all
    with 2 dec_2[of n] show ?thesis by (simp add: zero_pad_def digit_0 zeros)
  next
    case 3
    then have "n div 1000 = 0" "n div 100 mod 10 = n div 100" by simp_all
    with 3 dec_3[of n] show ?thesis by (simp add: zero_pad_def digit_0)
  next
    case 4
    with dec_4[of n] assms show ?thesis by (simp add: zero_pad_def)
  qed
qed

lemma pad2_int:
  assumes "0 \<le> i" and "i < 100"
  shows "zero_pad 2 (sdec i) = [digit (nat i div 10), digit (nat i mod 10)]"
proof -
  have "nat i < 100" using assms by simp
  from pad2[OF this] assms(1) show ?thesis by (simp add: sdec_def)
qed

lemma mqtt_payload_text:
  assumes "unat (hour d) < 100" and "unat (minute d) < 100" and "unat (second d) < 100"
    and "unat (year d) < 10000" and "unat (month d) < 100" and "unat (day d) < 100"
  shows "mqtt_payload d =
           ''{\"time\":\"'' @
           [digit (unat (hour d) div 10), digit (unat (hour d) mod 10)] @ '':'' @
           [digit (unat (minute d) div 10), digit (unat (minute d) mod 10)] @ '':'' @
           [digit (unat (second d) div 10), digit (unat (second d) mod 10)] @
           ''\",\"date\":\"'' @
           [digit (unat (year d) div 1000), digit (unat (year d) div 100 mod 10),
            digit (unat (year d) div 10 mod 10), digit (unat (year d) mod 10)] @ ''-'' @
           [digit (unat (month d) div 10), digit (unat (month d) mod 10)] @ ''-'' @
           [digit (unat (day d) div 10), digit (unat (day d) mod 10)] @ ''\"}''"
  using assms by (simp add: mqtt_payload_def pad2 pad4 snprintf_def)

lemma fmt_Ymd_HMS_text:
  assumes "tm_range ti" and "- 900 \<le> tm_year ti"
  shows "fmt_Ymd ti @ '' '' @ fmt_HMS ti =
           [digit (nat (tm_year ti + 1900) div 1000), digit (nat (tm_year ti + 1900) div 100 mod 10),
            digit (nat (tm_year ti + 1900) div 10 mod 10), digit (nat (tm_year ti + 1900) mod 10)] @
           ''-'' @
           [digit (nat (tm_mon ti + 1) div 10), digit (nat (tm_mon ti + 1) mod 10)] @ ''-'' @
           [digit (nat (tm_mday ti) div 10), digit (nat (tm_mday ti) mod 10)] @ '' '' @
           [digit (nat (tm_hour ti) div 10), digit (nat (tm_hour ti) mod 10)] @ '':'' @
           [digit (nat (tm_min ti) div 10), digit (nat (tm_min ti) mod 10)] @ '':'' @
           [digit (nat (tm_sec ti) div 10), digit (nat (tm_sec ti) mod 10)]"
proof -
  have y: "1000 \<le> nat (tm_year ti + 1900)" "nat (tm_year ti + 1900) < 10000"
    "0 \<le> tm_year ti + 1900"
    using assms by (auto simp: tm_range_def)
  have "sdec (tm_year ti + 1900) = dec (nat (tm_year ti + 1900))"
    using y(3) by (simp add: sdec_def)
  with dec_4[OF y(1,2)] have yy: "sdec (tm_year ti + 1900) =
      [digit (nat (tm_year ti + 1900) div 1000), digit (nat (tm_year ti + 1900) div 100 mod 10),
       digit (nat (tm_year ti + 1900) div 10 mod 10), digit (nat (tm_year ti + 1900) mod 10)]"
    by simp
  have p: "zero_pad 2 (sdec (tm_mon ti + 1)) =
             [digit (nat (tm_mon ti + 1) div 10), digit (nat (tm_mon ti + 1) mod 10)]"
    "zero_pad 2 (sdec (tm_mday ti)) = [digit (nat (tm_mday ti) div 10), digit (nat (tm_mday ti) mod 10)]"
    "zero_pad 2 (sdec (tm_hour ti)) = [digit (nat (tm_hour ti) div 10), digit (nat (tm_hour ti) mod 10)]"
    "zero_pad 2 (sdec (tm_min ti)) = [digit (nat (tm_min ti) div 10), digit (nat (tm_min ti) mod 10)]"
    "zero_pad 2 (sdec (tm_sec ti)) = [digit (nat (tm_sec ti) div 10), digit (nat (tm_sec ti) mod 10)]"
    using assms(1) by (auto simp: tm_range_def intro!: pad2_int)
  show ?thesis unfolding fmt_Ymd_def fmt_HMS_def by (simp only: yy p append_assoc)
qed

subsection \<open>C6: publishing the time\<close>

text \<open>
  C6. A pass through \<open>loop\<close> of ESP01\_OLED\_V2 calls \<open>mqtt.publish\<close> only in station
  mode, with the first byte of \<open>cfg.mqttHost\<close> not NUL, the client connected, the synced
  flag set, and the 32-bit difference between \<open>millis()\<close> and the stored time above 60000;
  the call carries \<open>cfg.mqttTopic\<close> and the time snapshot as formatted by
  \<open>mqttPublish\<close>, and the pass stores its reading of \<open>millis()\<close>. A pass of
  ESP32\_OLED\_V1 publishes only in station mode with \<open>mqttEnabled\<close> set, the client
  connected and the difference above 60000; the call carries \<open>cfg.mqttTopic\<close> and the
  local time as \<open>"%Y-%m-%d %H:%M:%S"\<close>; and in every state the sketch gets to after
  power-on, \<open>mqttEnabled\<close> implies station mode and a non-empty \<open>cfg.mqttServer\<close>. In both
  sketches a pass at most 60000 ms after the stored time publishes nothing, and, the
  conditions above holding, the MQTT part of a pass later than that publishes (in
  ESP32\_OLED\_V1 when \<open>getLocalTime\<close> succeeds, with a year of at most four digits).
  The message of ESP01\_OLED\_V2 is the text \<open>{"time":"hh:mm:ss","date":"yyyy-mm-dd"}\<close>
  with the decimal digits of the snapshot (two-digit fields below 100, a year below 10000),
  that of ESP32\_OLED\_V1 the text \<open>yyyy-mm-dd hh:mm:ss\<close> with the digits of the local
  time read for the publish (a year from 1000 on).
\<close>

theorem publish_every_minute_in_station_mode:
  "(e01_loop pg e cst = Inr (cst', ops, a, mops, r) \<and> Publish t p \<in> set mops \<longrightarrow>
      \<not> e01_apMode cst \<and> e01_mqttHost (e01_cfg cst) ! 0 \<noteq> NUL \<and>
      mqtt_connected_publish e \<and> synced (e01_ntpData cst') \<and>
      60000 < millis_pub_test e - lastMqttPub cst \<and>
      lastMqttPub cst' = millis_pub_set e \<and>
      t = e01_mqttTopic (e01_cfg cst) \<and> p = mqtt_payload (e01_ntpData cst')) \<and>
   (e01_loop pg e cst = Inr (cst', ops, a, mops, r) \<and>
    lastMqttPub cst = word_of_nat t1 \<and> millis_pub_test e = word_of_nat t2 \<and>
    t1 \<le> t2 \<and> t2 \<le> t1 + 60000 \<longrightarrow>
      Publish t p \<notin> set mops) \<and>
   (\<not> e01_apMode cst \<and> e01_mqttHost (e01_cfg cst) ! 0 \<noteq> NUL \<and>
    mqtt_connected_publish e \<and> synced (e01_ntpData cst) \<and>
    lastMqttPub cst = word_of_nat t1 \<and> millis_pub_test e = word_of_nat t2 \<and>
    t1 + 60000 < t2 \<and> t2 - t1 < 2 ^ 32 \<longrightarrow>
      (\<exists>st' mops. e01_loop_mqtt e cst = (st', mops) \<and>
         Publish (e01_mqttTopic (e01_cfg cst)) (mqtt_payload (e01_ntpData cst)) \<in> set mops \<and>
         lastMqttPub st' = millis_pub_set e)) \<and>
   (e32_loop xpg x xst = Inr (xst', gops, a, mops, r) \<and> Publish t p \<in> set mops \<longrightarrow>
      mqttEnabled xst \<and> pub_connected x \<and> \<not> e32_apMode xst \<and>
      60000 < pub_millis_test x - lastMqtt xst \<and>
      lastMqtt xst' = pub_millis_set x \<and> t = e32_mqttTopic (e32_cfg xst) \<and>
      (\<exists>ti. pub_local_time x = Some ti \<and> p = fmt_Ymd ti @ '' '' @ fmt_HMS ti)) \<and>
   (e32_loop xpg x xst = Inr (xst', gops, a, mops, r) \<and>
    lastMqtt xst = word_of_nat t1 \<and> pub_millis_test x = word_of_nat t2 \<and>
    t1 \<le> t2 \<and> t2 \<le> t1 + 60000 \<longrightarrow>
      Publish t p \<notin> set mops) \<and>
   (mqttEnabled xst \<and> pub_connected x \<and> \<not> e32_apMode xst \<and>
    lastMqtt xst = word_of_nat t1 \<and> pub_millis_test x = word_of_nat t2 \<and>
    t1 + 60000 < t2 \<and> t2 - t1 < 2 ^ 32 \<and>
    pub_local_time x = Some ti \<and> tm_range ti \<longrightarrow>
      e32_loop_publish x xst =
        Inr (xst\<lparr>lastMqtt := pub_millis_set x\<rparr>,
             [Publish (e32_mqttTopic (e32_cfg xst)) (fmt_Ymd ti @ '' '' @ fmt_HMS ti)])) \<and>
   (e32_reachable xpg xst \<and> mqttEnabled xst \<longrightarrow>
      \<not> e32_apMode xst \<and> c_str (e32_mqttServer (e32_cfg xst)) \<noteq> []) \<and>
   (unat (hour d) < 100 \<and> unat (minute d) < 100 \<and> unat (second d) < 100 \<and>
    unat (year d) < 10000 \<and> unat (month d) < 100 \<and> unat (day d) < 100 \<longrightarrow>
      mqtt_payload d =
        ''{\"time\":\"'' @
        [digit (unat (hour d) div 10), digit (unat (hour d) mod 10)] @ '':'' @
        [digit (unat (minute d) div 10), digit (unat (minute d) mod 10)] @ '':'' @
        [digit (unat (second d) div 10), digit (unat (second d) mod 10)] @
        ''\",\"date\":\"'' @
        [digit (unat (year d) div 1000), digit (unat (year d) div 100 mod 10),
         digit (unat (year d) div 10 mod 10), digit (unat (year d) mod 10)] @ ''-'' @
        [digit (unat (month d) div 10), digit (unat (month d) mod 10)] @ ''-'' @
        [digit (unat (day d) div 10), digit (unat (day d) mod 10)] @ ''\"}'') \<and>
   (tm_range tj \<and> - 900 \<le> tm_year tj \<longrightarrow>
      fmt_Ymd tj @ '' '' @ fmt_HMS tj =
        [digit (nat (tm_year tj + 1900) div 1000), digit (nat (tm_year tj + 1900) div 100 mod 10),
         digit (nat (tm_year tj + 1900) div 10 mod 10), digit (nat (tm_year tj + 1900) mod 10)] @
        ''-'' @
        [digit (nat (tm_mon tj + 1) div 10), digit (nat (tm_mon tj + 1) mod 10)] @ ''-'' @
        [digit (nat (tm_mday tj) div 10), digit (nat (tm_mday tj) mod 10)] @ '' '' @
        [digit (nat (tm_hour tj) div 10), digit (nat (tm_hour tj) mod 10)] @ '':'' @
        [digit (nat (tm_min tj) div 10), digit (nat (tm_min tj) mod 10)] @ '':'' @
        [digit (nat (tm_sec tj) div 10), digit (nat (tm_sec tj) mod 10)])"
proof (intro conjI impI)
  show "\<not> e01_apMode cst" and "e01_mqttHost (e01_cfg cst) ! 0 \<noteq> NUL"
    and "mqtt_connected_publish e" and "synced (e01_ntpData cst')"
    and "60000 < millis_pub_test e - lastMqttPub cst"
    and "lastMqttPub cst' = millis_pub_set e"
    and "t = e01_mqttTopic (e01_cfg cst)" and "p = mqtt_payload (e01_ntpData cst')"
    if "e01_loop pg e cst = Inr (cst', ops, a, mops, r) \<and> Publish t p \<in> set mops"
    using e01_loop_publish[of pg e cst cst' ops a mops r t p] that by simp_all
  show "Publish t p \<notin> set mops"
    if h: "e01_loop pg e cst = Inr (cst', ops, a, mops, r) \<and>
        lastMqttPub cst = word_of_nat t1 \<and> millis_pub_test e = word_of_nat t2 \<and>
        t1 \<le> t2 \<and> t2 \<le> t1 + 60000"
  proof
    assume "Publish t p \<in> set mops"
    with e01_loop_publish[of pg e cst cst' ops a mops r t p] h
    have "(word_of_nat 60000 :: 32 word) < word_of_nat t2 - word_of_nat t1" by simp
    moreover from h have "\<not> (word_of_nat 60000 :: 32 word) < word_of_nat t2 - word_of_nat t1"
      by (intro millis_not_over) simp_all
    ultimately show False by simp
  qed
  show "\<exists>st' mops. e01_loop_mqtt e cst = (st', mops) \<and>
         Publish (e01_mqttTopic (e01_cfg cst)) (mqtt_payload (e01_ntpData cst)) \<in> set mops \<and>
         lastMqttPub st' = millis_pub_set e"
    if h: "\<not> e01_apMode cst \<and> e01_mqttHost (e01_cfg cst) ! 0 \<noteq> NUL \<and>
        mqtt_connected_publish e \<and> synced (e01_ntpData cst) \<and>
        lastMqttPub cst = word_of_nat t1 \<and> millis_pub_test e = word_of_nat t2 \<and>
        t1 + 60000 < t2 \<and> t2 - t1 < 2 ^ 32"
  proof -
    from h have "(word_of_nat 60000 :: 32 word) < word_of_nat t2 - word_of_nat t1"
      by (intro millis_over) simp_all
    with h have "60000 < millis_pub_test e - lastMqttPub cst" by simp
    with h show ?thesis by (intro e01_loop_mqtt_due) simp_all
  qed
  show "mqttEnabled xst" and "pub_connected x" and "\<not> e32_apMode xst"
    and "60000 < pub_millis_test x - lastMqtt xst"
    and "lastMqtt xst' = pub_millis_set x" and "t = e32_mqttTopic (e32_cfg xst)"
    and "\<exists>ti. pub_local_time x = Some ti \<and> p = fmt_Ymd ti @ '' '' @ fmt_HMS ti"
    if "e32_loop xpg x xst = Inr (xst', gops, a, mops, r) \<and> Publish t p \<in> set mops"
    using e32_loop_publishes[of xpg x xst xst' gops a mops r t p] that by simp_all
  show "Publish t p \<notin> set mops"
    if h: "e32_loop xpg x xst = Inr (xst', gops, a, mops, r) \<and>
        lastMqtt xst = word_of_nat t1 \<and> pub_millis_test x = word_of_nat t2 \<and>
        t1 \<le> t2 \<and> t2 \<le> t1 + 60000"
  proof
    assume "Publish t p \<in> set mops"
    with e32_loop_publishes[of xpg x xst xst' gops a mops r t p] h
    have "(word_of_nat 60000 :: 32 word) < word_of_nat t2 - word_of_nat t1" by simp
    moreover from h have "\<not> (word_of_nat 60000 :: 32 word) < word_of_nat t2 - word_of_nat t1"
      by (intro millis_not_over) simp_all
    ultimately show False by simp
  qed
  show "e32_loop_publish x xst =
        Inr (xst\<lparr>lastMqtt := pub_millis_set x\<rparr>,
             [Publish (e32_mqttTopic (e32_cfg xst)) (fmt_Ymd ti @ '' '' @ fmt_HMS ti)])"
    if h: "mqttEnabled xst \<and> pub_connected x \<and> \<not> e32_apMode xst \<and>
        lastMqtt xst = word_of_nat t1 \<and> pub_millis_test x = word_of_nat t2 \<and>
        t1 + 60000 < t2 \<and> t2 - t1 < 2 ^ 32 \<and>
        pub_local_time x = Some ti \<and> tm_range ti"
  proof -
    from h have "(word_of_nat 60000 :: 32 word) < word_of_nat t2 - word_of_nat t1"
      by (intro millis_over) simp_all
    with h have "60000 < pub_millis_test x - lastMqtt xst" by simp
    with h show ?thesis by (intro e32_loop_publish_due) simp_all
  qed
  show "\<not> e32_apMode xst" and "c_str (e32_mqttServer (e32_cfg xst)) \<noteq> []"
    if "e32_reachable xpg xst \<and> mqttEnabled xst"
    using e32_reachable_enabled[of xpg xst] that by simp_all
  show "mqtt_payload d =
        ''{\"time\":\"'' @
        [digit (unat (hour d) div 10), digit (unat (hour d) mod 10)] @ '':'' @
        [digit (unat (minute d) div 10), digit (unat (minute d) mod 10)] @ '':'' @
        [digit (unat (second d) div 10), digit (unat (second d) mod 10)] @
        ''\",\"date\":\"'' @
        [digit (unat (year d) div 1000), digit (unat (year d) div 100 mod 10),
         digit (unat (year d) div 10 mod 10), digit (unat (year d) mod 10)] @ ''-'' @
        [digit (unat (month d) div 10), digit (unat (month d) mod 10)] @ ''-'' @
        [digit (unat (day d) div 10), digit (unat (day d) mod 10)] @ ''\"}''"
    if "unat (hour d) < 100 \<and> unat (minute d) < 100 \<and> unat (second d) < 100 \<and>
        unat (year d) < 10000 \<and> unat (month d) < 100 \<and> unat (day d) < 100"
    using that by (intro mqtt_payload_text) simp_all
  show "fmt_Ymd tj @ '' '' @ fmt_HMS tj =
        [digit (nat (tm_year tj + 1900) div 1000), digit (nat (tm_year tj + 1900) div 100 mod 10),
         digit (nat (tm_year tj + 1900) div 10 mod 10), digit (nat (tm_year tj + 1900) mod 10)] @
        ''-'' @
        [digit (nat (tm_mon tj + 1) div 10), digit (nat (tm_mon tj + 1) mod 10)] @ ''-'' @
        [digit (nat (tm_mday tj) div 10), digit (nat (tm_mday tj) mod 10)] @ '' '' @
        [digit (nat (tm_hour tj) div 10), digit (nat (tm_hour tj) mod 10)] @ '':'' @
        [digit (nat (tm_min tj) div 10), digit (nat (tm_min tj) mod 10)] @ '':'' @
        [digit (nat (tm_sec tj) div 10), digit (nat (tm_sec tj) mod 10)]"
    if "tm_range tj \<and> - 900 \<le> tm_year tj"
    using that by (intro fmt_Ymd_HMS_text) simp_all
qed

theorem publish_every_minute_in_station_mode_witness:
  "\<forall>(e :: e01_env) (pg :: pages) (x :: e32_env) (xpg :: e32_pages).
     (\<exists>S1 S2 ops.
        e01_loop pg
            (e\<lparr>time_now := 1793622607,
               local_tm := \<lparr>tm_sec = 7, tm_min = 30, tm_hour = 12, tm_mday = 2, tm_mon = 10,
                 tm_year = 126, tm_wday = 1\<rparr>,
               millis_oled_test := 400, request := None, mqtt_connected_reconnect := True,
               millis_pub_test := 400, mqtt_connected_publish := True\<rparr>)
            (e01_setup \<lparr>wifi_connected = (\<lambda>t. 1000 \<le> t), begin_time = 300\<rparr>
               (e01_zeroed\<lparr>e01_magic := 0xCD, e01_ssid := ''home'' @ replicate 29 NUL,
                          e01_pass := ''secret12'' @ replicate 57 NUL,
                          e01_mqttHost := ''mq.example.org'' @ replicate 51 NUL,
                          e01_mqttPort := 1883,
                          e01_mqttTopic := ''ntp/esp01'' @ replicate 56 NUL,
                          e01_tzInfo := ''ICT-7'' @ replicate 35 NUL\<rparr>)) =
          Inr (S1, [], None, [MqttLoop], False) \<and>
        Publish (''ntp/esp01'' @ replicate 56 NUL) ''{\"time\":\"12:31:08\",\"date\":\"2026-11-02\"}'' \<notin> set [MqttLoop] \<and>
        e01_reachable pg S1 \<and> \<not> e01_apMode S1 \<and>
        c_str (e01_mqttHost (e01_cfg S1)) = ''mq.example.org'' \<and> synced (e01_ntpData S1) \<and>
        e01_loop pg
            (e\<lparr>time_now := 1793622668,
               local_tm := \<lparr>tm_sec = 8, tm_min = 31, tm_hour = 12, tm_mday = 2, tm_mon = 10,
                 tm_year = 126, tm_wday = 1\<rparr>,
               millis_oled_test := 61000, millis_oled_set := 61000, request := None,
               mqtt_connected_reconnect := True, millis_pub_test := 61001,
               mqtt_connected_publish := True, millis_pub_set := 61002\<rparr>)
            S1 =
          Inr (S2, ops, None, [MqttLoop, Publish (''ntp/esp01'' @ replicate 56 NUL) ''{\"time\":\"12:31:08\",\"date\":\"2026-11-02\"}''], False) \<and>
        lastMqttPub S2 = 61002 \<and> synced (e01_ntpData S2) \<and>
        (\<exists>st mops.
           e01_loop_mqtt
            (e\<lparr>time_now := 1793622668,
               local_tm := \<lparr>tm_sec = 8, tm_min = 31, tm_hour = 12, tm_mday = 2, tm_mon = 10,
                 tm_year = 126, tm_wday = 1\<rparr>,
               millis_oled_test := 61000, millis_oled_set := 61000, request := None,
               mqtt_connected_reconnect := True, millis_pub_test := 61001,
               mqtt_connected_publish := True, millis_pub_set := 61002\<rparr>)
            S1 = (st, mops) \<and>
           Publish (''ntp/esp01'' @ replicate 56 NUL) ''{\"time\":\"12:30:07\",\"date\":\"2026-11-02\"}'' \<in> set mops \<and>
           lastMqttPub st = 61002)) \<and>
     (\<exists>X0 m0 X1 gops.
        e32_setup
            \<lparr>wifi_connected = (\<lambda>t. 1000 \<le> t), begin_time = 300,
              boot_retry = \<lparr>retry_connected = False, retry_millis_test = 2000,
                             retry_millis_set = 2000, retry_random = 7\<rparr>\<rparr>
            (e32_zeroed\<lparr>e32_magic := 0xE7, e32_ssid := ''home'' @ replicate 29 NUL,
                          e32_pass := ''secret12'' @ replicate 57 NUL,
                          e32_tzInfo := ''ICT-7'' @ replicate 35 NUL,
                          e32_mqttServer := ''mq.example.org'' @ replicate 51 NUL,
                          e32_mqttPort := 1883,
                          e32_mqttTopic := ''esp32/oled/time'' @ replicate 50 NUL,
                          e32_ledBlink := 1\<rparr>) =
          Inr (X0, m0) \<and>
        e32_reachable xpg X0 \<and> mqttEnabled X0 \<and> \<not> e32_apMode X0 \<and>
        c_str (e32_mqttServer (e32_cfg X0)) = ''mq.example.org'' \<and>
        e32_loop xpg
            (x\<lparr>loop_connected := True, e32_request := None, oled_millis_test := 400,
               led_millis_test := 400, pub_connected := True, pub_millis_test := 400\<rparr>)
            X0 =
          Inr (X0, [], None, [MqttLoop], False) \<and>
        Publish (''esp32/oled/time'' @ replicate 50 NUL) ''2026-11-02 12:30:07'' \<notin> set [MqttLoop] \<and>
        e32_loop xpg
            (x\<lparr>loop_connected := True, e32_request := None, oled_millis_test := 61000,
               oled_millis_set := 61000,
               oled_local_time := Some \<lparr>tm_sec = 7, tm_min = 30, tm_hour = 12, tm_mday = 2, tm_mon = 10,
                 tm_year = 126, tm_wday = 1\<rparr>,
               led_millis_test := 61000, led_millis_set := 61000, pub_connected := True,
               pub_millis_test := 61001, pub_millis_set := 61002,
               pub_local_time := Some \<lparr>tm_sec = 7, tm_min = 30, tm_hour = 12, tm_mday = 2, tm_mon = 10,
                 tm_year = 126, tm_wday = 1\<rparr>\<rparr>)
            X0 =
          Inr (X1, gops, None, [MqttLoop, Publish (''esp32/oled/time'' @ replicate 50 NUL) ''2026-11-02 12:30:07''], False) \<and>
        lastMqtt X1 = 61002 \<and>
        e32_loop_publish
            (x\<lparr>loop_connected := True, e32_request := None, oled_millis_test := 61000,
               oled_millis_set := 61000,
               oled_local_time := Some \<lparr>tm_sec = 7, tm_min = 30, tm_hour = 12, tm_mday = 2, tm_mon = 10,
                 tm_year = 126, tm_wday = 1\<rparr>,
               led_millis_test := 61000, led_millis_set := 61000, pub_connected := True,
               pub_millis_test := 61001, pub_millis_set := 61002,
               pub_local_time := Some \<lparr>tm_sec = 7, tm_min = 30, tm_hour = 12, tm_mday = 2, tm_mon = 10,
                 tm_year = 126, tm_wday = 1\<rparr>\<rparr>)
            X0 =
          Inr (X0\<lparr>lastMqtt := 61002\<rparr>, [Publish (''esp32/oled/time'' @ replicate 50 NUL) ''2026-11-02 12:30:07'']))"
proof (intro allI conjI)
  fix e :: e01_env and pg :: pages and x :: e32_env and xpg :: e32_pages
  let ?ltA = "\<lparr>tm_sec = 7, tm_min = 30, tm_hour = 12, tm_mday = 2, tm_mon = 10,
                 tm_year = 126, tm_wday = 1\<rparr>"
  let ?ltP = "\<lparr>tm_sec = 8, tm_min = 31, tm_hour = 12, tm_mday = 2, tm_mon = 10,
                 tm_year = 126, tm_wday = 1\<rparr>"
  let ?b = "\<lparr>wifi_connected = (\<lambda>t. 1000 \<le> t), begin_time = 300\<rparr>"
  let ?ee = "(e01_zeroed\<lparr>e01_magic := 0xCD, e01_ssid := ''home'' @ replicate 29 NUL,
                          e01_pass := ''secret12'' @ replicate 57 NUL,
                          e01_mqttHost := ''mq.example.org'' @ replicate 51 NUL,
                          e01_mqttPort := 1883,
                          e01_mqttTopic := ''ntp/esp01'' @ replicate 56 NUL,
                          e01_tzInfo := ''ICT-7'' @ replicate 35 NUL\<rparr>)"
  let ?eA = "(e\<lparr>time_now := 1793622607,
               local_tm := \<lparr>tm_sec = 7, tm_min = 30, tm_hour = 12, tm_mday = 2, tm_mon = 10,
                 tm_year = 126, tm_wday = 1\<rparr>,
               millis_oled_test := 400, request := None, mqtt_connected_reconnect := True,
               millis_pub_test := 400, mqtt_connected_publish := True\<rparr>)"
  let ?eP = "(e\<lparr>time_now := 1793622668,
               local_tm := \<lparr>tm_sec = 8, tm_min = 31, tm_hour = 12, tm_mday = 2, tm_mon = 10,
                 tm_year = 126, tm_wday = 1\<rparr>,
               millis_oled_test := 61000, millis_oled_set := 61000, request := None,
               mqtt_connected_reconnect := True, millis_pub_test := 61001,
               mqtt_connected_publish := True, millis_pub_set := 61002\<rparr>)"
  let ?topic = "(''ntp/esp01'' @ replicate 56 NUL)"
  let ?payA = "''{\"time\":\"12:30:07\",\"date\":\"2026-11-02\"}''"
  let ?payP = "''{\"time\":\"12:31:08\",\"date\":\"2026-11-02\"}''"
  let ?S0 = "e01_startSTA ((e01_boot ?ee)\<lparr>e01_cfg := ?ee\<rparr>)"
  let ?dA = "ntpUpdate 1793622607 ?ltA ntpData_boot"
  let ?dP = "ntpUpdate 1793622668 ?ltP ?dA"
  let ?S1 = "?S0\<lparr>e01_ntpData := ?dA\<rparr>"
  let ?S2 = "?S0\<lparr>e01_ntpData := ?dP, e01_lastOledUpdate := 61000, lastMqttPub := 61002\<rparr>"
  let ?xb = "\<lparr>wifi_connected = (\<lambda>t. 1000 \<le> t), begin_time = 300,
              boot_retry = \<lparr>retry_connected = False, retry_millis_test = 2000,
                             retry_millis_set = 2000, retry_random = 7\<rparr>\<rparr>"
  let ?xee = "(e32_zeroed\<lparr>e32_magic := 0xE7, e32_ssid := ''home'' @ replicate 29 NUL,
                          e32_pass := ''secret12'' @ replicate 57 NUL,
                          e32_tzInfo := ''ICT-7'' @ replicate 35 NUL,
                          e32_mqttServer := ''mq.example.org'' @ replicate 51 NUL,
                          e32_mqttPort := 1883,
                          e32_mqttTopic := ''esp32/oled/time'' @ replicate 50 NUL,
                          e32_ledBlink := 1\<rparr>)"
  let ?xQ = "(x\<lparr>loop_connected := True, e32_request := None, oled_millis_test := 400,
               led_millis_test := 400, pub_connected := True, pub_millis_test := 400\<rparr>)"
  let ?xP = "(x\<lparr>loop_connected := True, e32_request := None, oled_millis_test := 61000,
               oled_millis_set := 61000,
               oled_local_time := Some \<lparr>tm_sec = 7, tm_min = 30, tm_hour = 12, tm_mday = 2, tm_mon = 10,
                 tm_year = 126, tm_wday = 1\<rparr>,
               led_millis_test := 61000, led_millis_set := 61000, pub_connected := True,
               pub_millis_test := 61001, pub_millis_set := 61002,
               pub_local_time := Some \<lparr>tm_sec = 7, tm_min = 30, tm_hour = 12, tm_mday = 2, tm_mon = 10,
                 tm_year = 126, tm_wday = 1\<rparr>\<rparr>)"
  let ?xtopic = "(''esp32/oled/time'' @ replicate 50 NUL)"
  let ?xtext = "''2026-11-02 12:30:07''"
  let ?X0 = "(e32_boot ?xee)\<lparr>e32_cfg := ?xee, e32_apMode := False, mqttEnabled := True\<rparr>"
  note T = publish_every_minute_in_station_mode
  note T1 = T[THEN conjunct1, rule_format]
  note T2 = T[THEN conjunct2, THEN conjunct1, rule_format]
  note T3 = T[THEN conjunct2, THEN conjunct2, THEN conjunct1, rule_format]
  note T4 = T[THEN conjunct2, THEN conjunct2, THEN conjunct2, THEN conjunct1, rule_format]
  note T5 = T[THEN conjunct2, THEN conjunct2, THEN conjunct2, THEN conjunct2, THEN conjunct1, rule_format]
  note T6 = T[THEN conjunct2, THEN conjunct2, THEN conjunct2, THEN conjunct2, THEN conjunct2, THEN conjunct1, rule_format]
  note T7 = T[THEN conjunct2, THEN conjunct2, THEN conjunct2, THEN conjunct2, THEN conjunct2, THEN conjunct2, THEN conjunct1, rule_format]
  note T8 = T[THEN conjunct2, THEN conjunct2, THEN conjunct2, THEN conjunct2, THEN conjunct2, THEN conjunct2, THEN conjunct2, THEN conjunct1, rule_format]
  note T9 = T[THEN conjunct2, THEN conjunct2, THEN conjunct2, THEN conjunct2, THEN conjunct2, THEN conjunct2, THEN conjunct2, THEN conjunct2, rule_format]
  have px: "\<exists>k\<le>60. wifi_connected ?b (begin_time ?b + 250 * k)"
    by (rule exI[of _ 3]) simp
  with wifi_wait_result[of ?b] have
    "wifi_connected ?b (wifi_wait (wifi_connected ?b) (word_of_nat (begin_time ?b)) (begin_time ?b))"
    by blast
  then have w: "(1000 :: nat) \<le> wifi_wait (\<lambda>t. 1000 \<le> t) 300 300" by simp
  have s0: "e01_setup ?b ?ee = ?S0"
    by (simp add: e01_setup_def e01_boot_def e01_loadConfig_def e01_EEPROM_MAGIC_def Let_def
        e01_wifiConnect_def e01_zeroed_def NUL_def w)
  have lA0: "e01_loop pg ?eA ?S0 = Inr (?S1, [], None, [MqttLoop], False)"
    by (simp add: e01_loop_def e01_startSTA_def e01_boot_def e01_oledUpdate_def
        e01_handleClient_def and_then_def Let_def e01_loop_mqtt_def e01_mqttReconnect_def
        e01_zeroed_def NUL_def)
  then have lA: "e01_loop pg ?eA (e01_setup ?b ?ee) = Inr (?S1, [], None, [MqttLoop], False)"
    by (simp only: s0)
  have "e01_reachable pg (e01_setup ?b ?ee)" by (rule e01_booted)
  moreover have "localtime_range (local_tm ?eA)" by (simp add: localtime_range_def)
  ultimately have r1: "e01_reachable pg ?S1" using lA by (rule e01_looped)
  have "lastMqttPub ?S0 = word_of_nat 0" by (simp add: e01_startSTA_def e01_boot_def)
  then have l0: "lastMqttPub (e01_setup ?b ?ee) = word_of_nat 0" by (simp only: s0)
  have tA: "millis_pub_test ?eA = word_of_nat 400 \<and> (0 :: nat) \<le> 400 \<and>
      (400 :: nat) \<le> 0 + 60000"
    by simp
  note hA = conjI[OF lA conjI[OF l0 tA]]
  from T2[OF hA, of ?topic ?payP] have q: "Publish ?topic ?payP \<notin> set [MqttLoop]" .
  have dA: "unat (hour ?dA) < 100 \<and> unat (minute ?dA) < 100 \<and> unat (second ?dA) < 100 \<and>
      unat (year ?dA) < 10000 \<and> unat (month ?dA) < 100 \<and> unat (day ?dA) < 100"
    by (simp add: ntpUpdate_def ntpData_boot_def)
  have dP: "unat (hour ?dP) < 100 \<and> unat (minute ?dP) < 100 \<and> unat (second ?dP) < 100 \<and>
      unat (year ?dP) < 10000 \<and> unat (month ?dP) < 100 \<and> unat (day ?dP) < 100"
    by (simp add: ntpUpdate_def ntpData_boot_def)
  from T8[OF dA] have payA: "mqtt_payload ?dA = ?payA"
    by (simp add: ntpUpdate_def ntpData_boot_def digit_def)
  from T8[OF dP] have payP: "mqtt_payload ?dP = ?payP"
    by (simp add: ntpUpdate_def ntpData_boot_def digit_def)
  have "\<exists>ops. e01_loop pg ?eP ?S1 =
      Inr (?S2, ops, None, [MqttLoop, Publish ?topic (mqtt_payload ?dP)], False)"
    by (simp add: e01_loop_def e01_startSTA_def e01_boot_def e01_oledUpdate_def
        e01_handleClient_def and_then_def Let_def e01_loop_mqtt_def e01_mqttReconnect_def
        mqttPublish_def e01_zeroed_def NUL_def ntpUpdate_def dateBuf_def at_index_def
        DAYS_def MONTHS_def ntpData_boot_def)
  then obtain ops where lP: "e01_loop pg ?eP ?S1 =
      Inr (?S2, ops, None, [MqttLoop, Publish ?topic ?payP], False)"
    by (auto simp only: payP)
  have mem: "Publish ?topic ?payP \<in> set [MqttLoop, Publish ?topic ?payP]" by simp
  note hP = conjI[OF lP mem]
  note c1 = T1[OF hP]
  from c1 have ap: "\<not> e01_apMode ?S1" and sy2: "synced (e01_ntpData ?S2)"
    and st2: "lastMqttPub ?S2 = 61002"
    by simp_all
  have host: "c_str (e01_mqttHost (e01_cfg ?S1)) = ''mq.example.org''"
    by (simp add: e01_startSTA_def e01_boot_def c_str_def NUL_def)
  have sy1: "synced (e01_ntpData ?S1)" by (simp add: ntpUpdate_def)
  have h3: "\<not> e01_apMode ?S1 \<and> e01_mqttHost (e01_cfg ?S1) ! 0 \<noteq> NUL \<and>
      mqtt_connected_publish ?eP \<and> synced (e01_ntpData ?S1) \<and>
      lastMqttPub ?S1 = word_of_nat 0 \<and> millis_pub_test ?eP = word_of_nat 61001 \<and>
      (0 :: nat) + 60000 < 61001 \<and> (61001 :: nat) - 0 < 2 ^ 32"
    using ap sy1 by (simp add: e01_startSTA_def e01_boot_def NUL_def)
  from T3[OF h3] obtain st mops where m: "e01_loop_mqtt ?eP ?S1 = (st, mops)"
    "Publish (e01_mqttTopic (e01_cfg ?S1)) (mqtt_payload (e01_ntpData ?S1)) \<in> set mops"
    "lastMqttPub st = millis_pub_set ?eP"
    by blast
  have "e01_mqttTopic (e01_cfg ?S1) = ?topic" by (simp add: e01_startSTA_def e01_boot_def)
  moreover have "mqtt_payload (e01_ntpData ?S1) = ?payA" using payA by simp
  ultimately have m2: "Publish ?topic ?payA \<in> set mops" using m(2) by simp
  have m3: "lastMqttPub st = 61002" using m(3) by simp
  from m(1) m2 m3 have due: "\<exists>st mops. e01_loop_mqtt ?eP ?S1 = (st, mops) \<and>
      Publish ?topic ?payA \<in> set mops \<and> lastMqttPub st = 61002"
    by blast
  show "\<exists>S1 S2 ops.
        e01_loop pg ?eA (e01_setup ?b ?ee) = Inr (S1, [], None, [MqttLoop], False) \<and>
        Publish ?topic ?payP \<notin> set [MqttLoop] \<and>
        e01_reachable pg S1 \<and> \<not> e01_apMode S1 \<and>
        c_str (e01_mqttHost (e01_cfg S1)) = ''mq.example.org'' \<and> synced (e01_ntpData S1) \<and>
        e01_loop pg ?eP S1 =
          Inr (S2, ops, None, [MqttLoop, Publish ?topic ?payP], False) \<and>
        lastMqttPub S2 = 61002 \<and> synced (e01_ntpData S2) \<and>
        (\<exists>st mops. e01_loop_mqtt ?eP S1 = (st, mops) \<and>
           Publish ?topic ?payA \<in> set mops \<and> lastMqttPub st = 61002)"
    by (rule exI[of _ ?S1], rule exI[of _ ?S2], rule exI[of _ ops])
       (intro conjI lA q r1 ap host sy1 lP st2 sy2 due)
  have xpx: "\<exists>k\<le>30. wifi_connected ?xb (begin_time ?xb + 500 * k)"
    by (rule exI[of _ 2]) simp
  with connectWiFi_result[of ?xb] have cw: "connectWiFi ?xb" by blast
  have xs0: "e32_setup ?xb ?xee =
      Inr (?X0, [SetServer (''mq.example.org'' @ replicate 51 NUL) 1883])"
    by (simp add: e32_setup_def e32_boot_def e32_loadConfig_def e32_EEPROM_MAGIC_def Let_def
        e32_zeroed_def NUL_def cw field_str_def c_str_def and_then_def setupMQTT_def
        e32_mqttReconnect_def)
  then have xr: "e32_reachable xpg ?X0" by (rule e32_booted)
  have en: "mqttEnabled ?X0" by simp
  from xr en have "e32_reachable xpg ?X0 \<and> mqttEnabled ?X0" by simp
  from T7[OF this] have xap: "\<not> e32_apMode ?X0" by simp
  have srv: "c_str (e32_mqttServer (e32_cfg ?X0)) = ''mq.example.org''"
    by (simp add: c_str_def NUL_def)
  have lQ: "e32_loop xpg ?xQ ?X0 = Inr (?X0, [], None, [MqttLoop], False)"
    by (simp add: e32_loop_def e32_loop_head_def e32_handleClient_def updateOLED_def blinkLED_def
        e32_loop_publish_def and_then_def Let_def e32_boot_def e32_zeroed_def)
  have tQ: "lastMqtt ?X0 = word_of_nat 0 \<and> pub_millis_test ?xQ = word_of_nat 400 \<and>
      (0 :: nat) \<le> 400 \<and> (400 :: nat) \<le> 0 + 60000"
    by (simp add: e32_boot_def)
  note hQ = conjI[OF lQ tQ]
  from T5[OF hQ, of ?xtopic ?xtext] have xq: "Publish ?xtopic ?xtext \<notin> set [MqttLoop]" .
  have tr: "tm_range ?ltA \<and> - 900 \<le> tm_year ?ltA" by (simp add: tm_range_def)
  from T9[OF tr] have tx: "fmt_Ymd ?ltA @ '' '' @ fmt_HMS ?ltA = ?xtext"
    by (simp add: digit_def)
  have "\<exists>X1 gops. e32_loop xpg ?xP ?X0 =
      Inr (X1, gops, None, [MqttLoop, Publish ?xtopic ?xtext], False)"
    by (simp add: e32_loop_def e32_loop_head_def e32_handleClient_def updateOLED_def blinkLED_def
        e32_loop_publish_def and_then_def Let_def e32_boot_def e32_zeroed_def
        strftime_def fmt_adbY_def at_index_def DAYS_def MONTHS_def fmt_HMS_def fmt_Ymd_def
        sdec_def zero_pad_def dec.simps digit_def e32_clock_screen_def)
  then obtain X1 gops where xlP: "e32_loop xpg ?xP ?X0 =
      Inr (X1, gops, None, [MqttLoop, Publish ?xtopic ?xtext], False)"
    by blast
  have xmem: "Publish ?xtopic ?xtext \<in> set [MqttLoop, Publish ?xtopic ?xtext]" by simp
  note xhP = conjI[OF xlP xmem]
  from T4[OF xhP] have xst: "lastMqtt X1 = 61002" by simp
  have h6: "mqttEnabled ?X0 \<and> pub_connected ?xP \<and> \<not> e32_apMode ?X0 \<and>
      lastMqtt ?X0 = word_of_nat 0 \<and> pub_millis_test ?xP = word_of_nat 61001 \<and>
      (0 :: nat) + 60000 < 61001 \<and> (61001 :: nat) - 0 < 2 ^ 32 \<and>
      pub_local_time ?xP = Some ?ltA \<and> tm_range ?ltA"
    using tr by (simp add: e32_boot_def)
  from T6[OF h6] have "e32_loop_publish ?xP ?X0 =
      Inr (?X0\<lparr>lastMqtt := pub_millis_set ?xP\<rparr>,
           [Publish (e32_mqttTopic (e32_cfg ?X0)) (fmt_Ymd ?ltA @ '' '' @ fmt_HMS ?ltA)])" .
  then have xdue: "e32_loop_publish ?xP ?X0 =
      Inr (?X0\<lparr>lastMqtt := 61002\<rparr>, [Publish ?xtopic ?xtext])"
    by (simp only: tx) simp
  show "\<exists>X0 m0 X1 gops.
        e32_setup ?xb ?xee = Inr (X0, m0) \<and>
        e32_reachable xpg X0 \<and> mqttEnabled X0 \<and> \<not> e32_apMode X0 \<and>
        c_str (e32_mqttServer (e32_cfg X0)) = ''mq.example.org'' \<and>
        e32_loop xpg ?xQ X0 = Inr (X0, [], None, [MqttLoop], False) \<and>
        Publish ?xtopic ?xtext \<notin> set [MqttLoop] \<and>
        e32_loop xpg ?xP X0 =
          Inr (X1, gops, None, [MqttLoop, Publish ?xtopic ?xtext], False) \<and>
        lastMqtt X1 = 61002 \<and>
        e32_loop_publish ?xP X0 =
          Inr (X0\<lparr>lastMqtt := 61002\<rparr>, [Publish ?xtopic ?xtext])"
    by (rule exI[of _ ?X0],
        rule exI[of _ "[SetServer (''mq.example.org'' @ replicate 51 NUL) 1883]"],
        rule exI[of _ X1], rule exI[of _ gops])
       (intro conjI xs0 xr en xap srv lQ xq xlP xst xdue)
qed

end
